(* ===== verification/Prelude.thy ===== *)
theory Prelude
  imports Main "HOL-Library.Word"
begin

text \<open>
  Shared vocabulary of the development. The named collections gather the rules that the
  component theories register for their operations, so that the proofs of a later
  component unfold an earlier one with \<open>simp add: store_ops\<close> and the like, instead of
  naming each definition. The list lemmas below are the facts about documents kept in a
  collection (a list of records with a key field) that the store and the handlers share.
\<close>

named_theorems store_ops \<open>unfolding rules of the entity store operations\<close>
named_theorems handler_defs \<open>unfolding rules of the request handlers\<close>
named_theorems inv_rules \<open>facts that carry the consistency invariant through writes\<close>

section \<open>Collections as lists of documents with a key\<close>

text \<open>
  A MongoDB collection is modelled as the list of its documents in natural order. The
  document with key \<open>k\<close> is found with \<^const>\<open>find\<close>; the keys are kept distinct by the
  unique \<open>_id\<close> index, which every insertion checks.
\<close>

lemma find_key_Some:
  assumes "find (\<lambda>x. key x = k) xs = Some y"
  shows "y \<in> set xs \<and> key y = k"
  using assms by (induction xs) (auto split: if_splits)

lemma find_key_None [simp]:
  "(find (\<lambda>x. key x = k) xs = None) = (k \<notin> key ` set xs)"
  by (induction xs) auto

lemma find_key_absent:
  "k \<notin> key ` set xs \<Longrightarrow> find (\<lambda>x. key x = k) xs = None"
  by simp

lemma find_key_distinct:
  assumes "distinct (map key xs)" and "y \<in> set xs"
  shows "find (\<lambda>x. key x = key y) xs = Some y"
  using assms by (induction xs) (auto simp: image_iff)

lemma filter_key_remove_set [simp]:
  "set (filter (\<lambda>x. key x \<noteq> k) xs) = {x \<in> set xs. key x \<noteq> k}"
  by auto

lemma distinct_map_filter_key [intro]:
  "distinct (map key xs) \<Longrightarrow> distinct (map key (filter P xs))"
  by (simp add: distinct_map_filter)

lemma map_key_update_same [simp]:
  assumes "\<And>x. key (f x) = key x"
  shows "map key (map (\<lambda>x. if key x = k then f x else x) xs) = map key xs"
  using assms by (induction xs) auto

lemma takeWhile_replicate_stop [simp]:
  "b \<noteq> a \<Longrightarrow> takeWhile (\<lambda>c. c = a) (replicate n a @ b # r) = replicate n a"
  by (induction n) auto

lemma set_removeAll_subset [intro]: "set (removeAll a xs) \<subseteq> set xs"
  by auto

end
