(* ===== verification/ObjectId.thy ===== *)
theory ObjectId
  imports Prelude
begin

text \<open>
  Document identities. Every \<open>_id\<close> of the \<open>User\<close> and \<open>Place\<close> collections is a BSON
  ObjectId: twelve bytes, here a \<open>96 word\<close>. The controllers never handle ObjectIds
  directly: route parameters (\<open>req.params.pid\<close>, \<open>req.params.uid\<close>) and the token's
  \<open>userId\<close> are strings, which mongoose casts to an ObjectId on \<open>findById\<close> and
  \<open>find\<close> (a string that is not 24 hexadecimal digits raises a \<open>CastError\<close>), and a
  document's \<open>id\<close> getter and \<open>toString()\<close> print the ObjectId as 24 lower-case
  hexadecimal digits. The ownership checks of \<open>updatePlace\<close> and \<open>deletePlace\<close>
  compare such printed strings. This theory models the printing and the casting and
  proves that they are inverse, so that comparing printed ids is comparing ids.
\<close>

type_synonym oid = "96 word"

section \<open>Hexadecimal digits\<close>

definition hex_char :: "nat \<Rightarrow> char" where
  "hex_char d = (if d < 10 then char_of (48 + d) else char_of (87 + d))"

text \<open>\<open>hex_digits k n\<close>: the last \<open>k\<close> hexadecimal digits of \<open>n\<close>, most significant first.\<close>

fun hex_digits :: "nat \<Rightarrow> nat \<Rightarrow> string" where
  "hex_digits 0 n = []"
| "hex_digits (Suc k) n = hex_char (n div 16 ^ k mod 16) # hex_digits k n"

definition hex_digit_val :: "char \<Rightarrow> nat option" where
  "hex_digit_val c =
     (let k = of_char c :: nat in
      if 48 \<le> k \<and> k \<le> 57 then Some (k - 48)
      else if 97 \<le> k \<and> k \<le> 102 then Some (k - 87)
      else if 65 \<le> k \<and> k \<le> 70 then Some (k - 55)
      else None)"

fun hex_val :: "string \<Rightarrow> nat \<Rightarrow> nat option" where
  "hex_val [] acc = Some acc"
| "hex_val (c # cs) acc =
     (case hex_digit_val c of None \<Rightarrow> None | Some d \<Rightarrow> hex_val cs (16 * acc + d))"

section \<open>Printing and casting ObjectIds\<close>

text \<open>\<open>ObjectId.prototype.toHexString\<close>, used by the \<open>id\<close> getter and \<open>toString()\<close>.\<close>

definition oid_str :: "oid \<Rightarrow> string" where
  "oid_str w = hex_digits 24 (unat w)"

text \<open>
  The cast mongoose applies to a string compared with an ObjectId path: 24 hexadecimal
  digits of either case give the ObjectId, anything else is a \<open>CastError\<close> (\<open>None\<close>).
\<close>

definition cast_oid :: "string \<Rightarrow> oid option" where
  "cast_oid s = (if length s = 24 then map_option of_nat (hex_val s 0) else None)"

text \<open>The strings \<open>toHexString\<close> produces: lower-case hexadecimal digits only.\<close>

definition lower_hex :: "string \<Rightarrow> bool" where
  "lower_hex s \<longleftrightarrow> set s \<subseteq> set ''0123456789abcdef''"

section \<open>Round trip\<close>

lemma hex_digit_val_hex_char [simp]:
  assumes "d < 16"
  shows "hex_digit_val (hex_char d) = Some d"
proof (cases "d < 10")
  case True
  then show ?thesis by (simp add: hex_char_def hex_digit_val_def)
next
  case False
  with assms show ?thesis by (simp add: hex_char_def hex_digit_val_def)
qed

lemma length_hex_digits [simp]: "length (hex_digits k n) = k"
  by (induction k) auto

lemma mod_16_pow_Suc:
  "(n::nat) mod (16 * 16 ^ k) = n div 16 ^ k mod 16 * 16 ^ k + n mod 16 ^ k"
proof -
  have "n mod (16 ^ k * 16) = 16 ^ k * (n div 16 ^ k mod 16) + n mod 16 ^ k"
    by (rule mod_mult2_eq)
  then show ?thesis by (simp add: ac_simps)
qed

lemma hex_val_hex_digits:
  "hex_val (hex_digits k n) acc = Some (acc * 16 ^ k + n mod 16 ^ k)"
proof (induction k arbitrary: acc)
  case 0
  then show ?case by simp
next
  case (Suc k)
  have "hex_val (hex_digits (Suc k) n) acc = hex_val (hex_digits k n) (16 * acc + n div 16 ^ k mod 16)"
    by simp
  also have "\<dots> = Some ((16 * acc + n div 16 ^ k mod 16) * 16 ^ k + n mod 16 ^ k)"
    by (rule Suc.IH)
  also have "(16 * acc + n div 16 ^ k mod 16) * 16 ^ k + n mod 16 ^ k = acc * 16 ^ Suc k + n mod 16 ^ Suc k"
    by (simp only: power_Suc mod_16_pow_Suc) (simp add: algebra_simps)
  finally show ?case .
qed

lemma unat_oid_bound: "unat (w::oid) < 16 ^ 24"
proof -
  have "unat w < 2 ^ 96" using unsigned_less [of w] by simp
  also have "(2::nat) ^ 96 = 16 ^ 24" by simp
  finally show ?thesis .
qed

lemma length_oid_str [simp]: "length (oid_str w) = 24"
  by (simp add: oid_str_def)

lemma oid_str_inj: "oid_str a = oid_str b \<Longrightarrow> a = b"
proof -
  assume eq: "oid_str a = oid_str b"
  have "\<And>w::oid. hex_val (oid_str w) 0 = Some (unat w)"
    using unat_oid_bound by (simp add: oid_str_def hex_val_hex_digits)
  with eq have "unat a = unat b" by (metis option.inject)
  then show "a = b" by (simp add: word_unat_eq_iff)
qed

lemma oid_str_eq_iff [simp]: "(oid_str a = oid_str b) = (a = b)"
  using oid_str_inj by blast

lemma cast_oid_oid_str_raw [simp]: "cast_oid (oid_str w) = Some w"
  using unat_oid_bound [of w] by (simp add: cast_oid_def oid_str_def hex_val_hex_digits)

section \<open>Casting is the inverse of printing\<close>

lemma hex_val_acc:
  "hex_val s acc = map_option (\<lambda>v. acc * 16 ^ length s + v) (hex_val s 0)"
proof (induction s arbitrary: acc)
  case Nil
  then show ?case by simp
next
  case (Cons c cs)
  show ?case
  proof (cases "hex_digit_val c")
    case None
    then show ?thesis by simp
  next
    case (Some d)
    have "hex_val (c # cs) acc = map_option (\<lambda>v. (16 * acc + d) * 16 ^ length cs + v) (hex_val cs 0)"
      using Some Cons.IH [of "16 * acc + d"] by simp
    moreover have "hex_val (c # cs) 0 = map_option (\<lambda>v. d * 16 ^ length cs + v) (hex_val cs 0)"
      using Some Cons.IH [of d] by simp
    ultimately show ?thesis
      by (cases "hex_val cs 0") (simp_all add: algebra_simps)
  qed
qed

lemma hex_digit_val_bound: "hex_digit_val c = Some d \<Longrightarrow> d < 16"
  by (auto simp: hex_digit_val_def Let_def split: if_splits)

lemma hex_val_Cons_Some:
  assumes "hex_val (c # cs) 0 = Some v"
  obtains d v' where "hex_digit_val c = Some d" and "hex_val cs 0 = Some v'"
    and "v = d * 16 ^ length cs + v'"
proof (cases "hex_digit_val c")
  case None
  with assms show ?thesis by simp
next
  case (Some d)
  with assms have "hex_val cs d = Some v" by simp
  then obtain v' where "hex_val cs 0 = Some v'" and "v = d * 16 ^ length cs + v'"
    using hex_val_acc [of cs d] by (cases "hex_val cs 0") auto
  with Some show ?thesis using that by blast
qed

lemma hex_val_bound: "hex_val s 0 = Some v \<Longrightarrow> v < 16 ^ length s"
proof (induction s arbitrary: v)
  case Nil
  then show ?case by simp
next
  case (Cons c cs)
  from Cons.prems obtain d v' where d: "hex_digit_val c = Some d" and v': "hex_val cs 0 = Some v'"
    and v: "v = d * 16 ^ length cs + v'"
    by (rule hex_val_Cons_Some)
  have "d + 1 \<le> 16" using hex_digit_val_bound [OF d] by simp
  have "v < d * 16 ^ length cs + 16 ^ length cs" using v Cons.IH [OF v'] by simp
  also have "\<dots> = (d + 1) * 16 ^ length cs" by simp
  also have "\<dots> \<le> 16 * 16 ^ length cs" using \<open>d + 1 \<le> 16\<close> by (rule mult_right_mono) simp
  finally show ?case by simp
qed

lemma lower_hex_digit_code:
  "c \<in> set ''0123456789abcdef'' \<Longrightarrow>
     48 \<le> (of_char c :: nat) \<and> (of_char c :: nat) \<le> 57 \<or> 97 \<le> (of_char c :: nat) \<and> (of_char c :: nat) \<le> 102"
  by auto

lemma hex_char_lower:
  assumes "c \<in> set ''0123456789abcdef''" and "hex_digit_val c = Some d"
  shows "hex_char d = c"
proof -
  have "hex_char d = char_of (of_char c :: nat)"
    using lower_hex_digit_code [OF assms(1)] assms(2)
    by (auto simp: hex_digit_val_def hex_char_def Let_def split: if_splits)
  then show ?thesis by simp
qed

lemma hex_digits_cong:
  "(\<And>i. i < k \<Longrightarrow> n div 16 ^ i mod 16 = m div 16 ^ i mod 16) \<Longrightarrow> hex_digits k n = hex_digits k m"
  by (induction k) auto

lemma mod_16_pow_digit:
  "(n::nat) mod 16 ^ (i + Suc j) div 16 ^ i mod 16 = n div 16 ^ i mod 16"
proof -
  have "n mod 16 ^ (i + Suc j) = 16 ^ i * (n div 16 ^ i mod 16 ^ Suc j) + n mod 16 ^ i"
    by (simp only: power_add mod_mult2_eq)
  then have "n mod 16 ^ (i + Suc j) div 16 ^ i = n div 16 ^ i mod 16 ^ Suc j"
    by simp
  moreover have "n div 16 ^ i mod 16 ^ Suc j mod 16 = n div 16 ^ i mod 16"
    by (rule mod_mod_cancel) simp
  ultimately show ?thesis by simp
qed

lemma hex_digits_mod: "hex_digits k (n mod 16 ^ k) = hex_digits k n"
proof (rule hex_digits_cong)
  fix i assume "i < k"
  then obtain j where "k = Suc (i + j)" using less_imp_Suc_add by blast
  then have k: "k = i + Suc j" by simp
  show "n mod 16 ^ k div 16 ^ i mod 16 = n div 16 ^ i mod 16"
    unfolding k by (rule mod_16_pow_digit)
qed

lemma hex_digits_hex_val:
  "lower_hex s \<Longrightarrow> hex_val s 0 = Some v \<Longrightarrow> hex_digits (length s) v = s"
proof (induction s arbitrary: v)
  case Nil
  then show ?case by simp
next
  case (Cons c cs)
  from Cons.prems(2) obtain d v' where d: "hex_digit_val c = Some d"
    and v': "hex_val cs 0 = Some v'" and v: "v = d * 16 ^ length cs + v'"
    by (rule hex_val_Cons_Some)
  have low: "c \<in> set ''0123456789abcdef''" "lower_hex cs"
    using Cons.prems(1) by (simp_all add: lower_hex_def)
  have lt: "v' < 16 ^ length cs" by (rule hex_val_bound [OF v'])
  have "v div 16 ^ length cs = d" using v lt by simp
  then have "hex_char (v div 16 ^ length cs mod 16) = c"
    using hex_digit_val_bound [OF d] hex_char_lower [OF low(1) d] by simp
  moreover have "hex_digits (length cs) v = hex_digits (length cs) v'"
    using hex_digits_mod [of "length cs" v] lt v by simp
  ultimately show ?case using Cons.IH [OF low(2) v'] by simp
qed

text \<open>
  Printing and casting are inverse on lower-case hexadecimal strings: such a string casts
  to an ObjectId exactly when it is that ObjectId's printed form.
\<close>

lemma cast_oid_iff_oid_str:
  assumes "lower_hex s"
  shows "cast_oid s = Some w \<longleftrightarrow> s = oid_str w"
proof
  assume c: "cast_oid s = Some w"
  then obtain v where len: "length s = 24" and hv: "hex_val s 0 = Some v" and w: "w = of_nat v"
    by (auto simp: cast_oid_def split: if_splits)
  have "v < 2 ^ 96" using hex_val_bound [OF hv] len by simp
  then have "unat w = v" using w by (simp add: unat_of_nat)
  then show "s = oid_str w"
    using hex_digits_hex_val [OF assms hv] len by (simp add: oid_str_def)
next
  assume "s = oid_str w"
  then show "cast_oid s = Some w" by simp
qed

end
