(* ===== verification/Js.thy ===== *)
theory Js
  imports Prelude
begin

text \<open>
  The fragment of JavaScript semantics the controllers depend on. Request bodies, the
  geocoding service's answer and the JSON the handlers send are JavaScript values
  (\<open>jsval\<close>). Property access on \<open>undefined\<close> or \<open>null\<close> throws a
  \<open>TypeError\<close>, which is how several paths of the code fail; \<open>get_prop\<close> and
  \<open>get_index\<close> make that failure a value. The errors that reach Express's
  error middleware are \<open>js_error\<close>: the repository's \<open>HttpError\<close> (message and
  numeric \<open>code\<close>), a \<open>TypeError\<close>, and an axios error whose \<open>code\<close> is a string
  such as \<open>ECONNREFUSED\<close> or absent. Numbers are integers here: the development never
  computes with the floating-point coordinates it stores.
\<close>

datatype jsval =
    JUndef
  | JNull
  | JBool bool
  | JNum int
  | JStr string
  | JArr "jsval list"
  | JObj "(string \<times> jsval) list"

text \<open>JavaScript truthiness (\<open>NaN\<close> is not modelled).\<close>

fun truthy :: "jsval \<Rightarrow> bool" where
  "truthy JUndef = False"
| "truthy JNull = False"
| "truthy (JBool b) = b"
| "truthy (JNum n) = (n \<noteq> 0)"
| "truthy (JStr s) = (s \<noteq> [])"
| "truthy (JArr xs) = True"
| "truthy (JObj kvs) = True"

text \<open>\<open>a || b\<close>: the left operand if it is truthy, else the right one.\<close>

definition js_or :: "jsval \<Rightarrow> jsval \<Rightarrow> jsval" where
  "js_or a b = (if truthy a then a else b)"

section \<open>Errors\<close>

text \<open>
  \<open>HttpError\<close> is the class of \<open>models/http-error.js\<close> (not among the sources): an
  \<open>Error\<close> whose constructor takes a message and stores an error code in \<open>code\<close>.
  Being a class, it cannot be called without \<open>new\<close>: doing so throws a \<open>TypeError\<close>.
\<close>

datatype js_error =
    HttpError string int
  | TypeError string
  | AxiosError string "string option"

fun err_code :: "js_error \<Rightarrow> jsval" where
  "err_code (HttpError m c) = JNum c"
| "err_code (TypeError m) = JUndef"
| "err_code (AxiosError m c) = (case c of None \<Rightarrow> JUndef | Some s \<Rightarrow> JStr s)"

fun err_message :: "js_error \<Rightarrow> string" where
  "err_message (HttpError m c) = m"
| "err_message (TypeError m) = m"
| "err_message (AxiosError m c) = m"

section \<open>Property access\<close>

definition read_error :: "string \<Rightarrow> string \<Rightarrow> js_error" where
  "read_error what k = TypeError (''Cannot read properties of '' @ what @ '' (reading '' @ k @ '')'')"

text \<open>\<open>v.k\<close>: throws on \<open>undefined\<close> and \<open>null\<close>; a missing key reads \<open>undefined\<close>.\<close>

fun get_prop :: "jsval \<Rightarrow> string \<Rightarrow> js_error + jsval" where
  "get_prop JUndef k = Inl (read_error ''undefined'' k)"
| "get_prop JNull k = Inl (read_error ''null'' k)"
| "get_prop (JObj kvs) k = Inr (case map_of kvs k of None \<Rightarrow> JUndef | Some v \<Rightarrow> v)"
| "get_prop v k = Inr JUndef"

text \<open>\<open>v[i]\<close> on an array; an index out of range reads \<open>undefined\<close>.\<close>

fun get_index :: "jsval \<Rightarrow> nat \<Rightarrow> js_error + jsval" where
  "get_index JUndef i = Inl (read_error ''undefined'' ''0'')"
| "get_index JNull i = Inl (read_error ''null'' ''0'')"
| "get_index (JArr xs) i = Inr (if i < length xs then xs ! i else JUndef)"
| "get_index v i = Inr JUndef"

section \<open>Strings\<close>

text \<open>\<open>String.prototype.toLowerCase\<close> on ASCII letters (characters are bytes here).\<close>

definition ascii_lower :: "char \<Rightarrow> char" where
  "ascii_lower c = (let k = of_char c :: nat in if 65 \<le> k \<and> k \<le> 90 then char_of (k + 32) else c)"

definition to_lower :: "string \<Rightarrow> string" where
  "to_lower s = map ascii_lower s"

section \<open>JSON objects\<close>

text \<open>The keys of an object value, and whether a key occurs anywhere in a value.\<close>

fun has_key :: "string \<Rightarrow> jsval \<Rightarrow> bool" where
  "has_key k (JObj kvs) = (\<exists>kv \<in> set kvs. fst kv = k \<or> has_key k (snd kv))"
| "has_key k (JArr xs) = (\<exists>x \<in> set xs. has_key k x)"
| "has_key k v = False"

section \<open>Facts\<close>

lemma get_prop_Inl_TypeError: "get_prop v k = Inl e \<Longrightarrow> \<exists>m. e = TypeError m"
  by (cases v) (auto simp: read_error_def)

lemma get_index_Inl_TypeError: "get_index v i = Inl e \<Longrightarrow> \<exists>m. e = TypeError m"
  by (cases v) (auto simp: read_error_def)

lemma get_prop_Inr_iff: "(\<exists>r. get_prop v k = Inr r) = (v \<noteq> JUndef \<and> v \<noteq> JNull)"
  by (cases v) auto

lemma ascii_lower_idem [simp]: "ascii_lower (ascii_lower c) = ascii_lower c"
  by (simp add: ascii_lower_def Let_def)

lemma to_lower_idem [simp]: "to_lower (to_lower s) = to_lower s"
  by (simp add: to_lower_def)

end
