(* ===== verification/Store.thy ===== *)
theory Store
  imports ObjectId Js
begin

text \<open>
  The entity store: the two MongoDB collections \<open>places\<close> and \<open>users\<close> as the
  controllers reach them through mongoose. A collection is the list of its documents in
  natural order. Reads cast their string argument to an ObjectId first (a malformed id is
  a \<open>CastError\<close>); every call that goes to the server can fail, which is decided by a
  fault oracle \<open>faults\<close> naming the kinds of operation that fail in this run. A write is a
  \<open>write\<close> value and \<open>apply_write\<close> its effect on the documents: the unique index on
  \<open>_id\<close> (and the one on \<open>email\<close>) refuses duplicates, an update of a missing document
  fails as mongoose's \<open>DocumentNotFoundError\<close> does. A transaction
  (\<open>startSession\<close> \<dots> \<open>commitTransaction\<close>) runs its writes on a private view and
  publishes it only at the commit, so a failure anywhere before leaves the store as it was.
  The schemas (\<open>models/place.js\<close>, \<open>models/user.js\<close>) are not among the sources; the
  fields follow the spec's data model (section 3) and the document constructors in the
  controllers.
\<close>

section \<open>Documents\<close>

record place =
  place_id :: oid
  title :: string
  description :: string
  address :: string
  location :: jsval
  image :: string
  creator :: oid

record user =
  user_id :: oid
  name :: string
  email :: string
  user_image :: string
  password :: string
  places :: "oid list"

record db =
  place_docs :: "place list"
  user_docs :: "user list"

definition empty_db :: db where
  "empty_db = \<lparr>place_docs = [], user_docs = []\<rparr>"

section \<open>Operations and their faults\<close>

datatype db_op =
    FindPlace | FindPlaces | FindUser | FindUsers | FindUserByEmail
  | StartSession | InsertPlace | UpdatePlace | DeletePlace | UpdateUser | InsertUser | Commit

datatype db_error = CastError | DbFault db_op | DuplicateKey | DocNotFound | ValidationError

type_synonym faults = "db_op \<Rightarrow> bool"

definition no_faults :: faults where
  "no_faults op = False"

section \<open>Reads\<close>

text \<open>\<open>Place.findById(s)\<close>.\<close>

definition find_place_by_id :: "faults \<Rightarrow> string \<Rightarrow> db \<Rightarrow> db_error + place option" where
  "find_place_by_id fl s d =
     (case cast_oid s of
        None \<Rightarrow> Inl CastError
      | Some i \<Rightarrow> if fl FindPlace then Inl (DbFault FindPlace)
                  else Inr (find (\<lambda>p. place_id p = i) (place_docs d)))"

text \<open>\<open>User.findById(s)\<close> (with or without the \<open>'-password'\<close> projection).\<close>

definition find_user_by_id :: "faults \<Rightarrow> string \<Rightarrow> db \<Rightarrow> db_error + user option" where
  "find_user_by_id fl s d =
     (case cast_oid s of
        None \<Rightarrow> Inl CastError
      | Some i \<Rightarrow> if fl FindUser then Inl (DbFault FindUser)
                  else Inr (find (\<lambda>u. user_id u = i) (user_docs d)))"

text \<open>
  \<open>Place.findById(s).populate('creator')\<close>: the place and, in its \<open>creator\<close> field,
  the owning user document, or \<open>null\<close> (\<open>None\<close>) when no user has that id.
\<close>

definition find_place_populated ::
  "faults \<Rightarrow> string \<Rightarrow> db \<Rightarrow> db_error + (place \<times> user option) option" where
  "find_place_populated fl s d =
     (case find_place_by_id fl s d of
        Inl e \<Rightarrow> Inl e
      | Inr None \<Rightarrow> Inr None
      | Inr (Some p) \<Rightarrow>
          if fl FindUser then Inl (DbFault FindUser)
          else Inr (Some (p, find (\<lambda>u. user_id u = creator p) (user_docs d))))"

text \<open>\<open>Place.find({ creator: s })\<close>.\<close>

definition find_places_by_creator :: "faults \<Rightarrow> string \<Rightarrow> db \<Rightarrow> db_error + place list" where
  "find_places_by_creator fl s d =
     (case cast_oid s of
        None \<Rightarrow> Inl CastError
      | Some i \<Rightarrow> if fl FindPlaces then Inl (DbFault FindPlaces)
                  else Inr (filter (\<lambda>p. creator p = i) (place_docs d)))"

text \<open>\<open>User.findOne({ email: e })\<close>.\<close>

definition find_user_by_email :: "faults \<Rightarrow> string \<Rightarrow> db \<Rightarrow> db_error + user option" where
  "find_user_by_email fl e d =
     (if fl FindUserByEmail then Inl (DbFault FindUserByEmail)
      else Inr (find (\<lambda>u. email u = e) (user_docs d)))"

text \<open>\<open>User.find({}, '-password')\<close>; the projection is applied when the result is shown.\<close>

definition find_users :: "faults \<Rightarrow> db \<Rightarrow> db_error + user list" where
  "find_users fl d = (if fl FindUsers then Inl (DbFault FindUsers) else Inr (user_docs d))"

section \<open>Writes\<close>

text \<open>
  The writes mongoose sends for the controllers' \<open>save\<close> and \<open>remove\<close> calls:
  \<^item> \<open>InsPlace p\<close>: \<open>createdPlace.save()\<close> of a new document (an insert);
  \<^item> \<open>SetPlaceText i t s\<close>: \<open>place.save()\<close> after assigning \<open>title\<close> and
    \<open>description\<close> (an update of the modified paths);
  \<^item> \<open>DelPlace i\<close>: \<open>place.remove()\<close>;
  \<^item> \<open>PushRef u i\<close>: \<open>user.save()\<close> after \<open>user.places.push(createdPlace)\<close>
    (mongoose sends the push as an atomic \<open>$push\<close>);
  \<^item> \<open>PullRef u i\<close>: \<open>place.creator.save()\<close> after \<open>place.creator.places.pull(place)\<close>
    (an atomic \<open>$pullAll\<close>, which removes every occurrence);
  \<^item> \<open>InsUser u\<close>: \<open>createdUser.save()\<close> of a new user.
\<close>

datatype db_write =
    InsPlace place
  | SetPlaceText oid string string
  | DelPlace oid
  | PushRef oid oid
  | PullRef oid oid
  | InsUser user

fun write_op :: "db_write \<Rightarrow> db_op" where
  "write_op (InsPlace p) = InsertPlace"
| "write_op (SetPlaceText i t s) = UpdatePlace"
| "write_op (DelPlace i) = DeletePlace"
| "write_op (PushRef u i) = UpdateUser"
| "write_op (PullRef u i) = UpdateUser"
| "write_op (InsUser u) = InsertUser"

text \<open>
  The place schema requires a location with numeric \<open>lat\<close> and \<open>lng\<close> (the spec's
  "resolved location (latitude/longitude pair)"); a document without one fails mongoose's
  validation on save.
\<close>

fun is_num :: "jsval \<Rightarrow> bool" where
  "is_num (JNum n) = True"
| "is_num v = False"

definition location_ok :: "jsval \<Rightarrow> bool" where
  "location_ok v =
     (case (get_prop v ''lat'', get_prop v ''lng'') of
        (Inr a, Inr b) \<Rightarrow> is_num a \<and> is_num b
      | _ \<Rightarrow> False)"

definition upd_user :: "oid \<Rightarrow> (oid list \<Rightarrow> oid list) \<Rightarrow> user list \<Rightarrow> user list" where
  "upd_user u f us = map (\<lambda>x. if user_id x = u then x\<lparr>places := f (places x)\<rparr> else x) us"

fun apply_write :: "db_write \<Rightarrow> db \<Rightarrow> db_error + db" where
  "apply_write (InsPlace p) d =
     (if place_id p \<in> set (map place_id (place_docs d)) then Inl DuplicateKey
      else if \<not> location_ok (location p) then Inl ValidationError
      else Inr (d\<lparr>place_docs := place_docs d @ [p]\<rparr>))"
| "apply_write (SetPlaceText i t s) d =
     (if i \<notin> set (map place_id (place_docs d)) then Inl DocNotFound
      else Inr (d\<lparr>place_docs := map (\<lambda>p. if place_id p = i then p\<lparr>title := t, description := s\<rparr> else p)
                                    (place_docs d)\<rparr>))"
| "apply_write (DelPlace i) d =
     Inr (d\<lparr>place_docs := filter (\<lambda>p. place_id p \<noteq> i) (place_docs d)\<rparr>)"
| "apply_write (PushRef u i) d =
     (if u \<notin> set (map user_id (user_docs d)) then Inl DocNotFound
      else Inr (d\<lparr>user_docs := upd_user u (\<lambda>ps. ps @ [i]) (user_docs d)\<rparr>))"
| "apply_write (PullRef u i) d =
     (if u \<notin> set (map user_id (user_docs d)) then Inl DocNotFound
      else Inr (d\<lparr>user_docs := upd_user u (removeAll i) (user_docs d)\<rparr>))"
| "apply_write (InsUser u) d =
     (if user_id u \<in> set (map user_id (user_docs d)) \<or> email u \<in> set (map email (user_docs d))
      then Inl DuplicateKey
      else Inr (d\<lparr>user_docs := user_docs d @ [u]\<rparr>))"

text \<open>A single write outside a transaction (\<open>doc.save()\<close>).\<close>

definition save_doc :: "faults \<Rightarrow> db_write \<Rightarrow> db \<Rightarrow> db_error + db" where
  "save_doc fl w d = (if fl (write_op w) then Inl (DbFault (write_op w)) else apply_write w d)"

text \<open>The writes of a transaction, run on the transaction's view, stopping at the first error.\<close>

fun tx_writes :: "faults \<Rightarrow> db_write list \<Rightarrow> db \<Rightarrow> db_error + db" where
  "tx_writes fl [] d = Inr d"
| "tx_writes fl (w # ws) d =
     (case save_doc fl w d of Inl e \<Rightarrow> Inl e | Inr d' \<Rightarrow> tx_writes fl ws d')"

text \<open>
  \<open>mongoose.startSession()\<close>, \<open>sess.startTransaction()\<close>, the writes with
  \<open>{ session: sess }\<close>, \<open>sess.commitTransaction()\<close>. The result is the store after
  the commit; on \<open>Inl\<close> nothing was published.
\<close>

definition run_tx :: "faults \<Rightarrow> db_write list \<Rightarrow> db \<Rightarrow> db_error + db" where
  "run_tx fl ws d =
     (if fl StartSession then Inl (DbFault StartSession)
      else case tx_writes fl ws d of
             Inl e \<Rightarrow> Inl e
           | Inr d' \<Rightarrow> if fl Commit then Inl (DbFault Commit) else Inr d')"

section \<open>The consistency invariant\<close>

text \<open>
  The spec's invariant of the data model (section 3): identities and e-mail addresses
  are unique, and the two directions of the User 1--* Place relationship agree. A place
  contributes the link (its id, its creator); a user contributes one link (entry, own
  id) per entry of its \<open>places\<close>. The invariant says the two sets of links are the same
  and that no user lists a place twice; \<open>consistent_iff\<close> below spells it out as the
  spec states it, element by element.
\<close>

definition keys_ok :: "db \<Rightarrow> bool" where
  "keys_ok d \<longleftrightarrow>
     distinct (map place_id (place_docs d)) \<and> distinct (map user_id (user_docs d)) \<and>
     distinct (map email (user_docs d))"

definition place_links :: "db \<Rightarrow> (oid \<times> oid) set" where
  "place_links d = set (map (\<lambda>p. (place_id p, creator p)) (place_docs d))"

fun user_link_list :: "user list \<Rightarrow> (oid \<times> oid) list" where
  "user_link_list [] = []"
| "user_link_list (u # us) = map (\<lambda>i. (i, user_id u)) (places u) @ user_link_list us"

definition user_links :: "db \<Rightarrow> (oid \<times> oid) set" where
  "user_links d = set (user_link_list (user_docs d))"

definition consistent :: "db \<Rightarrow> bool" where
  "consistent d \<longleftrightarrow>
     keys_ok d \<and> (\<forall>u \<in> set (user_docs d). distinct (places u)) \<and> place_links d = user_links d"

lemma mem_place_links:
  "(i, c) \<in> place_links d \<longleftrightarrow> (\<exists>p \<in> set (place_docs d). place_id p = i \<and> creator p = c)"
  by (auto simp: place_links_def)

lemma mem_user_link_list:
  "(i, c) \<in> set (user_link_list us) \<longleftrightarrow> (\<exists>u \<in> set us. user_id u = c \<and> i \<in> set (places u))"
  by (induction us) auto

lemma mem_user_links:
  "(i, c) \<in> user_links d \<longleftrightarrow> (\<exists>u \<in> set (user_docs d). user_id u = c \<and> i \<in> set (places u))"
  by (simp add: user_links_def mem_user_link_list)

lemma place_links_sub_iff:
  "place_links d \<subseteq> user_links d \<longleftrightarrow>
     (\<forall>p \<in> set (place_docs d). \<exists>u \<in> set (user_docs d). user_id u = creator p \<and> place_id p \<in> set (places u))"
  by (auto simp: subset_iff mem_user_links place_links_def)

lemma user_links_sub_iff:
  "user_links d \<subseteq> place_links d \<longleftrightarrow>
     (\<forall>u \<in> set (user_docs d). \<forall>i \<in> set (places u). \<exists>p \<in> set (place_docs d). place_id p = i \<and> creator p = user_id u)"
proof -
  have "user_links d \<subseteq> place_links d \<longleftrightarrow> (\<forall>i c. (i, c) \<in> user_links d \<longrightarrow> (i, c) \<in> place_links d)"
    by auto
  then show ?thesis unfolding mem_user_links mem_place_links by blast
qed

lemma consistent_iff:
  "consistent d \<longleftrightarrow> keys_ok d \<and>
     (\<forall>p \<in> set (place_docs d). \<exists>u \<in> set (user_docs d). user_id u = creator p \<and> place_id p \<in> set (places u)) \<and>
     (\<forall>u \<in> set (user_docs d). distinct (places u) \<and>
        (\<forall>i \<in> set (places u). \<exists>p \<in> set (place_docs d). place_id p = i \<and> creator p = user_id u))"
proof -
  have "place_links d = user_links d \<longleftrightarrow> place_links d \<subseteq> user_links d \<and> user_links d \<subseteq> place_links d"
    by blast
  then show ?thesis
    unfolding consistent_def place_links_sub_iff user_links_sub_iff by blast
qed

lemma consistent_empty_db: "consistent empty_db"
  by (simp add: consistent_def keys_ok_def place_links_def user_links_def empty_db_def)

subsection \<open>How each write moves the links\<close>

lemma mem_upd_user:
  "y \<in> set (upd_user u f us) \<longleftrightarrow>
     (\<exists>x \<in> set us. y = (if user_id x = u then x\<lparr>places := f (places x)\<rparr> else x))"
  by (induction us) (auto simp: upd_user_def)

lemma map_user_id_upd_user [simp]: "map user_id (upd_user u f us) = map user_id us"
  by (induction us) (auto simp: upd_user_def)

lemma map_email_upd_user [simp]: "map email (upd_user u f us) = map email us"
  by (induction us) (auto simp: upd_user_def)

lemma user_link_list_append [simp]:
  "user_link_list (us @ vs) = user_link_list us @ user_link_list vs"
  by (induction us) auto

lemma user_link_list_push:
  "set (user_link_list (upd_user u (\<lambda>ps. ps @ [i]) us)) =
     set (user_link_list us) \<union> (if u \<in> set (map user_id us) then {(i, u)} else {})"
  by (induction us) (auto simp: upd_user_def)

lemma user_link_list_pull:
  "set (user_link_list (upd_user u (removeAll i) us)) = set (user_link_list us) - {(i, u)}"
  by (induction us) (auto simp: upd_user_def)

lemma user_links_push [inv_rules]:
  assumes "u \<in> set (map user_id (user_docs d))"
  shows "user_links (d\<lparr>user_docs := upd_user u (\<lambda>ps. ps @ [i]) (user_docs d)\<rparr>) = insert (i, u) (user_links d)"
  using assms by (auto simp: user_links_def user_link_list_push)

lemma user_links_pull [inv_rules]:
  "user_links (d\<lparr>user_docs := upd_user u (removeAll i) (user_docs d)\<rparr>) = user_links d - {(i, u)}"
  by (simp add: user_links_def user_link_list_pull)

lemma place_links_append [inv_rules]:
  "place_links (d\<lparr>place_docs := place_docs d @ [p]\<rparr>) = insert (place_id p, creator p) (place_links d)"
  by (simp add: place_links_def)

lemma place_links_filter [inv_rules]:
  "place_links (d\<lparr>place_docs := filter (\<lambda>p. place_id p \<noteq> i) (place_docs d)\<rparr>) =
     {l \<in> place_links d. fst l \<noteq> i}"
proof -
  have "set (map (\<lambda>p. (place_id p, creator p)) (filter (\<lambda>p. place_id p \<noteq> i) ps)) =
        {l \<in> set (map (\<lambda>p. (place_id p, creator p)) ps). fst l \<noteq> i}" for ps
    by (induction ps) auto
  from this [of "place_docs d"] show ?thesis unfolding place_links_def by simp
qed
lemma user_links_places_only [inv_rules]:
  "user_links (d\<lparr>place_docs := ps\<rparr>) = user_links d"
  by (simp add: user_links_def)

lemma place_links_users_only [inv_rules]:
  "place_links (d\<lparr>user_docs := us\<rparr>) = place_links d"
  by (simp add: place_links_def)

lemma link_of_place:
  "q \<in> set (place_docs d) \<Longrightarrow> (place_id q, creator q) \<in> place_links d"
  by (auto simp: place_links_def)

lemma place_links_key:
  assumes "distinct (map place_id (place_docs d))" and "q \<in> set (place_docs d)"
    and "(place_id q, c) \<in> place_links d"
  shows "c = creator q"
proof -
  from assms(3) obtain r where r: "r \<in> set (place_docs d)" "place_id r = place_id q" "creator r = c"
    by (auto simp: mem_place_links)
  with assms(1,2) have "r = q" by (metis distinct_map inj_onD)
  with r show ?thesis by simp
qed
lemma place_links_set_text [inv_rules]:
  "place_links (d\<lparr>place_docs := map (\<lambda>p. if place_id p = i then p\<lparr>title := t, description := s\<rparr> else p)
                                  (place_docs d)\<rparr>) = place_links d"
proof -
  have "set (map (\<lambda>p. (place_id p, creator p))
           (map (\<lambda>p. if place_id p = i then p\<lparr>title := t, description := s\<rparr> else p) ps)) =
        set (map (\<lambda>p. (place_id p, creator p)) ps)" for ps
    by (induction ps) auto
  from this [of "place_docs d"] show ?thesis unfolding place_links_def by simp
qed

lemma consistent_listed_place:
  assumes "consistent d" and "u \<in> set (user_docs d)" and "i \<in> set (places u)"
  shows "i \<in> set (map place_id (place_docs d))"
proof -
  from assms(2,3) have "(i, user_id u) \<in> user_links d" by (auto simp: mem_user_links)
  with assms(1) have "(i, user_id u) \<in> place_links d" by (simp add: consistent_def)
  then show ?thesis by (auto simp: mem_place_links)
qed

lemma consistent_ref_owner:
  assumes "consistent d" and "p \<in> set (place_docs d)" and "x \<in> set (user_docs d)"
    and "place_id p \<in> set (places x)"
  shows "user_id x = creator p"
proof -
  from assms(3,4) have "(place_id p, user_id x) \<in> user_links d" by (auto simp: mem_user_links)
  with assms(1) have "(place_id p, user_id x) \<in> place_links d" by (simp add: consistent_def)
  moreover from assms(1) have "distinct (map place_id (place_docs d))" by (simp add: consistent_def keys_ok_def)
  ultimately show ?thesis using place_links_key assms(2) by blast
qed

lemma consistent_user_places:
  assumes c: "consistent d" and u: "u \<in> set (user_docs d)"
  shows "place_id ` {p \<in> set (place_docs d). creator p = user_id u} = set (places u)"
proof (intro equalityI subsetI)
  fix i assume "i \<in> place_id ` {p \<in> set (place_docs d). creator p = user_id u}"
  then obtain p where p: "p \<in> set (place_docs d)" and own: "creator p = user_id u" and i: "i = place_id p"
    by blast
  from p have "(place_id p, creator p) \<in> place_links d" by (auto simp: mem_place_links)
  with c have "(place_id p, creator p) \<in> user_links d" by (simp add: consistent_def)
  then obtain x where x: "x \<in> set (user_docs d)" "user_id x = creator p" "place_id p \<in> set (places x)"
    by (auto simp: mem_user_links)
  from c have "distinct (map user_id (user_docs d))" by (simp add: consistent_def keys_ok_def)
  with x(1,2) u own have "x = u" by (metis distinct_map inj_on_eq_iff)
  with x(3) i show "i \<in> set (places u)" by simp
next
  fix i assume "i \<in> set (places u)"
  with u have "(i, user_id u) \<in> place_links d"
    using c by (auto simp: consistent_def mem_user_links)
  then show "i \<in> place_id ` {p \<in> set (place_docs d). creator p = user_id u}"
    by (auto simp: mem_place_links)
qed

subsection \<open>The write sequences of the controllers keep the invariant\<close>

text \<open>The two writes of \<open>createPlace\<close>'s transaction, in the order the code issues them.\<close>

lemma consistent_insert_push [inv_rules]:
  assumes c: "consistent d" and u: "creator p \<in> set (map user_id (user_docs d))"
    and w1: "apply_write (InsPlace p) d = Inr d1"
    and w2: "apply_write (PushRef (creator p) (place_id p)) d1 = Inr d2"
  shows "consistent d2"
proof -
  from w1 have fresh: "place_id p \<notin> set (map place_id (place_docs d))"
    and d1: "d1 = d\<lparr>place_docs := place_docs d @ [p]\<rparr>"
    by (auto split: if_splits)
  from w2 have d2: "d2 = d1\<lparr>user_docs := upd_user (creator p) (\<lambda>ps. ps @ [place_id p]) (user_docs d1)\<rparr>"
    by (auto split: if_splits)
  have u1: "creator p \<in> set (map user_id (user_docs d1))" using u by (simp add: d1)
  have keys: "keys_ok d2" using c fresh by (simp add: consistent_def keys_ok_def d2 d1)
  have "place_links d2 = place_links d1" by (simp only: d2 place_links_users_only)
  also have "\<dots> = insert (place_id p, creator p) (place_links d)" by (simp only: d1 place_links_append)
  also have "place_links d = user_links d1" using c by (simp add: consistent_def d1 user_links_places_only)
  also have "insert (place_id p, creator p) (user_links d1) = user_links d2"
    using u1 by (simp only: d2 user_links_push)
  finally have links: "place_links d2 = user_links d2" .
  have "distinct (places y)" if y: "y \<in> set (user_docs d2)" for y
  proof -
    from y obtain x where x: "x \<in> set (user_docs d)"
      and yx: "y = (if user_id x = creator p then x\<lparr>places := places x @ [place_id p]\<rparr> else x)"
      by (auto simp: d2 d1 mem_upd_user)
    from c x have "distinct (places x)" by (simp add: consistent_def)
    moreover from c x fresh have "place_id p \<notin> set (places x)"
      using consistent_listed_place by blast
    ultimately show ?thesis by (simp add: yx)
  qed
  with keys links show ?thesis by (simp add: consistent_def)
qed

text \<open>The two writes of \<open>deletePlace\<close>'s transaction, in the order the code issues them.\<close>

lemma consistent_delete_pull [inv_rules]:
  assumes c: "consistent d" and q: "q \<in> set (place_docs d)"
    and w1: "apply_write (DelPlace (place_id q)) d = Inr d1"
    and w2: "apply_write (PullRef (creator q) (place_id q)) d1 = Inr d2"
  shows "consistent d2"
proof -
  let ?i = "place_id q"
  from w1 have d1: "d1 = d\<lparr>place_docs := filter (\<lambda>p. place_id p \<noteq> ?i) (place_docs d)\<rparr>"
    by simp
  from w2 have d2: "d2 = d1\<lparr>user_docs := upd_user (creator q) (removeAll ?i) (user_docs d1)\<rparr>"
    by (auto split: if_splits)
  have keys: "keys_ok d2"
    using c by (simp add: consistent_def keys_ok_def d2 d1 distinct_map_filter)
  have "place_links d2 = place_links d1" by (simp only: d2 place_links_users_only)
  also have "\<dots> = {l \<in> place_links d. fst l \<noteq> ?i}" by (simp only: d1 place_links_filter)
  also have "\<dots> = place_links d - {(?i, creator q)}"
  proof (rule set_eqI)
    fix l :: "oid \<times> oid"
    have dq: "distinct (map place_id (place_docs d))" using c by (simp add: consistent_def keys_ok_def)
    obtain j k where l: "l = (j, k)" by (cases l)
    have "j = ?i \<Longrightarrow> (j, k) \<in> place_links d \<Longrightarrow> k = creator q"
      using place_links_key [OF dq q] by blast
    moreover have "(?i, creator q) \<in> place_links d" using q by (rule link_of_place)
    ultimately show "l \<in> {l \<in> place_links d. fst l \<noteq> ?i} \<longleftrightarrow> l \<in> place_links d - {(?i, creator q)}"
      unfolding l by auto
  qed
  also have "place_links d = user_links d1" using c by (simp add: consistent_def d1 user_links_places_only)
  also have "user_links d1 - {(?i, creator q)} = user_links d2" by (simp only: d2 user_links_pull)
  finally have links: "place_links d2 = user_links d2" .
  have "distinct (places y)" if y: "y \<in> set (user_docs d2)" for y
  proof -
    from y obtain x where x: "x \<in> set (user_docs d)"
      and yx: "y = (if user_id x = creator q then x\<lparr>places := removeAll ?i (places x)\<rparr> else x)"
      by (auto simp: d2 d1 mem_upd_user)
    from c x have "distinct (places x)" by (simp add: consistent_def)
    then show ?thesis by (simp add: yx distinct_removeAll)
  qed
  with keys links show ?thesis by (simp add: consistent_def)
qed

text \<open>\<open>updatePlace\<close>'s single write and \<open>signupUser\<close>'s insert of a user with no places.\<close>

lemma consistent_set_text [inv_rules]:
  assumes c: "consistent d" and w: "apply_write (SetPlaceText i t s) d = Inr d'"
  shows "consistent d'"
proof -
  from w have d': "d' = d\<lparr>place_docs := map (\<lambda>p. if place_id p = i then p\<lparr>title := t, description := s\<rparr> else p)
                                  (place_docs d)\<rparr>"
    by (auto split: if_splits)
  have ids: "map place_id (map (\<lambda>p. if place_id p = i then p\<lparr>title := t, description := s\<rparr> else p)
                (place_docs d)) = map place_id (place_docs d)"
    by (rule map_key_update_same) simp
  have "keys_ok d'" using c by (simp del: map_map add: d' consistent_def keys_ok_def ids)
  moreover have "place_links d' = user_links d'"
    using c by (simp only: d' place_links_set_text user_links_places_only consistent_def)
  ultimately show ?thesis using c by (simp add: consistent_def d')
qed

lemma consistent_insert_user [inv_rules]:
  assumes c: "consistent d" and e: "places u = []" and w: "apply_write (InsUser u) d = Inr d'"
  shows "consistent d'"
proof -
  from w have d': "d' = d\<lparr>user_docs := user_docs d @ [u]\<rparr>"
    and fresh: "user_id u \<notin> set (map user_id (user_docs d))" "email u \<notin> set (map email (user_docs d))"
    by (auto split: if_splits)
  have "user_links d' = user_links d" using e by (simp add: d' user_links_def)
  moreover have "place_links d' = place_links d" by (simp only: d' place_links_users_only)
  moreover have "keys_ok d'" using c fresh by (simp add: d' consistent_def keys_ok_def)
  ultimately show ?thesis using c e by (simp add: consistent_def d')
qed

section \<open>Transactions\<close>

text \<open>A committed transaction of two writes applied both, in order; a failed one applied none.\<close>

lemma run_tx_two_Inr:
  assumes "run_tx fl [w1, w2] d = Inr d'"
  shows "\<exists>d1. apply_write w1 d = Inr d1 \<and> apply_write w2 d1 = Inr d'"
  using assms by (auto simp: run_tx_def save_doc_def split: if_splits sum.splits)

lemma run_tx_faultless:
  "run_tx no_faults ws d = tx_writes no_faults ws d"
  by (simp add: run_tx_def no_faults_def split: sum.splits)

lemma apply_write_InsPlace_Inr:
  "apply_write (InsPlace p) d = Inr d' \<Longrightarrow> d' = d\<lparr>place_docs := place_docs d @ [p]\<rparr>"
  by (simp split: if_splits)

lemma apply_write_PushRef_Inr:
  "apply_write (PushRef u i) d = Inr d' \<Longrightarrow> d' = d\<lparr>user_docs := upd_user u (\<lambda>ps. ps @ [i]) (user_docs d)\<rparr>"
  by (simp split: if_splits)

lemma apply_write_DelPlace_Inr:
  "apply_write (DelPlace i) d = Inr d' \<Longrightarrow> d' = d\<lparr>place_docs := filter (\<lambda>p. place_id p \<noteq> i) (place_docs d)\<rparr>"
  by simp

lemma apply_write_PullRef_Inr:
  "apply_write (PullRef u i) d = Inr d' \<Longrightarrow> d' = d\<lparr>user_docs := upd_user u (removeAll i) (user_docs d)\<rparr>"
  by (simp split: if_splits)

lemma find_place_by_id_Some:
  assumes "find_place_by_id fl s d = Inr (Some p)"
  shows "p \<in> set (place_docs d) \<and> cast_oid s = Some (place_id p)"
  using assms find_key_Some [of place_id]
  by (auto simp: find_place_by_id_def split: option.splits if_splits)

lemma find_place_by_id_member:
  assumes "consistent d" and "p \<in> set (place_docs d)" and "\<not> fl FindPlace"
  shows "find_place_by_id fl (oid_str (place_id p)) d = Inr (Some p)"
proof -
  have "distinct (map place_id (place_docs d))" using assms(1) by (simp add: consistent_def keys_ok_def)
  then have "find (\<lambda>x. place_id x = place_id p) (place_docs d) = Some p" using assms(2) by (rule find_key_distinct)
  with assms(3) show ?thesis by (simp add: find_place_by_id_def)
qed

lemma find_user_by_id_Some:
  assumes "find_user_by_id fl s d = Inr (Some u)"
  shows "u \<in> set (user_docs d) \<and> cast_oid s = Some (user_id u)"
  using assms find_key_Some [of user_id]
  by (auto simp: find_user_by_id_def split: option.splits if_splits)

lemma find_place_populated_Some:
  assumes "find_place_populated fl s d = Inr (Some (p, Some u))"
  shows "p \<in> set (place_docs d) \<and> cast_oid s = Some (place_id p) \<and>
         u \<in> set (user_docs d) \<and> user_id u = creator p"
  using assms find_key_Some [of user_id "creator p"] find_place_by_id_Some [of fl s d p]
  by (auto simp: find_place_populated_def split: sum.splits option.splits if_splits)

lemmas [store_ops] = find_place_by_id_def find_user_by_id_def find_place_populated_def
  find_places_by_creator_def find_user_by_email_def find_users_def save_doc_def run_tx_def

end
