(* ===== verification/Location.thy ===== *)
theory Location
  imports Js
begin

text \<open>
  The geocoding adapter, \<open>util/location.js\<close>: \<open>getCoordsForAddress(address)\<close> asks
  Google's geocoding service for the address and returns
  \<open>data.results[0].geometry.location\<close>. The HTTP round trip (\<open>axios.get\<close>) is the
  parameter \<open>geo\<close>: for an address it either rejects with an axios error or resolves with
  the response body \<open>data\<close>, a JavaScript value. Everything after the round trip is the
  code's own logic and is modelled as written: the empty-answer and \<open>ZERO_RESULTS\<close> test
  raises the repository's \<open>HttpError\<close> with code 404, and the chain of property reads
  throws a \<open>TypeError\<close> when a link of it is missing.
\<close>

datatype http_result = HttpOk jsval | HttpFail js_error

definition getCoordsForAddress :: "(string \<Rightarrow> http_result) \<Rightarrow> string \<Rightarrow> js_error + jsval" where
  "getCoordsForAddress geo address =
     (case geo address of
        HttpFail e \<Rightarrow> Inl e
      | HttpOk data \<Rightarrow>
          if \<not> truthy data \<or> get_prop data ''status'' = Inr (JStr ''ZERO_RESULTS'')
          then Inl (HttpError ''Could not find location for the address given'' 404)
          else (case get_prop data ''results'' of
                  Inl e \<Rightarrow> Inl e
                | Inr rs \<Rightarrow> (case get_index rs 0 of
                    Inl e \<Rightarrow> Inl e
                  | Inr r0 \<Rightarrow> (case get_prop r0 ''geometry'' of
                      Inl e \<Rightarrow> Inl e
                    | Inr g \<Rightarrow> get_prop g ''location''))))"

definition not_found_error :: js_error where
  "not_found_error = HttpError ''Could not find location for the address given'' 404"

text \<open>A well-formed answer of the service: a status and a first result with a location.\<close>

definition geo_answer :: "string \<Rightarrow> jsval \<Rightarrow> jsval list \<Rightarrow> jsval" where
  "geo_answer st loc more =
     JObj [(''results'', JArr (JObj [(''geometry'', JObj [(''location'', loc)])] # more)),
           (''status'', JStr st)]"

lemma getCoords_answer:
  assumes "geo a = HttpOk (geo_answer st loc more)" and "st \<noteq> ''ZERO_RESULTS''"
  shows "getCoordsForAddress geo a = Inr loc"
  using assms by (simp add: getCoordsForAddress_def geo_answer_def)

lemma getCoords_zero_results:
  assumes "geo a = HttpOk data" and "get_prop data ''status'' = Inr (JStr ''ZERO_RESULTS'')"
  shows "getCoordsForAddress geo a = Inl not_found_error"
  using assms by (simp add: getCoordsForAddress_def not_found_error_def)

lemma getCoords_falsy:
  assumes "geo a = HttpOk data" and "\<not> truthy data"
  shows "getCoordsForAddress geo a = Inl not_found_error"
  using assms by (simp add: getCoordsForAddress_def not_found_error_def)

lemma getCoords_transport:
  assumes "geo a = HttpFail e"
  shows "getCoordsForAddress geo a = Inl e"
  using assms by (simp add: getCoordsForAddress_def)

lemma getCoords_cases:
  "getCoordsForAddress geo a = Inl not_found_error \<or>
   (\<exists>e. geo a = HttpFail e \<and> getCoordsForAddress geo a = Inl e) \<or>
   (\<exists>m. getCoordsForAddress geo a = Inl (TypeError m)) \<or>
   (\<exists>loc. getCoordsForAddress geo a = Inr loc)"
proof (cases "geo a")
  case (HttpFail e)
  then show ?thesis by (simp add: getCoordsForAddress_def)
next
  case (HttpOk data)
  then show ?thesis
    using get_prop_Inl_TypeError get_index_Inl_TypeError
    by (auto simp: getCoordsForAddress_def not_found_error_def split: sum.splits)
      (metis get_prop_Inl_TypeError sum.exhaust)
qed

lemma getCoords_answer_errors:
  assumes "geo a = HttpOk data" and "getCoordsForAddress geo a = Inl e"
  shows "e = not_found_error \<or> (\<exists>v k. e = read_error v k)"
proof -
  have p: "get_prop x k = Inl e' \<Longrightarrow> \<exists>v. e' = read_error v k" for x k e'
    by (cases x) auto
  have i: "get_index x n = Inl e' \<Longrightarrow> \<exists>v. e' = read_error v ''0''" for x n e'
    by (cases x) auto
  show ?thesis using assms
    by (auto simp: getCoordsForAddress_def not_found_error_def split: if_splits sum.splits dest!: p i)
qed

lemma read_error_message: "err_message (read_error v k) \<noteq> []"
  by (simp add: read_error_def)

text \<open>
  C29. Only \<open>ZERO_RESULTS\<close> and an empty answer are turned into the 404. An answer
  object with any other status (an error status of the service such as
  \<open>REQUEST_DENIED\<close>, whatever other keys it carries, \<open>error_message\<close> among them) and no
  first result (no \<open>results\<close> key, or an empty list) makes \<open>data.results[0].geometry\<close>
  read a property of \<open>undefined\<close>: a \<open>TypeError\<close> reaches the caller instead.
\<close>

theorem getCoords_no_first_result_TypeError:
  assumes "geo a = HttpOk (JObj kvs)"
    and "map_of kvs ''status'' \<noteq> Some (JStr ''ZERO_RESULTS'')"
    and "map_of kvs ''results'' = None \<or> map_of kvs ''results'' = Some (JArr [])"
  shows "\<exists>m. getCoordsForAddress geo a = Inl (TypeError m)"
  using assms by (auto simp: getCoordsForAddress_def read_error_def split: option.split)

theorem getCoords_no_first_result_TypeError_witness:
  "\<exists>m. getCoordsForAddress (\<lambda>a. HttpOk (JObj [(''error_message'', JStr ''The provided API key is invalid.''),
       (''results'', JArr []), (''status'', JStr ''REQUEST_DENIED'')])) ''1 Main St'' = Inl (TypeError m)"
  by (rule getCoords_no_first_result_TypeError [where kvs = "[(''error_message'', JStr ''The provided API key is invalid.''),
       (''results'', JArr []), (''status'', JStr ''REQUEST_DENIED'')]"]) simp_all

end
