(* ===== verification/Request.thy ===== *)
theory Request
  imports Store Location
begin

text \<open>
  What every handler shares: the request as Express hands it over, the collaborators the
  handlers call (the interface to the libraries and services the sources only use), the
  outcome of a handler, and the state a request can change.
  \<^item> \<open>request\<close>: method, path segments (\<open>segs\<close>), the parsed JSON body (string fields only), the
    \<open>Authorization\<close> header, the stored path of the uploaded image if the request carried
    one (multer's \<open>req.file.path\<close>), and the messages of the validation checks the route
    ran (\<open>validationResult(req)\<close>).
  \<^item> \<open>env\<close>: the fault oracle of the database, the geocoding round trip, the ObjectId
    mongoose assigns to a new document, bcrypt's \<open>hash\<close> and \<open>compare\<close>, jsonwebtoken's
    \<open>sign\<close> and \<open>verify\<close>, validator.js's \<open>isEmail\<close> and \<open>normalizeEmail\<close>, and
    whether \<open>fs.unlink\<close> of a path fails. A failing library call is \<open>None\<close>.
  \<^item> \<open>outcome\<close>: a handler either sends a response (\<open>res.status(s).json(v)\<close>), passes an
    error to \<open>next\<close>, or throws outside any \<open>try\<close>: its promise is then rejected, and
    Express (4) never sees the error.
  \<^item> \<open>world\<close>: the database and the set of stored files under \<open>uploads/images\<close>.
\<close>

datatype meth = GET | POST | PATCH | DELETE | OPTIONS

record request =
  meth :: meth
  segs :: "string list"
  body :: "(string \<times> string) list"
  authorization :: "string option"
  upload :: "string option"
  errors :: "string list"

text \<open>The payload of the tokens the code signs: \<open>{ userId, email }\<close>.\<close>

record token =
  tok_user :: string
  tok_email :: string

record env =
  db_faults :: faults
  geocode :: "string \<Rightarrow> http_result"
  fresh_oid :: oid
  bcrypt_hash :: "string \<Rightarrow> string option"
  bcrypt_compare :: "string \<Rightarrow> string \<Rightarrow> bool option"
  jwt_sign :: "token \<Rightarrow> string option"
  jwt_verify :: "string \<Rightarrow> token option"
  is_email :: "string \<Rightarrow> bool"
  normalize_email :: "string \<Rightarrow> string"
  unlink_fails :: "string \<Rightarrow> bool"

datatype outcome = Sent int jsval | Next js_error | Rejected js_error

record world =
  store :: db
  files :: "string set"

section \<open>Reading the request\<close>

text \<open>\<open>req.body.k\<close>: \<open>None\<close> is \<open>undefined\<close>.\<close>

definition field :: "request \<Rightarrow> string \<Rightarrow> string option" where
  "field req k = map_of (body req) k"

text \<open>
  A field the route has validated as present, as the destructuring \<open>const { k } = req.body\<close>
  yields it to the handler. Where the checks passed, the field is present and this is its
  value.
\<close>

definition field_str :: "request \<Rightarrow> string \<Rightarrow> string" where
  "field_str req k = (case field req k of None \<Rightarrow> [] | Some s \<Rightarrow> s)"

section \<open>Validation (express-validator)\<close>

text \<open>
  The checks of the routes. A missing field is the empty string to the validators.
  \<open>check(k).not().isEmpty()\<close> and \<open>check(k).isLength({ min: n })\<close> count characters,
  which are bytes here.
\<close>

definition not_empty :: "request \<Rightarrow> string \<Rightarrow> bool" where
  "not_empty req k = (field_str req k \<noteq> [])"

definition min_length :: "nat \<Rightarrow> request \<Rightarrow> string \<Rightarrow> bool" where
  "min_length n req k = (n \<le> length (field_str req k))"

definition check :: "bool \<Rightarrow> string \<Rightarrow> string list" where
  "check ok k = (if ok then [] else [''Invalid value: '' @ k])"

text \<open>\<open>router.post('/', \<dots>, [title not empty, description at least 5, address not empty])\<close>.\<close>

definition place_create_checks :: "request \<Rightarrow> string list" where
  "place_create_checks req =
     check (not_empty req ''title'') ''title'' @
     check (min_length 5 req ''description'') ''description'' @
     check (not_empty req ''address'') ''address''"

text \<open>\<open>router.patch('/:pid', [title not empty, description at least 5])\<close>.\<close>

definition place_update_checks :: "request \<Rightarrow> string list" where
  "place_update_checks req =
     check (not_empty req ''title'') ''title'' @
     check (min_length 5 req ''description'') ''description''"

text \<open>
  \<open>router.post('/signup', \<dots>, [name not empty, email isEmail().normalizeEmail(),
  password at least 6])\<close>. The sanitizer rewrites \<open>req.body.email\<close> for the handler.
\<close>

definition signup_checks :: "env \<Rightarrow> request \<Rightarrow> string list" where
  "signup_checks E req =
     check (not_empty req ''name'') ''name'' @
     check (is_email E (field_str req ''email'')) ''email'' @
     check (min_length 6 req ''password'') ''password''"

definition sanitize_email :: "env \<Rightarrow> request \<Rightarrow> request" where
  "sanitize_email E req =
     (case field req ''email'' of
        None \<Rightarrow> req
      | Some e \<Rightarrow> req\<lparr>body := (''email'', normalize_email E e) # body req\<rparr>)"

definition run_checks :: "string list \<Rightarrow> request \<Rightarrow> request" where
  "run_checks es req = req\<lparr>errors := errors req @ es\<rparr>"

section \<open>Authentication (\<open>middleware/check-auth.js\<close>)\<close>

text \<open>
  The middleware is not among the sources; per the spec (sections 4.4 and 6) it takes the
  bearer token from the \<open>Authorization\<close> header (\<open>'Bearer <token>'.split(' ')[1]\<close>),
  verifies it, and makes its \<open>userId\<close> the principal (\<open>req.userData.userId\<close>); any
  failure is passed on as an \<open>HttpError\<close> with code 403. The spec allows 401 or 403 and
  names no message: the code 403, the message \<open>Authentication failed!\<close> and the header
  parsing are this model's reading of the usual middleware of this code base, and the
  model has no bypass for \<open>OPTIONS\<close> requests (CORS preflights are not modelled). C22
  depends on these choices.
\<close>

fun split_on :: "char \<Rightarrow> string \<Rightarrow> string list" where
  "split_on c [] = [[]]"
| "split_on c (x # xs) =
     (if x = c then [] # split_on c xs
      else (case split_on c xs of w # ws \<Rightarrow> (x # w) # ws | [] \<Rightarrow> [[x]]))"

definition auth_error :: js_error where
  "auth_error = HttpError ''Authentication failed!'' 403"

definition check_auth :: "env \<Rightarrow> request \<Rightarrow> js_error + string" where
  "check_auth E req =
     (case authorization req of
        None \<Rightarrow> Inl auth_error
      | Some h \<Rightarrow>
          (case split_on CHR '' '' h of
             _ # t # _ \<Rightarrow>
               if t = [] then Inl auth_error
               else (case jwt_verify E t of None \<Rightarrow> Inl auth_error | Some tk \<Rightarrow> Inr (tok_user tk))
           | _ \<Rightarrow> Inl auth_error))"

definition bearer :: "string \<Rightarrow> string" where
  "bearer t = ''Bearer '' @ t"

section \<open>Effects on the file store\<close>

text \<open>\<open>fs.unlink(path, callback)\<close>: fire and forget; a failure is only logged.\<close>

definition unlink :: "env \<Rightarrow> string \<Rightarrow> string set \<Rightarrow> string set" where
  "unlink E f fs = (if unlink_fails E f then fs else fs - {f})"

section \<open>Example collaborators\<close>

text \<open>
  Concrete collaborators under which the witnesses of the development evaluate: no
  database faults, a geocoder that finds nothing, a hash that prefixes a salt, tokens that
  carry their payload behind a length prefix, an e-mail test that asks for an \<open>@\<close>, and
  a normalisation that lower-cases; and a store with one user who owns one place.
  Witnesses change single fields of them.
\<close>

definition demo_sign :: "token \<Rightarrow> string" where
  "demo_sign tk = replicate (length (tok_user tk)) CHR ''*'' @ CHR ''|'' # tok_user tk @ tok_email tk"

definition demo_verify :: "string \<Rightarrow> token option" where
  "demo_verify s =
     (let n = length (takeWhile (\<lambda>c. c = CHR ''*'') s) in
      case drop n s of
        c # r \<Rightarrow> if c = CHR ''|'' \<and> n \<le> length r then Some \<lparr>tok_user = take n r, tok_email = drop n r\<rparr> else None
      | [] \<Rightarrow> None)"

definition demo_env :: env where
  "demo_env =
     \<lparr>db_faults = no_faults, geocode = (\<lambda>a. HttpOk JNull), fresh_oid = 0,
      bcrypt_hash = (\<lambda>p. Some (''$2a$12$'' @ p)),
      bcrypt_compare = (\<lambda>p h. Some (h = ''$2a$12$'' @ p)),
      jwt_sign = (\<lambda>tk. Some (demo_sign tk)), jwt_verify = demo_verify,
      is_email = (\<lambda>s. CHR ''@'' \<in> set s), normalize_email = to_lower,
      unlink_fails = (\<lambda>f. False)\<rparr>"

text \<open>One user (id 1) who owns one place (id 2): the store the witnesses below run on.\<close>

definition demo_place :: place where
  "demo_place =
     \<lparr>place_id = 2, title = ''Home'', description = ''Where I live'', address = ''1 Main St'',
      location = JObj [(''lat'', JNum 40), (''lng'', JNum (-74))], image = ''uploads/images/a.png'',
      creator = 1\<rparr>"

definition demo_user :: user where
  "demo_user =
     \<lparr>user_id = 1, name = ''Ann'', email = ''ann@example.com'', user_image = ''uploads/images/u.png'',
      password = ''$2a$12$secret1'', places = [2]\<rparr>"

definition demo_world :: world where
  "demo_world =
     \<lparr>store = \<lparr>place_docs = [demo_place], user_docs = [demo_user]\<rparr>,
      files = {''uploads/images/a.png'', ''uploads/images/u.png''}\<rparr>"

section \<open>Facts\<close>

lemmas demo_store_defs = demo_world_def demo_place_def demo_user_def demo_env_def no_faults_def

lemma demo_world_consistent: "consistent (store demo_world)"
  by (simp add: demo_store_defs consistent_def keys_ok_def place_links_def user_links_def)

lemma demo_verify_sign: "demo_verify (demo_sign tk) = Some tk"
proof -
  let ?n = "length (tok_user tk)"
  have tw: "takeWhile (\<lambda>c. c = CHR ''*'') (demo_sign tk) = replicate ?n CHR ''*''"
    by (simp add: demo_sign_def)
  have "drop ?n (demo_sign tk) = CHR ''|'' # tok_user tk @ tok_email tk"
    by (simp add: demo_sign_def)
  then show ?thesis by (simp add: demo_verify_def tw Let_def)
qed

lemma place_create_checks_ok:
  "place_create_checks req = [] \<longleftrightarrow>
     field_str req ''title'' \<noteq> [] \<and> 5 \<le> length (field_str req ''description'') \<and>
     field_str req ''address'' \<noteq> []"
  by (simp add: place_create_checks_def check_def not_empty_def min_length_def)

lemma place_update_checks_ok:
  "place_update_checks req = [] \<longleftrightarrow>
     field_str req ''title'' \<noteq> [] \<and> 5 \<le> length (field_str req ''description'')"
  by (simp add: place_update_checks_def check_def not_empty_def min_length_def)

lemma split_on_append_sep:
  "c \<notin> set xs \<Longrightarrow> split_on c (xs @ c # ys) = xs # split_on c ys"
  by (induction xs) (auto split: list.splits)

lemma split_on_no_sep:
  "c \<notin> set xs \<Longrightarrow> split_on c xs = [xs]"
  by (induction xs) auto

lemma check_auth_bearer:
  assumes "authorization req = Some (bearer t)" and "t \<noteq> []" and "CHR '' '' \<notin> set t"
    and "jwt_verify E t = Some tk"
  shows "check_auth E req = Inr (tok_user tk)"
proof -
  have "split_on CHR '' '' (bearer t) = ''Bearer'' # [t]"
    using assms(3) split_on_append_sep [of "CHR '' ''" "''Bearer''" t]
    by (simp add: bearer_def split_on_no_sep)
  with assms show ?thesis by (simp add: check_auth_def)
qed

lemmas [handler_defs] = field_str_def field_def unlink_def

end
