(* ===== verification/Places.thy ===== *)
theory Places
  imports Request
begin

text \<open>
  \<open>controllers/places-controller.js\<close>: the five place handlers, each as written, with
  every early return of the source a branch of the model. The read handlers return only
  their outcome; the write handlers return the outcome and the new world. The principal
  \<open>uid\<close> is \<open>req.userData.userId\<close>, set by the authentication middleware that the places
  router runs before every write route; \<open>pid\<close> is \<open>req.params.pid\<close>. The write path of
  the spec's section 4.3 is \<open>createPlace\<close> and \<open>deletePlace\<close>, each a transaction of
  two writes, and \<open>updatePlace\<close>, a single write.
\<close>

section \<open>The JSON of a place\<close>

text \<open>
  \<open>place.toObject({ getters: true })\<close> adds the \<open>id\<close> getter (the hex string of
  \<open>_id\<close>); serialising the document itself, as \<open>createPlace\<close>'s response does, does not.
  The version key \<open>__v\<close> is not modelled.
\<close>

definition place_json :: "bool \<Rightarrow> place \<Rightarrow> jsval" where
  "place_json getters p =
     JObj ([(''_id'', JStr (oid_str (place_id p))), (''title'', JStr (title p)),
            (''description'', JStr (description p)), (''address'', JStr (address p)),
            (''location'', location p), (''image'', JStr (image p)),
            (''creator'', JStr (oid_str (creator p)))] @
           (if getters then [(''id'', JStr (oid_str (place_id p)))] else []))"

section \<open>Handlers\<close>

text \<open>\<open>getPlaceById\<close>.\<close>

definition getPlaceById :: "env \<Rightarrow> string \<Rightarrow> db \<Rightarrow> outcome" where
  "getPlaceById E pid d =
     (case find_place_by_id (db_faults E) pid d of
        Inl _ \<Rightarrow> Next (HttpError ''Something went wrong finding place.'' 500)
      | Inr None \<Rightarrow> Next (HttpError ''Could not find a place with the given id'' 404)
      | Inr (Some p) \<Rightarrow> Sent 200 (JObj [(''place'', place_json True p)]))"

text \<open>\<open>getPlacesByUserId\<close>: an empty list is a success (the 404 branch is commented out).\<close>

definition getPlacesByUserId :: "env \<Rightarrow> string \<Rightarrow> db \<Rightarrow> outcome" where
  "getPlacesByUserId E uid d =
     (case find_places_by_creator (db_faults E) uid d of
        Inl _ \<Rightarrow> Next (HttpError ''Problem finding the users places.'' 500)
      | Inr ps \<Rightarrow> Sent 200 (JObj [(''userPlaceList'', JArr (map (place_json True) ps))]))"

text \<open>
  \<open>createPlace\<close>: validation, geocoding, the new document (whose \<open>image\<close> reads
  \<open>req.file.path\<close> outside any \<open>try\<close>), the owner lookup, and the transaction that
  inserts the place and pushes its id onto the owner's \<open>places\<close>. The new document's
  \<open>creator\<close> is \<open>req.userData.userId\<close> cast to an ObjectId, the id \<open>findById\<close> has
  just matched.
\<close>

definition new_place :: "env \<Rightarrow> request \<Rightarrow> jsval \<Rightarrow> string \<Rightarrow> oid \<Rightarrow> place" where
  "new_place E req loc path owner =
     \<lparr>place_id = fresh_oid E, title = field_str req ''title'',
      description = field_str req ''description'', address = field_str req ''address'',
      location = loc, image = path, creator = owner\<rparr>"

definition createPlace :: "env \<Rightarrow> request \<Rightarrow> string \<Rightarrow> world \<Rightarrow> outcome \<times> world" where
  "createPlace E req uid w =
     (if errors req \<noteq> [] then (Next (HttpError ''Invalid inputs, please check your data'' 422), w)
      else case getCoordsForAddress (geocode E) (field_str req ''address'') of
        Inl e \<Rightarrow> (Next e, w)
      | Inr loc \<Rightarrow>
          (case upload req of
             None \<Rightarrow> (Rejected (read_error ''undefined'' ''path''), w)
           | Some path \<Rightarrow>
               (case find_user_by_id (db_faults E) uid (store w) of
                  Inl _ \<Rightarrow> (Next (HttpError ''Creating place failed, user id not found'' 500), w)
                | Inr None \<Rightarrow> (Next (HttpError ''Creating place failed, user not found'' 500), w)
                | Inr (Some u) \<Rightarrow>
                    let p = new_place E req loc path (user_id u) in
                    (case run_tx (db_faults E) [InsPlace p, PushRef (user_id u) (place_id p)] (store w) of
                       Inl _ \<Rightarrow> (Next (HttpError ''Creating place failed, please try again.'' 500), w)
                     | Inr d' \<Rightarrow> (Sent 201 (JObj [(''place'', place_json False p)]), w\<lparr>store := d'\<rparr>)))))"

text \<open>
  \<open>updatePlace\<close>. Two branches differ from the other handlers: the validation failure
  calls \<open>HttpError(\<dots>)\<close> without \<open>new\<close>, which throws; and there is no test for a
  missing place, so \<open>place.creator\<close> is read from \<open>null\<close>. Both throw outside any
  \<open>try\<close>.
\<close>

definition class_call_error :: js_error where
  "class_call_error = TypeError ''Class constructor HttpError cannot be invoked without new''"

definition updatePlace :: "env \<Rightarrow> request \<Rightarrow> string \<Rightarrow> string \<Rightarrow> world \<Rightarrow> outcome \<times> world" where
  "updatePlace E req pid uid w =
     (if errors req \<noteq> [] then (Rejected class_call_error, w)
      else case find_place_by_id (db_faults E) pid (store w) of
        Inl _ \<Rightarrow> (Next (HttpError ''Something went wrong finding place to update.'' 500), w)
      | Inr None \<Rightarrow> (Rejected (read_error ''null'' ''creator''), w)
      | Inr (Some p) \<Rightarrow>
          if oid_str (creator p) \<noteq> uid
          then (Next (HttpError ''You are not authorized to edit this place'' 401), w)
          else
            let p' = p\<lparr>title := field_str req ''title'', description := field_str req ''description''\<rparr> in
            (case save_doc (db_faults E) (SetPlaceText (place_id p) (title p') (description p')) (store w) of
               Inl _ \<Rightarrow> (Next (HttpError ''Something went wrong updating the place.'' 500), w)
             | Inr d' \<Rightarrow> (Sent 200 (JObj [(''place'', place_json True p')]), w\<lparr>store := d'\<rparr>)))"

text \<open>
  \<open>deletePlace\<close>: the place with its owner populated, the existence test, the ownership
  test on the owner's \<open>id\<close>, the transaction that removes the place and pulls its id from
  the owner's \<open>places\<close>, then the unawaited \<open>fs.unlink\<close> of the image.
\<close>

definition deletePlace :: "env \<Rightarrow> string \<Rightarrow> string \<Rightarrow> world \<Rightarrow> outcome \<times> world" where
  "deletePlace E pid uid w =
     (case find_place_populated (db_faults E) pid (store w) of
        Inl _ \<Rightarrow> (Next (HttpError ''Something went wrong finding place to delete.'' 500), w)
      | Inr None \<Rightarrow> (Next (HttpError ''Could not find place for this id.'' 404), w)
      | Inr (Some (p, None)) \<Rightarrow> (Rejected (read_error ''null'' ''id''), w)
      | Inr (Some (p, Some u)) \<Rightarrow>
          if oid_str (user_id u) \<noteq> uid
          then (Next (HttpError ''You are not authorized to delete this place'' 401), w)
          else
            (case run_tx (db_faults E) [DelPlace (place_id p), PullRef (user_id u) (place_id p)] (store w) of
               Inl _ \<Rightarrow> (Next (HttpError ''Something went wrong deleting the place.'' 500), w)
             | Inr d' \<Rightarrow> (Sent 200 (JObj [(''message'', JStr ''Deleted!'')]),
                         w\<lparr>store := d', files := unlink E (image p) (files w)\<rparr>)))"

section \<open>Example requests\<close>

text \<open>A request that creates a second place for user 1, with a geocoder that finds the address.\<close>

definition demo_location :: jsval where
  "demo_location = JObj [(''lat'', JNum 51), (''lng'', JNum 0)]"

definition demo_geo_env :: env where
  "demo_geo_env = demo_env\<lparr>geocode := (\<lambda>a. HttpOk (geo_answer ''OK'' demo_location [])), fresh_oid := 3\<rparr>"

definition demo_auth_geo_env :: env where
  "demo_auth_geo_env =
     demo_geo_env\<lparr>jwt_verify := (\<lambda>t. Some \<lparr>tok_user = oid_str 1, tok_email = ''ann@example.com''\<rparr>)\<rparr>"

definition demo_create_req :: request where
  "demo_create_req =
     \<lparr>meth = POST, segs = [''api'', ''places''],
      body = [(''title'', ''Park''), (''description'', ''A green park''), (''address'', ''2 Elm St'')],
      authorization = Some (bearer (oid_str 1 @ ''|ann@example.com'')),
      upload = Some ''uploads/images/p.png'', errors = []\<rparr>"

definition demo_new_place :: place where
  "demo_new_place =
     \<lparr>place_id = 3, title = ''Park'', description = ''A green park'', address = ''2 Elm St'',
      location = demo_location, image = ''uploads/images/p.png'', creator = 1\<rparr>"

text \<open>A request that renames a place.\<close>

definition demo_update_req :: request where
  "demo_update_req =
     \<lparr>meth = PATCH, segs = [''api'', ''places'', oid_str 2],
      body = [(''title'', ''Flat''), (''description'', ''Where I live now'')],
      authorization = Some (bearer (oid_str 1 @ ''|ann@example.com'')), upload = None, errors = []\<rparr>"

lemmas demo_defs = demo_store_defs demo_geo_env_def demo_create_req_def demo_new_place_def
  demo_location_def demo_update_req_def

section \<open>The handlers keep the store consistent\<close>

text \<open>The transactions of the two handlers, from the lookups that precede them.\<close>

lemma creator_new_place [simp]: "creator (new_place E req loc f owner) = owner"
  by (simp add: new_place_def)

lemma create_tx_consistent:
  assumes c: "consistent d" and u: "find_user_by_id fl uid d = Inr (Some u)"
    and tx: "run_tx fl [InsPlace p, PushRef (user_id u) (place_id p)] d = Inr d'"
    and own: "creator p = user_id u"
  shows "consistent d'"
proof -
  from run_tx_two_Inr [OF tx] obtain d1 where w1: "apply_write (InsPlace p) d = Inr d1"
    and w2: "apply_write (PushRef (user_id u) (place_id p)) d1 = Inr d'"
    by blast
  have "creator p \<in> set (map user_id (user_docs d))"
    using find_user_by_id_Some [OF u] own by simp
  from consistent_insert_push [OF c this w1] w2 own show ?thesis by simp
qed

lemma delete_tx_consistent:
  assumes c: "consistent d" and f: "find_place_populated fl pid d = Inr (Some (p, Some u))"
    and tx: "run_tx fl [DelPlace (place_id p), PullRef (user_id u) (place_id p)] d = Inr d'"
  shows "consistent d'"
proof -
  from find_place_populated_Some [OF f] have p: "p \<in> set (place_docs d)" and own: "user_id u = creator p"
    by auto
  from run_tx_two_Inr [OF tx] obtain d1 where w1: "apply_write (DelPlace (place_id p)) d = Inr d1"
    and w2: "apply_write (PullRef (user_id u) (place_id p)) d1 = Inr d'"
    by blast
  from w2 own have "apply_write (PullRef (creator p) (place_id p)) d1 = Inr d'" by simp
  with c p w1 show ?thesis by (rule consistent_delete_pull)
qed

lemma update_save_consistent:
  assumes "consistent d" and "save_doc fl (SetPlaceText i t s) d = Inr d'"
  shows "consistent d'"
  using assms consistent_set_text by (auto simp: save_doc_def split: if_splits)

lemma createPlace_consistent [inv_rules]:
  assumes "consistent (store w)"
  shows "consistent (store (snd (createPlace E req uid w)))"
  unfolding createPlace_def Let_def
  using assms by (auto split: sum.split option.split intro: create_tx_consistent)

lemma deletePlace_consistent [inv_rules]:
  assumes "consistent (store w)"
  shows "consistent (store (snd (deletePlace E pid uid w)))"
  unfolding deletePlace_def
  using assms by (auto split: sum.split option.split prod.split intro: delete_tx_consistent)

lemma updatePlace_consistent [inv_rules]:
  assumes "consistent (store w)"
  shows "consistent (store (snd (updatePlace E req pid uid w)))"
  unfolding updatePlace_def Let_def
  using assms by (auto split: sum.split option.split intro: update_save_consistent)

section \<open>Effects of the write handlers\<close>

lemma createPlace_effect:
  assumes "createPlace E req uid w = (r, w')"
  shows "w' = w \<or>
    (\<exists>p u. r = Sent 201 (JObj [(''place'', place_json False p)]) \<and>
       u \<in> set (user_docs (store w)) \<and> creator p = user_id u \<and> cast_oid uid = Some (user_id u) \<and>
       place_id p = fresh_oid E \<and>
       place_id p \<notin> place_id ` set (place_docs (store w)) \<and>
       w' = w\<lparr>store := (store w)\<lparr>place_docs := place_docs (store w) @ [p],
                user_docs := upd_user (user_id u) (\<lambda>ps. ps @ [place_id p]) (user_docs (store w))\<rparr>\<rparr>)"
proof (cases "w' = w")
  case False
  with assms obtain loc f u d' where u: "find_user_by_id (db_faults E) uid (store w) = Inr (Some u)"
    and tx: "run_tx (db_faults E) [InsPlace (new_place E req loc f (user_id u)),
               PushRef (user_id u) (place_id (new_place E req loc f (user_id u)))] (store w) = Inr d'"
    and r: "r = Sent 201 (JObj [(''place'', place_json False (new_place E req loc f (user_id u)))])"
    and w': "w' = w\<lparr>store := d'\<rparr>"
    by (auto simp: createPlace_def Let_def split: if_splits sum.splits option.splits)
  let ?p = "new_place E req loc f (user_id u)"
  from run_tx_two_Inr [OF tx] obtain d1 where w1: "apply_write (InsPlace ?p) (store w) = Inr d1"
    and w2: "apply_write (PushRef (user_id u) (place_id ?p)) d1 = Inr d'"
    by blast
  have "d' = (store w)\<lparr>place_docs := place_docs (store w) @ [?p],
                user_docs := upd_user (user_id u) (\<lambda>ps. ps @ [place_id ?p]) (user_docs (store w))\<rparr>"
    using apply_write_InsPlace_Inr [OF w1] apply_write_PushRef_Inr [OF w2] by simp
  moreover have "u \<in> set (user_docs (store w)) \<and> cast_oid uid = Some (user_id u)"
    using find_user_by_id_Some [OF u] by simp
  moreover have "place_id ?p \<notin> place_id ` set (place_docs (store w))" using w1 by (simp split: if_splits)
  ultimately show ?thesis using r w'
    by (intro disjI2 exI [of _ ?p] exI [of _ u]) (simp add: new_place_def)
qed simp

lemma deletePlace_effect:
  assumes "deletePlace E pid uid w = (r, w')"
  shows "w' = w \<or>
    (\<exists>p u. r = Sent 200 (JObj [(''message'', JStr ''Deleted!'')]) \<and>
       p \<in> set (place_docs (store w)) \<and> cast_oid pid = Some (place_id p) \<and>
       u \<in> set (user_docs (store w)) \<and> user_id u = creator p \<and> oid_str (user_id u) = uid \<and>
       w' = w\<lparr>store := (store w)\<lparr>place_docs := filter (\<lambda>q. place_id q \<noteq> place_id p) (place_docs (store w)),
                user_docs := upd_user (user_id u) (removeAll (place_id p)) (user_docs (store w))\<rparr>,
              files := unlink E (image p) (files w)\<rparr>)"
proof (cases "w' = w")
  case False
  with assms obtain p u d' where f: "find_place_populated (db_faults E) pid (store w) = Inr (Some (p, Some u))"
    and own: "oid_str (user_id u) = uid"
    and tx: "run_tx (db_faults E) [DelPlace (place_id p), PullRef (user_id u) (place_id p)] (store w) = Inr d'"
    and r: "r = Sent 200 (JObj [(''message'', JStr ''Deleted!'')])"
    and w': "w' = w\<lparr>store := d', files := unlink E (image p) (files w)\<rparr>"
    by (auto simp: deletePlace_def split: if_splits sum.splits option.splits)
  from run_tx_two_Inr [OF tx] obtain d1 where w1: "apply_write (DelPlace (place_id p)) (store w) = Inr d1"
    and w2: "apply_write (PullRef (user_id u) (place_id p)) d1 = Inr d'"
    by blast
  have "d' = (store w)\<lparr>place_docs := filter (\<lambda>q. place_id q \<noteq> place_id p) (place_docs (store w)),
                user_docs := upd_user (user_id u) (removeAll (place_id p)) (user_docs (store w))\<rparr>"
    using apply_write_DelPlace_Inr [OF w1] apply_write_PullRef_Inr [OF w2] by simp
  with find_place_populated_Some [OF f] own r w' show ?thesis by blast
qed simp

lemma deletePlace_Sent:
  assumes "deletePlace E pid uid w = (Sent s v, w')"
  shows "\<exists>q u. find_place_populated (db_faults E) pid (store w) = Inr (Some (q, Some u)) \<and>
           files w' = unlink E (image q) (files w)"
  using assms by (auto simp: deletePlace_def split: sum.splits option.splits if_splits)

lemma createPlace_Sent:
  assumes "createPlace E req uid w = (Sent s v, w')"
  obtains loc f u d1 d' where "getCoordsForAddress (geocode E) (field_str req ''address'') = Inr loc"
    and "upload req = Some f"
    and "apply_write (InsPlace (new_place E req loc f (user_id (u :: user)))) (store w) = Inr d1"
    and "apply_write (PushRef (user_id u) (place_id (new_place E req loc f (user_id u)))) d1 = Inr d'"
    and "v = JObj [(''place'', place_json False (new_place E req loc f (user_id u)))]"
    and "w' = w\<lparr>store := d'\<rparr>"
proof -
  let ?a = "field_str req ''address''"
  obtain loc where geo: "getCoordsForAddress (geocode E) ?a = Inr loc"
    using assms by (cases "getCoordsForAddress (geocode E) ?a") (auto simp: createPlace_def split: if_splits)
  obtain f where up: "upload req = Some f"
    using assms geo by (cases "upload req") (auto simp: createPlace_def split: if_splits)
  obtain u where fu: "find_user_by_id (db_faults E) uid (store w) = Inr (Some u)"
    using assms geo up
    by (cases "find_user_by_id (db_faults E) uid (store w)") (auto simp: createPlace_def split: if_splits option.splits)
  let ?p = "new_place E req loc f (user_id u)"
  obtain d' where tx: "run_tx (db_faults E) [InsPlace ?p, PushRef (user_id u) (place_id ?p)] (store w) = Inr d'"
    using assms geo up fu
    by (cases "run_tx (db_faults E) [InsPlace ?p, PushRef (user_id u) (place_id ?p)] (store w)")
       (auto simp: createPlace_def Let_def split: if_splits)
  have v: "v = JObj [(''place'', place_json False ?p)]" and w': "w' = w\<lparr>store := d'\<rparr>"
    using assms geo up fu tx by (simp_all add: createPlace_def Let_def split: if_splits)
  from run_tx_two_Inr [OF tx] obtain d1 where w1: "apply_write (InsPlace ?p) (store w) = Inr d1"
    and w2: "apply_write (PushRef (user_id u) (place_id ?p)) d1 = Inr d'"
    by blast
  show thesis using geo up w1 w2 v w' by (rule that)
qed

lemma createPlace_Sent_place:
  assumes "createPlace E req uid w = (Sent s v, w')"
  shows "\<exists>p. v = JObj [(''place'', place_json False p)] \<and> upload req = Some (image p) \<and>
             files w' = files w \<and> p \<in> set (place_docs (store w'))"
proof -
  from assms obtain loc f u d1 d' where "getCoordsForAddress (geocode E) (field_str req ''address'') = Inr loc"
    and up: "upload req = Some f"
    and w1: "apply_write (InsPlace (new_place E req loc f (user_id (u :: user)))) (store w) = Inr d1"
    and w2: "apply_write (PushRef (user_id u) (place_id (new_place E req loc f (user_id u)))) d1 = Inr d'"
    and v: "v = JObj [(''place'', place_json False (new_place E req loc f (user_id u)))]"
    and w': "w' = w\<lparr>store := d'\<rparr>"
    by (rule createPlace_Sent)
  let ?p = "new_place E req loc f (user_id u)"
  have "?p \<in> set (place_docs d')"
    using apply_write_InsPlace_Inr [OF w1] apply_write_PushRef_Inr [OF w2] by simp
  then show ?thesis using up v w' by (intro exI [of _ ?p]) (simp add: new_place_def)
qed

lemmas [handler_defs] = getPlaceById_def getPlacesByUserId_def createPlace_def updatePlace_def
  deletePlace_def

section \<open>Properties of the write path\<close>

text \<open>
  C2. \<open>createPlace\<close> is all or nothing: either the store is unchanged, or the new place
  was inserted with a fresh id and, in the same transaction, its id was appended to its
  owner's \<open>places\<close>; only then is the response 201 with the place.
\<close>

theorem createPlace_all_or_nothing:
  assumes "createPlace E req uid w = (r, w')"
  shows "store w' = store w \<or>
    (\<exists>p. place_docs (store w') = place_docs (store w) @ [p] \<and>
         place_id p \<notin> place_id ` set (place_docs (store w)) \<and>
         (\<exists>u \<in> set (user_docs (store w')). user_id u = creator p \<and> place_id p \<in> set (places u)) \<and>
         r = Sent 201 (JObj [(''place'', place_json False p)]))"
  using createPlace_effect [OF assms]
proof (elim disjE exE conjE)
  assume "w' = w"
  then show ?thesis by simp
next
  fix p u
  assume r: "r = Sent 201 (JObj [(''place'', place_json False p)])"
    and u: "u \<in> set (user_docs (store w))" and own: "creator p = user_id u"
    and "cast_oid uid = Some (user_id u)" and fresh: "place_id p \<notin> place_id ` set (place_docs (store w))"
    and w': "w' = w\<lparr>store := (store w)\<lparr>place_docs := place_docs (store w) @ [p],
                user_docs := upd_user (user_id u) (\<lambda>ps. ps @ [place_id p]) (user_docs (store w))\<rparr>\<rparr>"
  let ?u = "u\<lparr>places := places u @ [place_id p]\<rparr>"
  have "?u \<in> set (user_docs (store w'))" using u by (auto simp: w' mem_upd_user)
  moreover have "user_id ?u = creator p \<and> place_id p \<in> set (places ?u)" using own by simp
  ultimately have "\<exists>u \<in> set (user_docs (store w')). user_id u = creator p \<and> place_id p \<in> set (places u)"
    by blast
  with r fresh show ?thesis by (simp add: w')
qed

theorem createPlace_all_or_nothing_witness:
  "store (demo_world\<lparr>store := \<lparr>place_docs = [demo_place, demo_new_place],
                                user_docs = [demo_user\<lparr>places := [2, 3]\<rparr>]\<rparr>\<rparr>) = store demo_world \<or>
   (\<exists>p. place_docs \<lparr>place_docs = [demo_place, demo_new_place], user_docs = [demo_user\<lparr>places := [2, 3]\<rparr>]\<rparr> =
          place_docs (store demo_world) @ [p] \<and>
        place_id p \<notin> place_id ` set (place_docs (store demo_world)) \<and>
        (\<exists>u \<in> set [demo_user\<lparr>places := [2, 3]\<rparr>]. user_id u = creator p \<and> place_id p \<in> set (places u)) \<and>
        Sent 201 (JObj [(''place'', place_json False demo_new_place)]) = Sent 201 (JObj [(''place'', place_json False p)]))"
  using createPlace_all_or_nothing
    [of demo_geo_env demo_create_req "oid_str 1" demo_world
        "Sent 201 (JObj [(''place'', place_json False demo_new_place)])"
        "demo_world\<lparr>store := \<lparr>place_docs = [demo_place, demo_new_place], user_docs = [demo_user\<lparr>places := [2, 3]\<rparr>]\<rparr>\<rparr>"]
  by (simp add: createPlace_def demo_defs getCoordsForAddress_def geo_answer_def new_place_def
      store_ops field_str_def field_def)


text \<open>
  C3. \<open>deletePlace\<close> on a consistent store is both or neither: either the store is
  unchanged, or the place named by the request existed, is gone, no user lists it any
  more, and the response is 200.
\<close>

theorem deletePlace_both_or_neither:
  assumes c: "consistent (store w)" and d: "deletePlace E pid uid w = (r, w')"
  shows "store w' = store w \<or>
    (\<exists>i. cast_oid pid = Some i \<and> i \<in> place_id ` set (place_docs (store w)) \<and>
         i \<notin> place_id ` set (place_docs (store w')) \<and>
         (\<forall>u \<in> set (user_docs (store w')). i \<notin> set (places u)) \<and>
         r = Sent 200 (JObj [(''message'', JStr ''Deleted!'')]))"
  using deletePlace_effect [OF d]
proof (elim disjE exE conjE)
  assume "w' = w"
  then show ?thesis by simp
next
  fix p u
  assume r: "r = Sent 200 (JObj [(''message'', JStr ''Deleted!'')])"
    and p: "p \<in> set (place_docs (store w))" and pid: "cast_oid pid = Some (place_id p)"
    and u: "u \<in> set (user_docs (store w))" and own: "user_id u = creator p"
    and w': "w' = w\<lparr>store := (store w)\<lparr>place_docs := filter (\<lambda>q. place_id q \<noteq> place_id p) (place_docs (store w)),
                user_docs := upd_user (user_id u) (removeAll (place_id p)) (user_docs (store w))\<rparr>,
              files := unlink E (image p) (files w)\<rparr>"
  have gone: "place_id p \<notin> place_id ` set (place_docs (store w'))" by (auto simp: w')
  have unlisted: "place_id p \<notin> set (places y)" if y: "y \<in> set (user_docs (store w'))" for y
  proof -
    from y obtain x where x: "x \<in> set (user_docs (store w))"
      and yx: "y = (if user_id x = user_id u then x\<lparr>places := removeAll (place_id p) (places x)\<rparr> else x)"
      by (auto simp: w' mem_upd_user)
    show ?thesis
    proof (cases "user_id x = user_id u")
      case True
      with yx show ?thesis by simp
    next
      case False
      have "place_id p \<notin> set (places x)"
      proof
        assume "place_id p \<in> set (places x)"
        with c p x have "user_id x = creator p" by (rule consistent_ref_owner)
        with False own show False by simp
      qed
      with False yx show ?thesis by simp
    qed
  qed
  from p pid gone unlisted r show ?thesis by blast
qed

theorem deletePlace_both_or_neither_witness:
  "store (demo_world\<lparr>store := \<lparr>place_docs = [], user_docs = [demo_user\<lparr>places := []\<rparr>]\<rparr>,
                     files := {''uploads/images/u.png''}\<rparr>) = store demo_world \<or>
   (\<exists>i. cast_oid (oid_str 2) = Some i \<and> i \<in> place_id ` set (place_docs (store demo_world)) \<and>
        i \<notin> place_id ` set ([] :: place list) \<and>
        (\<forall>u \<in> set [demo_user\<lparr>places := []\<rparr>]. i \<notin> set (places u)) \<and>
        Sent 200 (JObj [(''message'', JStr ''Deleted!'')]) = Sent 200 (JObj [(''message'', JStr ''Deleted!'')]))"
  using deletePlace_both_or_neither
    [of demo_world demo_env "oid_str 2" "oid_str 1" "Sent 200 (JObj [(''message'', JStr ''Deleted!'')])"
        "demo_world\<lparr>store := \<lparr>place_docs = [], user_docs = [demo_user\<lparr>places := []\<rparr>]\<rparr>,
                     files := {''uploads/images/u.png''}\<rparr>"]
  by (simp add: deletePlace_def demo_defs store_ops consistent_def keys_ok_def place_links_def
      user_links_def upd_user_def unlink_def)

text \<open>
  C4. Existence is tested before ownership: for a well-formed id that names no place,
  \<open>deletePlace\<close> answers 404 whoever asks, and changes nothing.
\<close>

theorem deletePlace_absent_404:
  assumes "cast_oid pid = Some i" and "\<not> db_faults E FindPlace"
    and "i \<notin> place_id ` set (place_docs (store w))"
  shows "deletePlace E pid uid w = (Next (HttpError ''Could not find place for this id.'' 404), w)"
  using assms by (simp add: deletePlace_def store_ops find_key_absent)

theorem deletePlace_absent_404_witness:
  "deletePlace demo_env (oid_str 7) (oid_str 9) demo_world =
     (Next (HttpError ''Could not find place for this id.'' 404), demo_world)"
  by (rule deletePlace_absent_404 [of _ 7]) (simp_all add: demo_defs)

text \<open>
  C5. On a consistent store, a request to delete an existing place by anyone but its
  owner is answered 401 and changes nothing.
\<close>

theorem deletePlace_not_owner_401:
  assumes c: "consistent (store w)" and p: "p \<in> set (place_docs (store w))"
    and pid: "cast_oid pid = Some (place_id p)"
    and nf: "\<not> db_faults E FindPlace" "\<not> db_faults E FindUser"
    and other: "uid \<noteq> oid_str (creator p)"
  shows "deletePlace E pid uid w = (Next (HttpError ''You are not authorized to delete this place'' 401), w)"
proof -
  from c have keys: "distinct (map place_id (place_docs (store w)))"
    and uk: "distinct (map user_id (user_docs (store w)))"
    by (auto simp: consistent_def keys_ok_def)
  from c p obtain u where u: "u \<in> set (user_docs (store w))" "user_id u = creator p"
    by (auto simp: consistent_iff)
  have "find (\<lambda>q. place_id q = place_id p) (place_docs (store w)) = Some p"
    using find_key_distinct [OF keys p] .
  moreover have "find (\<lambda>x. user_id x = creator p) (user_docs (store w)) = Some u"
    using find_key_distinct [OF uk u(1)] u(2) by simp
  ultimately show ?thesis using pid nf other u(2) by (simp add: deletePlace_def store_ops)
qed

theorem deletePlace_not_owner_401_witness:
  "deletePlace demo_env (oid_str 2) (oid_str 9) demo_world =
     (Next (HttpError ''You are not authorized to delete this place'' 401), demo_world)"
  by (rule deletePlace_not_owner_401 [of _ demo_place])
     (simp_all add: demo_defs consistent_def keys_ok_def place_links_def user_links_def)

text \<open>
  C6. A valid update of an existing place by anyone but its owner is answered 401 and
  changes nothing.
\<close>

theorem updatePlace_not_owner_401:
  assumes "errors req = []" and "find_place_by_id (db_faults E) pid (store w) = Inr (Some p)"
    and "uid \<noteq> oid_str (creator p)"
  shows "updatePlace E req pid uid w = (Next (HttpError ''You are not authorized to edit this place'' 401), w)"
  using assms by (simp add: updatePlace_def)

theorem updatePlace_not_owner_401_witness:
  "updatePlace demo_env demo_update_req (oid_str 2) (oid_str 9) demo_world =
     (Next (HttpError ''You are not authorized to edit this place'' 401), demo_world)"
  by (rule updatePlace_not_owner_401 [of _ _ _ _ demo_place]) (simp_all add: demo_defs store_ops)

text \<open>
  C7. When the address cannot be resolved, \<open>createPlace\<close> passes the adapter's error on
  and persists nothing; with a geocoder that finds nothing this is the 404 of the spec's
  example.
\<close>

theorem createPlace_geocode_failure:
  assumes "errors req = []" and "getCoordsForAddress (geocode E) (field_str req ''address'') = Inl e"
  shows "createPlace E req uid w = (Next e, w)"
  using assms by (simp add: createPlace_def)

theorem createPlace_geocode_failure_witness:
  "createPlace demo_env demo_create_req (oid_str 1) demo_world =
     (Next (HttpError ''Could not find location for the address given'' 404), demo_world)"
  by (rule createPlace_geocode_failure)
     (simp_all add: demo_defs getCoordsForAddress_def field_str_def field_def)

text \<open>
  C13. \<open>updatePlace\<close> has no test for a missing place: a valid update of a well-formed
  id that names no place reads \<open>creator\<close> from \<open>null\<close> and throws outside any
  \<open>try\<close>, so the request is never answered (the spec asks for 404).
\<close>

theorem updatePlace_missing_place_rejected:
  assumes "errors req = []" and "cast_oid pid = Some i" and "\<not> db_faults E FindPlace"
    and "i \<notin> place_id ` set (place_docs (store w))"
  shows "updatePlace E req pid uid w = (Rejected (read_error ''null'' ''creator''), w)"
  using assms by (simp add: updatePlace_def store_ops find_key_absent)

theorem updatePlace_missing_place_rejected_witness:
  "updatePlace demo_env demo_update_req (oid_str 7) (oid_str 1) demo_world =
     (Rejected (read_error ''null'' ''creator''), demo_world)"
  by (rule updatePlace_missing_place_rejected [of _ _ 7]) (simp_all add: demo_defs)

text \<open>
  C14. \<open>updatePlace\<close> answers invalid input by calling the \<open>HttpError\<close> class without
  \<open>new\<close>, which throws: the request is never answered (the spec asks for 422).
\<close>

theorem updatePlace_invalid_input_rejected:
  assumes "errors req \<noteq> []"
  shows "updatePlace E req pid uid w = (Rejected class_call_error, w)"
  using assms by (simp add: updatePlace_def)

theorem updatePlace_invalid_input_rejected_witness:
  "updatePlace demo_env (demo_update_req\<lparr>errors := [''Invalid value: title'']\<rparr>) (oid_str 2) (oid_str 1)
     demo_world = (Rejected class_call_error, demo_world)"
  by (rule updatePlace_invalid_input_rejected) simp

text \<open>
  C15. A valid place creation without an uploaded image reads \<open>req.file.path\<close> from
  \<open>undefined\<close> after geocoding, outside any \<open>try\<close>: the request is never answered.
\<close>

theorem createPlace_without_image_rejected:
  assumes "errors req = []" and "getCoordsForAddress (geocode E) (field_str req ''address'') = Inr loc"
    and "upload req = None"
  shows "createPlace E req uid w = (Rejected (read_error ''undefined'' ''path''), w)"
  using assms by (simp add: createPlace_def)

theorem createPlace_without_image_rejected_witness:
  "createPlace demo_geo_env (demo_create_req\<lparr>upload := None\<rparr>) (oid_str 1) demo_world =
     (Rejected (read_error ''undefined'' ''path''), demo_world)"
  by (rule createPlace_without_image_rejected [of _ _ demo_location])
     (simp_all add: demo_defs getCoordsForAddress_def geo_answer_def field_str_def field_def)

text \<open>
  C19. On a consistent database, the list \<open>getPlacesByUserId\<close> answers for an existing
  user holds exactly the places that user's \<open>places\<close> lists, each once.
\<close>

theorem getPlacesByUserId_lists_user_places:
  assumes "consistent d" and "u \<in> set (user_docs d)" and "\<not> db_faults E FindPlaces"
  shows "\<exists>ps. getPlacesByUserId E (oid_str (user_id u)) d =
              Sent 200 (JObj [(''userPlaceList'', JArr (map (place_json True) ps))]) \<and>
            place_id ` set ps = set (places u) \<and> distinct (map place_id ps)"
proof (intro exI conjI)
  let ?ps = "filter (\<lambda>p. creator p = user_id u) (place_docs d)"
  show "getPlacesByUserId E (oid_str (user_id u)) d =
          Sent 200 (JObj [(''userPlaceList'', JArr (map (place_json True) ?ps))])"
    using assms(3) by (simp add: getPlacesByUserId_def find_places_by_creator_def)
  show "place_id ` set ?ps = set (places u)"
    using consistent_user_places [OF assms(1,2)] by simp
  show "distinct (map place_id ?ps)"
    using assms(1) by (auto simp: consistent_def keys_ok_def)
qed

theorem getPlacesByUserId_lists_user_places_witness:
  "\<exists>ps. getPlacesByUserId demo_env (oid_str (user_id demo_user)) (store demo_world) =
          Sent 200 (JObj [(''userPlaceList'', JArr (map (place_json True) ps))]) \<and>
        place_id ` set ps = set (places demo_user) \<and> distinct (map place_id ps)"
  by (rule getPlacesByUserId_lists_user_places [OF demo_world_consistent])
     (simp_all add: demo_store_defs)

text \<open>
  C20. A valid place creation by an existing user, with an address the geocoder resolves
  to a latitude/longitude pair, an uploaded image and no database fault, is answered 201
  with the new place, which is appended to the places and to its owner's list.
\<close>

theorem createPlace_success:
  assumes c: "consistent (store w)" and u: "u \<in> set (user_docs (store w))"
    and ok: "errors req = []" and geo: "getCoordsForAddress (geocode E) (field_str req ''address'') = Inr loc"
    and loc: "location_ok loc" and f: "upload req = Some f" and nf: "db_faults E = no_faults"
    and fresh: "fresh_oid E \<notin> place_id ` set (place_docs (store w))"
  shows "createPlace E req (oid_str (user_id u)) w =
           (Sent 201 (JObj [(''place'', place_json False (new_place E req loc f (user_id u)))]),
            w\<lparr>store := (store w)\<lparr>place_docs := place_docs (store w) @ [new_place E req loc f (user_id u)],
                user_docs := upd_user (user_id u) (\<lambda>ps. ps @ [fresh_oid E]) (user_docs (store w))\<rparr>\<rparr>)"
proof -
  have "distinct (map user_id (user_docs (store w)))" using c by (simp add: consistent_def keys_ok_def)
  then have "find (\<lambda>x. user_id x = user_id u) (user_docs (store w)) = Some u"
    using u by (rule find_key_distinct)
  then have "find_user_by_id (db_faults E) (oid_str (user_id u)) (store w) = Inr (Some u)"
    using nf by (simp add: find_user_by_id_def no_faults_def)
  moreover have "user_id u \<in> set (map user_id (user_docs (store w)))" using u by simp
  ultimately show ?thesis
    using ok geo loc f nf fresh
    by (simp add: createPlace_def run_tx_def save_doc_def no_faults_def new_place_def image_iff Let_def)
qed

theorem createPlace_success_witness:
  "createPlace demo_geo_env demo_create_req (oid_str (user_id demo_user)) demo_world =
     (Sent 201 (JObj [(''place'', place_json False (new_place demo_geo_env demo_create_req demo_location
        ''uploads/images/p.png'' (user_id demo_user)))]),
      demo_world\<lparr>store := (store demo_world)\<lparr>place_docs := place_docs (store demo_world) @
           [new_place demo_geo_env demo_create_req demo_location ''uploads/images/p.png'' (user_id demo_user)],
         user_docs := upd_user (user_id demo_user) (\<lambda>ps. ps @ [fresh_oid demo_geo_env]) (user_docs (store demo_world))\<rparr>\<rparr>)"
  by (rule createPlace_success [OF demo_world_consistent])
     (simp_all add: demo_defs getCoordsForAddress_def geo_answer_def field_str_def field_def location_ok_def)

text \<open>
  C32. A valid update of an existing place by its owner, with no database fault, is
  answered 200 with the updated place, and changes the title and description of that
  place and nothing else.
\<close>

theorem updatePlace_success:
  assumes ok: "errors req = []" and p: "find_place_by_id (db_faults E) pid (store w) = Inr (Some p)"
    and own: "oid_str (creator p) = uid" and nf: "\<not> db_faults E UpdatePlace"
  shows "updatePlace E req pid uid w =
    (Sent 200 (JObj [(''place'', place_json True (p\<lparr>title := field_str req ''title'', description := field_str req ''description''\<rparr>))]),
     w\<lparr>store := (store w)\<lparr>place_docs := map (\<lambda>q. if place_id q = place_id p
          then q\<lparr>title := field_str req ''title'', description := field_str req ''description''\<rparr> else q)
          (place_docs (store w))\<rparr>\<rparr>)"
proof -
  from find_place_by_id_Some [OF p] have "place_id p \<in> set (map place_id (place_docs (store w)))" by simp
  with assms show ?thesis by (simp add: updatePlace_def Let_def save_doc_def)
qed

theorem updatePlace_success_witness:
  "updatePlace demo_env demo_update_req (oid_str 2) (oid_str 1) demo_world =
    (Sent 200 (JObj [(''place'', place_json True (demo_place\<lparr>title := ''Flat'', description := ''Where I live now''\<rparr>))]),
     demo_world\<lparr>store := (store demo_world)\<lparr>place_docs := map (\<lambda>q. if place_id q = place_id demo_place
          then q\<lparr>title := ''Flat'', description := ''Where I live now''\<rparr> else q)
          (place_docs (store demo_world))\<rparr>\<rparr>)"
  using updatePlace_success [of demo_update_req demo_env "oid_str 2" demo_world demo_place "oid_str 1"]
  by (simp add: demo_defs find_place_by_id_def field_str_def field_def)

text \<open>
  C33. On a consistent database, \<open>getPlaceById\<close> of an existing place's printed id is
  answered 200 with that place's JSON, its \<open>id\<close> getter included.
\<close>

theorem getPlaceById_found:
  assumes c: "consistent d" and p: "p \<in> set (place_docs d)" and nf: "\<not> db_faults E FindPlace"
  shows "getPlaceById E (oid_str (place_id p)) d = Sent 200 (JObj [(''place'', place_json True p)])"
  using find_place_by_id_member [OF c p, of "db_faults E"] nf by (simp add: getPlaceById_def)

theorem getPlaceById_found_witness:
  "getPlaceById demo_env (oid_str (place_id demo_place)) (store demo_world) =
     Sent 200 (JObj [(''place'', place_json True demo_place)])"
  by (rule getPlaceById_found [OF demo_world_consistent]) (simp_all add: demo_store_defs)

end
