(* ===== verification/Users.thy ===== *)
theory Users
  imports Request
begin

text \<open>
  \<open>controllers/users-controller.js\<close>: listing users, reading one, signing up and logging
  in. Passwords are hashed with bcrypt (cost 12) and compared with \<open>bcrypt.compare\<close>;
  tokens are signed with jsonwebtoken over \<open>{ userId, email }\<close> with a one-hour expiry.
  Both libraries are collaborators of \<open>env\<close>; the properties that need more than their
  failure behaviour state what they assume of them (\<open>jwt_roundtrip\<close>, \<open>bcrypt_sound\<close>)
  as hypotheses. The e-mail address the signup handler sees has been rewritten by the
  route's \<open>normalizeEmail\<close> sanitizer; the login handler only lower-cases what it gets.
\<close>

section \<open>The JSON of a user\<close>

text \<open>
  \<open>user.toObject({ getters: true })\<close> of a document read with the projection
  \<open>'-password'\<close>: the password field is not selected, so it is not in the object.
\<close>

definition user_json :: "user \<Rightarrow> jsval" where
  "user_json u =
     JObj [(''_id'', JStr (oid_str (user_id u))), (''name'', JStr (name u)), (''email'', JStr (email u)),
           (''image'', JStr (user_image u)), (''places'', JArr (map (JStr \<circ> oid_str) (places u))),
           (''id'', JStr (oid_str (user_id u)))]"

text \<open>The body of a successful signup or login: \<open>{ userId, email, token, image }\<close>.\<close>

definition auth_json :: "user \<Rightarrow> string \<Rightarrow> jsval" where
  "auth_json u t =
     JObj [(''userId'', JStr (oid_str (user_id u))), (''email'', JStr (email u)), (''token'', JStr t),
           (''image'', JStr (user_image u))]"

definition user_token :: "user \<Rightarrow> token" where
  "user_token u = \<lparr>tok_user = oid_str (user_id u), tok_email = email u\<rparr>"

section \<open>Handlers\<close>

definition getUsers :: "env \<Rightarrow> db \<Rightarrow> outcome" where
  "getUsers E d =
     (case find_users (db_faults E) d of
        Inl _ \<Rightarrow> Next (HttpError ''Error finding users, please try again'' 500)
      | Inr us \<Rightarrow> Sent 200 (JObj [(''users'', JArr (map user_json us))]))"

text \<open>\<open>getUserById\<close> has no test for a missing user: \<open>user.toObject\<close> is read from \<open>null\<close>.\<close>

definition getUserById :: "env \<Rightarrow> string \<Rightarrow> db \<Rightarrow> outcome" where
  "getUserById E uid d =
     (case find_user_by_id (db_faults E) uid d of
        Inl _ \<Rightarrow> Next (HttpError ''Error finding user, please try again'' 500)
      | Inr None \<Rightarrow> Rejected (read_error ''null'' ''toObject'')
      | Inr (Some u) \<Rightarrow> Sent 200 (JObj [(''user'', user_json u)]))"

definition new_user :: "env \<Rightarrow> request \<Rightarrow> string \<Rightarrow> string \<Rightarrow> user" where
  "new_user E req f h =
     \<lparr>user_id = fresh_oid E, name = field_str req ''name'', email = field_str req ''email'',
      user_image = f, password = h, places = []\<rparr>"

text \<open>
  \<open>signupUser\<close>: validation, the e-mail lookup, hashing, the new document (its \<open>image\<close>
  reads \<open>req.file.path\<close> outside any \<open>try\<close>), the insert, and the token. The token is
  signed after the insert: a signing failure answers 500 with the user already stored.
\<close>

definition signupUser :: "env \<Rightarrow> request \<Rightarrow> world \<Rightarrow> outcome \<times> world" where
  "signupUser E req w =
     (if errors req \<noteq> [] then (Next (HttpError ''Invalid inputs, please check your data'' 422), w)
      else case find_user_by_email (db_faults E) (field_str req ''email'') (store w) of
        Inl _ \<Rightarrow> (Next (HttpError ''Could not sign up user. Try again'' 500), w)
      | Inr (Some _) \<Rightarrow> (Next (HttpError ''User already exists, please sign in'' 422), w)
      | Inr None \<Rightarrow>
          (case bcrypt_hash E (field_str req ''password'') of
             None \<Rightarrow> (Next (HttpError ''Could not create user, please try again'' 500), w)
           | Some h \<Rightarrow>
               (case upload req of
                  None \<Rightarrow> (Rejected (read_error ''undefined'' ''path''), w)
                | Some f \<Rightarrow>
                    let u = new_user E req f h in
                    (case save_doc (db_faults E) (InsUser u) (store w) of
                       Inl _ \<Rightarrow> (Next (HttpError ''Something went wrong signing up user'' 500), w)
                     | Inr d' \<Rightarrow>
                         (case jwt_sign E (user_token u) of
                            None \<Rightarrow> (Next (HttpError ''Something went wrong signing up user'' 500),
                                     w\<lparr>store := d'\<rparr>)
                          | Some t \<Rightarrow> (Sent 201 (auth_json u t), w\<lparr>store := d'\<rparr>))))))"

text \<open>
  \<open>loginUser\<close>: no validation on this route. \<open>email.toLowerCase()\<close> is evaluated inside
  the \<open>try\<close> around \<open>User.findOne\<close>, so a body without an e-mail throws a \<open>TypeError\<close>
  there and is answered like a failed lookup, with 500. \<open>bcrypt.compare\<close> with no password fails (bcryptjs
  rejects illegal arguments), which the handler answers with 500.
\<close>

definition loginUser :: "env \<Rightarrow> request \<Rightarrow> db \<Rightarrow> outcome" where
  "loginUser E req d =
     (case field req ''email'' of
        None \<Rightarrow> Next (HttpError ''Could not log in, please try again'' 500)
      | Some e \<Rightarrow>
          (case find_user_by_email (db_faults E) (to_lower e) d of
             Inl _ \<Rightarrow> Next (HttpError ''Could not log in, please try again'' 500)
           | Inr None \<Rightarrow> Next (HttpError ''Could not identify user'' 403)
           | Inr (Some u) \<Rightarrow>
               (case (case field req ''password'' of
                        None \<Rightarrow> None
                      | Some p \<Rightarrow> bcrypt_compare E p (password u)) of
                  None \<Rightarrow> Next (HttpError ''Could not log you in, please check credentials'' 500)
                | Some False \<Rightarrow> Next (HttpError ''Invalid credentials, please try again'' 403)
                | Some True \<Rightarrow>
                    (case jwt_sign E (user_token u) of
                       None \<Rightarrow> Next (HttpError ''Something went wrong logging in'' 500)
                     | Some t \<Rightarrow> Sent 200 (auth_json u t)))))"

section \<open>Assumptions on the libraries\<close>

text \<open>A token jsonwebtoken signs verifies (within its hour) to the payload it was signed with.\<close>

definition jwt_roundtrip :: "env \<Rightarrow> bool" where
  "jwt_roundtrip E \<longleftrightarrow> (\<forall>tk t. jwt_sign E tk = Some t \<longrightarrow> jwt_verify E t = Some tk)"

text \<open>bcrypt accepts a password against the hash of that password and rejects any other.\<close>

definition bcrypt_sound :: "env \<Rightarrow> bool" where
  "bcrypt_sound E \<longleftrightarrow>
     (\<forall>p h. bcrypt_hash E p = Some h \<longrightarrow>
        (\<forall>q. bcrypt_compare E q h = Some (q = p)))"

section \<open>Example requests\<close>

definition demo_signup_req :: request where
  "demo_signup_req =
     \<lparr>meth = POST, segs = [''api'', ''users'', ''signup''],
      body = [(''name'', ''Ann''), (''email'', ''ann@example.com''), (''password'', ''secret1'')],
      authorization = None, upload = Some ''uploads/images/v.png'', errors = []\<rparr>"

definition demo_login_req :: "string \<Rightarrow> request" where
  "demo_login_req pw =
     \<lparr>meth = POST, segs = [''api'', ''users'', ''login''],
      body = [(''email'', ''ann@example.com''), (''password'', pw)],
      authorization = None, upload = None, errors = []\<rparr>"

text \<open>An e-mail normaliser that drops a subaddress, as \<open>normalizeEmail\<close> does for some providers.\<close>

definition demo_strip_tag :: "string \<Rightarrow> string" where
  "demo_strip_tag s = takeWhile (\<lambda>c. c \<noteq> CHR ''+'') s @ dropWhile (\<lambda>c. c \<noteq> CHR ''@'') s"

section \<open>Signing up keeps the store consistent\<close>

lemma signupUser_consistent [inv_rules]:
  assumes "consistent (store w)"
  shows "consistent (store (snd (signupUser E req w)))"
proof -
  have "consistent d'" if "save_doc (db_faults E) (InsUser (new_user E req f h)) (store w) = Inr d'" for f h d'
  proof -
    from that have "apply_write (InsUser (new_user E req f h)) (store w) = Inr d'"
      by (simp add: save_doc_def split: if_splits)
    moreover have "places (new_user E req f h) = []" by (simp add: new_user_def)
    ultimately show ?thesis using assms consistent_insert_user by blast
  qed
  with assms show ?thesis
    unfolding signupUser_def Let_def by (auto split: sum.split option.split)
qed

lemma demo_env_jwt_roundtrip: "jwt_roundtrip demo_env"
  by (simp add: jwt_roundtrip_def demo_env_def demo_verify_sign)

lemma demo_env_bcrypt_sound: "bcrypt_sound demo_env"
  by (auto simp: bcrypt_sound_def demo_env_def)

section \<open>No reply of the users controller carries a password\<close>

lemma user_json_no_password [simp]: "\<not> has_key ''password'' (user_json u)"
  by (auto simp: user_json_def)

lemma auth_json_no_password [simp]: "\<not> has_key ''password'' (auth_json u t)"
  by (simp add: auth_json_def)

lemma users_handlers_no_password:
  "getUsers E d = Sent s v \<Longrightarrow> \<not> has_key ''password'' v"
  "getUserById E uid d = Sent s v \<Longrightarrow> \<not> has_key ''password'' v"
  "signupUser E req w = (Sent s v, w') \<Longrightarrow> \<not> has_key ''password'' v"
  "loginUser E req d = Sent s v \<Longrightarrow> \<not> has_key ''password'' v"
  by (auto simp: getUsers_def getUserById_def signupUser_def loginUser_def Let_def
      split: if_splits sum.splits option.splits bool.splits)

lemmas [handler_defs] = getUsers_def getUserById_def signupUser_def loginUser_def

section \<open>Properties of the users controller\<close>

text \<open>
  C8. A valid signup whose e-mail address is already registered is answered 422 and
  changes nothing (the spec's duplicate-signup property).
\<close>

theorem signup_duplicate_email_422:
  assumes "errors req = []" and "\<not> db_faults E FindUserByEmail"
    and "field_str req ''email'' \<in> email ` set (user_docs (store w))"
  shows "signupUser E req w = (Next (HttpError ''User already exists, please sign in'' 422), w)"
proof -
  from assms(3) obtain u where "find (\<lambda>u. email u = field_str req ''email'') (user_docs (store w)) = Some u"
    by (cases "find (\<lambda>u. email u = field_str req ''email'') (user_docs (store w))") auto
  with assms(1,2) show ?thesis by (simp add: signupUser_def find_user_by_email_def)
qed

theorem signup_duplicate_email_422_witness:
  "signupUser demo_env demo_signup_req demo_world =
     (Next (HttpError ''User already exists, please sign in'' 422), demo_world)"
  by (rule signup_duplicate_email_422) (simp_all add: demo_signup_req_def demo_store_defs field_str_def field_def)

text \<open>
  C10. Under the token library's round trip, a login with the registered e-mail address
  (in any letter case) and the password the hash was made from is answered 200, and the
  token in the answer verifies to the user's id and e-mail address.
\<close>

theorem login_token_identifies_user:
  assumes jwt: "jwt_roundtrip E" and bc: "bcrypt_sound E"
    and keys: "distinct (map email (user_docs d))"
    and u: "u \<in> set (user_docs d)" and hash: "bcrypt_hash E pw = Some (password u)"
    and em: "field req ''email'' = Some e" and low: "to_lower e = email u"
    and pwd: "field req ''password'' = Some pw"
    and nf: "\<not> db_faults E FindUserByEmail" and signed: "jwt_sign E (user_token u) = Some t"
  shows "loginUser E req d = Sent 200 (auth_json u t) \<and>
         jwt_verify E t = Some \<lparr>tok_user = oid_str (user_id u), tok_email = email u\<rparr>"
proof -
  have "find (\<lambda>x. email x = email u) (user_docs d) = Some u"
    using find_key_distinct [OF keys u] .
  moreover have "bcrypt_compare E pw (password u) = Some True"
    using bc hash by (simp add: bcrypt_sound_def)
  ultimately have "loginUser E req d = Sent 200 (auth_json u t)"
    using em low pwd nf signed by (simp add: loginUser_def find_user_by_email_def)
  moreover have "jwt_verify E t = Some (user_token u)"
    using jwt signed by (simp add: jwt_roundtrip_def)
  ultimately show ?thesis by (simp add: user_token_def)
qed

theorem login_token_identifies_user_witness:
  "loginUser demo_env (demo_login_req ''secret1'') (store demo_world) =
     Sent 200 (auth_json demo_user (demo_sign (user_token demo_user))) \<and>
   jwt_verify demo_env (demo_sign (user_token demo_user)) =
     Some \<lparr>tok_user = oid_str (user_id demo_user), tok_email = email demo_user\<rparr>"
  by (rule login_token_identifies_user [OF demo_env_jwt_roundtrip demo_env_bcrypt_sound, where e = "''ann@example.com''" and pw = "''secret1''"])
     (simp_all add: demo_login_req_def demo_store_defs field_def to_lower_def ascii_lower_def)

text \<open>
  C11. A login with a registered e-mail address and any other password than the one the
  hash was made from is answered 403.
\<close>

theorem login_wrong_password_403:
  assumes bc: "bcrypt_sound E" and keys: "distinct (map email (user_docs d))"
    and u: "u \<in> set (user_docs d)" and hash: "bcrypt_hash E pw = Some (password u)"
    and em: "field req ''email'' = Some e" and low: "to_lower e = email u"
    and pwd: "field req ''password'' = Some q" and wrong: "q \<noteq> pw"
    and nf: "\<not> db_faults E FindUserByEmail"
  shows "loginUser E req d = Next (HttpError ''Invalid credentials, please try again'' 403)"
proof -
  have "find (\<lambda>x. email x = email u) (user_docs d) = Some u"
    using find_key_distinct [OF keys u] .
  moreover have "bcrypt_compare E q (password u) = Some False"
    using bc hash wrong by (simp add: bcrypt_sound_def)
  ultimately show ?thesis
    using em low pwd nf by (simp add: loginUser_def find_user_by_email_def)
qed

theorem login_wrong_password_403_witness:
  "loginUser demo_env (demo_login_req ''guess12'') (store demo_world) =
     Next (HttpError ''Invalid credentials, please try again'' 403)"
  by (rule login_wrong_password_403 [OF demo_env_bcrypt_sound, where e = "''ann@example.com''" and pw = "''secret1''" and u = demo_user and q = "''guess12''"])
     (simp_all add: demo_login_req_def demo_store_defs field_def to_lower_def ascii_lower_def)

text \<open>
  C16. \<open>getUserById\<close> has no test for a missing user: for a well-formed id that names
  no user it reads \<open>toObject\<close> from \<open>null\<close> outside any \<open>try\<close>, so the request is never
  answered.
\<close>

theorem getUserById_missing_rejected:
  assumes "cast_oid uid = Some i" and "\<not> db_faults E FindUser"
    and "i \<notin> user_id ` set (user_docs d)"
  shows "getUserById E uid d = Rejected (read_error ''null'' ''toObject'')"
  using assms by (simp add: getUserById_def find_user_by_id_def find_key_absent)


theorem getUserById_missing_rejected_witness:
  "getUserById demo_env (oid_str 7) (store demo_world) = Rejected (read_error ''null'' ''toObject'')"
  by (rule getUserById_missing_rejected [of _ 7]) (simp_all add: demo_store_defs)

section \<open>Signup and login treat e-mail addresses differently\<close>

lemma signupUser_Sent_auth:
  "signupUser E req w = (Sent s v, w') \<Longrightarrow> \<exists>u t. v = auth_json u t"
  by (auto simp: signupUser_def Let_def split: if_splits sum.splits option.splits)

lemma signupUser_Sent:
  assumes "signupUser E req w = (Sent s v, w')"
  shows "\<exists>f h. store w' = (store w)\<lparr>user_docs := user_docs (store w) @ [new_user E req f h]\<rparr>"
proof -
  from assms obtain f h d' where sv: "save_doc (db_faults E) (InsUser (new_user E req f h)) (store w) = Inr d'"
    and w': "w' = w\<lparr>store := d'\<rparr>"
    by (auto simp: signupUser_def Let_def split: if_splits sum.splits option.splits)
  from sv have "d' = (store w)\<lparr>user_docs := user_docs (store w) @ [new_user E req f h]\<rparr>"
    by (simp add: save_doc_def split: if_splits)
  with w' show ?thesis by auto
qed

lemma field_str_sanitize_email:
  "field req ''email'' = Some e \<Longrightarrow> field_str (sanitize_email E req) ''email'' = normalize_email E e"
  by (simp add: sanitize_email_def field_str_def field_def)

lemma demo_tag_signup:
  "\<exists>v. fst (signupUser (demo_env\<lparr>normalize_email := demo_strip_tag\<rparr>)
        (sanitize_email (demo_env\<lparr>normalize_email := demo_strip_tag\<rparr>)
           (demo_signup_req\<lparr>body := [(''name'', ''Bob''), (''email'', ''bob+x@mail.com''), (''password'', ''secret2'')]\<rparr>))
        demo_world) = Sent 201 v"
  by (simp add: signupUser_def Let_def demo_signup_req_def demo_store_defs sanitize_email_def demo_strip_tag_def
      find_user_by_email_def field_str_def field_def save_doc_def new_user_def)

text \<open>
  C24. Signup stores the address as the route's \<open>normalizeEmail\<close> sanitizer rewrote it,
  login looks up the address it is given, only lower-cased. When the two differ, a user
  who signed up successfully and logs in with the same address is told the address is
  unknown (403).
\<close>

theorem login_after_signup_unknown:
  assumes su: "signupUser E (sanitize_email E req) w = (Sent s v, w')"
    and em: "field req ''email'' = Some e"
    and new: "to_lower e \<notin> email ` set (user_docs (store w))"
    and diff: "normalize_email E e \<noteq> to_lower e"
    and lem: "field lreq ''email'' = Some e" and nf: "\<not> db_faults E FindUserByEmail"
  shows "loginUser E lreq (store w') = Next (HttpError ''Could not identify user'' 403)"
proof -
  from signupUser_Sent [OF su] obtain f h
    where w': "store w' = (store w)\<lparr>user_docs := user_docs (store w) @ [new_user E (sanitize_email E req) f h]\<rparr>"
    by blast
  have "email (new_user E (sanitize_email E req) f h) = normalize_email E e"
    using field_str_sanitize_email [OF em] by (simp add: new_user_def)
  with new diff have "to_lower e \<notin> email ` set (user_docs (store w'))"
    by (auto simp: w')
  then have "find (\<lambda>u. email u = to_lower e) (user_docs (store w')) = None"
    by (rule find_key_absent)
  with lem nf show ?thesis by (simp add: loginUser_def find_user_by_email_def del: find_key_None)
qed

theorem login_after_signup_unknown_witness:
  "loginUser (demo_env\<lparr>normalize_email := demo_strip_tag\<rparr>)
      (demo_login_req ''secret2''\<lparr>body := [(''email'', ''bob+x@mail.com''), (''password'', ''secret2'')]\<rparr>)
      (store (snd (signupUser (demo_env\<lparr>normalize_email := demo_strip_tag\<rparr>)
        (sanitize_email (demo_env\<lparr>normalize_email := demo_strip_tag\<rparr>)
           (demo_signup_req\<lparr>body := [(''name'', ''Bob''), (''email'', ''bob+x@mail.com''), (''password'', ''secret2'')]\<rparr>))
        demo_world))) =
   Next (HttpError ''Could not identify user'' 403)"
proof -
  let ?E = "demo_env\<lparr>normalize_email := demo_strip_tag\<rparr>"
  let ?req = "demo_signup_req\<lparr>body := [(''name'', ''Bob''), (''email'', ''bob+x@mail.com''), (''password'', ''secret2'')]\<rparr>"
  from demo_tag_signup obtain v where "fst (signupUser ?E (sanitize_email ?E ?req) demo_world) = Sent 201 v" ..
  then have su: "signupUser ?E (sanitize_email ?E ?req) demo_world =
      (Sent 201 v, snd (signupUser ?E (sanitize_email ?E ?req) demo_world))"
    by (metis prod.collapse)
  show ?thesis
    by (rule login_after_signup_unknown [OF su, where e = "''bob+x@mail.com''"])
       (simp_all add: demo_store_defs field_def demo_strip_tag_def to_lower_def ascii_lower_def
        demo_login_req_def)
qed

section \<open>What a successful signup stores and answers\<close>

lemma demo_signup_fresh:
  "\<exists>v. fst (signupUser demo_env demo_signup_req (demo_world\<lparr>store := empty_db\<rparr>)) = Sent 201 v"
  by (simp add: signupUser_def Let_def save_doc_def demo_signup_req_def demo_store_defs
      empty_db_def find_user_by_email_def field_str_def field_def)

lemma demo_signup_fresh_Sent:
  obtains v where "signupUser demo_env demo_signup_req (demo_world\<lparr>store := empty_db\<rparr>) =
    (Sent 201 v, snd (signupUser demo_env demo_signup_req (demo_world\<lparr>store := empty_db\<rparr>)))"
  using demo_signup_fresh by (metis prod.collapse)

text \<open>
  C31. Signup stores the bcrypt hash of the password, never the password itself: a
  successful signup appends exactly one user, whose stored password is the hash bcrypt
  made of the submitted one, whose e-mail is the submitted (sanitized) one, and who owns
  no place.
\<close>

theorem signup_stores_hash:
  assumes "signupUser E req w = (Sent s v, w')"
  shows "\<exists>u h. user_docs (store w') = user_docs (store w) @ [u] \<and>
           bcrypt_hash E (field_str req ''password'') = Some h \<and> password u = h \<and>
           email u = field_str req ''email'' \<and> places u = []"
proof -
  from assms obtain f h d' where hh: "bcrypt_hash E (field_str req ''password'') = Some h"
    and sv: "save_doc (db_faults E) (InsUser (new_user E req f h)) (store w) = Inr d'"
    and w': "w' = w\<lparr>store := d'\<rparr>"
    by (auto simp: signupUser_def Let_def split: if_splits sum.splits option.splits)
  from sv have "d' = (store w)\<lparr>user_docs := user_docs (store w) @ [new_user E req f h]\<rparr>"
    by (simp add: save_doc_def split: if_splits)
  with hh w' show ?thesis by (auto simp: new_user_def)
qed

theorem signup_stores_hash_witness:
  "\<exists>u h. user_docs (store (snd (signupUser demo_env demo_signup_req (demo_world\<lparr>store := empty_db\<rparr>)))) =
          user_docs (store (demo_world\<lparr>store := empty_db\<rparr>)) @ [u] \<and>
        bcrypt_hash demo_env (field_str demo_signup_req ''password'') = Some h \<and> password u = h \<and>
        email u = field_str demo_signup_req ''email'' \<and> places u = []"
proof -
  obtain v where "signupUser demo_env demo_signup_req (demo_world\<lparr>store := empty_db\<rparr>) =
    (Sent 201 v, snd (signupUser demo_env demo_signup_req (demo_world\<lparr>store := empty_db\<rparr>)))" by (rule demo_signup_fresh_Sent)
  then show ?thesis by (rule signup_stores_hash)
qed

text \<open>
  C34. Under the token library's round trip, the token a successful signup answers
  with verifies to the id and e-mail address of a user the signup stored.
\<close>

theorem signup_token_identifies_user:
  assumes jwt: "jwt_roundtrip E" and su: "signupUser E req w = (Sent s v, w')"
  shows "\<exists>u t. v = auth_json u t \<and> u \<in> set (user_docs (store w')) \<and>
           jwt_verify E t = Some \<lparr>tok_user = oid_str (user_id u), tok_email = email u\<rparr>"
proof -
  from su obtain f h d' t where sv: "save_doc (db_faults E) (InsUser (new_user E req f h)) (store w) = Inr d'"
    and tk: "jwt_sign E (user_token (new_user E req f h)) = Some t"
    and v: "v = auth_json (new_user E req f h) t" and w': "w' = w\<lparr>store := d'\<rparr>"
    by (auto simp: signupUser_def Let_def split: if_splits sum.splits option.splits)
  from sv have "new_user E req f h \<in> set (user_docs d')"
    by (auto simp: save_doc_def split: if_splits)
  moreover have "jwt_verify E t = Some (user_token (new_user E req f h))"
    using jwt tk by (simp add: jwt_roundtrip_def)
  ultimately show ?thesis using v w' by (auto simp: user_token_def)
qed

theorem signup_token_identifies_user_witness:
  "\<exists>v u t. signupUser demo_env demo_signup_req (demo_world\<lparr>store := empty_db\<rparr>) =
       (Sent 201 v, snd (signupUser demo_env demo_signup_req (demo_world\<lparr>store := empty_db\<rparr>))) \<and>
     v = auth_json u t \<and> u \<in> set (user_docs (store (snd (signupUser demo_env demo_signup_req (demo_world\<lparr>store := empty_db\<rparr>))))) \<and>
     jwt_verify demo_env t = Some \<lparr>tok_user = oid_str (user_id u), tok_email = email u\<rparr>"
proof -
  obtain v where su: "signupUser demo_env demo_signup_req (demo_world\<lparr>store := empty_db\<rparr>) =
    (Sent 201 v, snd (signupUser demo_env demo_signup_req (demo_world\<lparr>store := empty_db\<rparr>)))" by (rule demo_signup_fresh_Sent)
  from signup_token_identifies_user [OF demo_env_jwt_roundtrip su] su show ?thesis by blast
qed

end
