(* ===== verification/App.thy ===== *)
theory App
  imports Places Users
begin

text \<open>
  The application, \<open>app.js\<close>, with the two routers \<open>routes/places-routes.js\<close> and
  \<open>routes/users-routes.js\<close>: the ordered stages a request passes through (static files,
  the routers mounted at \<open>/api/users\<close> and \<open>/api/places\<close>, the not-found handler, the
  error middleware), and the state machine of the server: a world is reachable if a
  sequence of requests, each under its own collaborators, leads to it from the empty
  database. The body parser and the CORS headers do not change what is modelled here and
  are left out; Express matches the fixed parts of a path without regard to case.
\<close>

datatype reply = Reply int jsval | PlainReply int string | FileReply string | NoReply

section \<open>Stages of the routers\<close>

text \<open>\<open>fileUpload.single('image')\<close>: multer stores the uploaded image and sets \<open>req.file\<close>.\<close>

definition file_upload :: "request \<Rightarrow> world \<Rightarrow> world" where
  "file_upload req w = (case upload req of None \<Rightarrow> w | Some f \<Rightarrow> w\<lparr>files := insert f (files w)\<rparr>)"

text \<open>On a route without multer, \<open>req.file\<close> is undefined.\<close>

definition no_file :: "request \<Rightarrow> request" where
  "no_file req = req\<lparr>upload := None\<rparr>"

definition not_found :: js_error where
  "not_found = HttpError ''Could not find this route.'' 404"

definition lit :: "string \<Rightarrow> string \<Rightarrow> bool" where
  "lit s k \<longleftrightarrow> to_lower s = k"

text \<open>
  \<open>routes/users-routes.js\<close>: \<open>GET /\<close>, \<open>GET /:uid\<close>, \<open>POST /signup\<close> (multer, then the
  checks and the e-mail sanitizer), \<open>POST /login\<close>. The result carries the request as the
  error middleware sees it.
\<close>

definition users_router ::
  "env \<Rightarrow> request \<Rightarrow> string list \<Rightarrow> world \<Rightarrow> outcome \<times> world \<times> request" where
  "users_router E req rest w =
     (case rest of
        [] \<Rightarrow>
          if meth req = GET then (getUsers E (store w), w, no_file req)
          else (Next not_found, w, no_file req)
      | [s] \<Rightarrow>
          if meth req = GET then (getUserById E s (store w), w, no_file req)
          else if meth req = POST \<and> lit s ''signup'' then
            (let req' = sanitize_email E (run_checks (signup_checks E req) req);
                 (out, w') = signupUser E req' (file_upload req w)
             in (out, w', req'))
          else if meth req = POST \<and> lit s ''login'' then (loginUser E (no_file req) (store w), w, no_file req)
          else (Next not_found, w, no_file req)
      | _ \<Rightarrow> (Next not_found, w, no_file req))"

text \<open>
  \<open>routes/places-routes.js\<close>: \<open>GET /:pid\<close> and \<open>GET /user/:uid\<close> are open; then
  \<open>router.use(auth)\<close> runs for every other request that reaches the router, before
  \<open>POST /\<close> (multer, then the checks), \<open>PATCH /:pid\<close> (the checks) and
  \<open>DELETE /:pid\<close>.
\<close>

definition places_router ::
  "env \<Rightarrow> request \<Rightarrow> string list \<Rightarrow> world \<Rightarrow> outcome \<times> world \<times> request" where
  "places_router E req rest w =
     (if meth req = GET \<and> length rest = 1 then (getPlaceById E (hd rest) (store w), w, no_file req)
      else if meth req = GET \<and> length rest = 2 \<and> lit (hd rest) ''user''
      then (getPlacesByUserId E (rest ! 1) (store w), w, no_file req)
      else
        (case check_auth E req of
           Inl e \<Rightarrow> (Next e, w, no_file req)
         | Inr uid \<Rightarrow>
             if meth req = POST \<and> rest = [] then
               (let req' = run_checks (place_create_checks req) req;
                    (out, w') = createPlace E req' uid (file_upload req w)
                in (out, w', req'))
             else if meth req = PATCH \<and> length rest = 1 then
               (let req' = run_checks (place_update_checks req) (no_file req);
                    (out, w') = updatePlace E req' (hd rest) uid w
                in (out, w', req'))
             else if meth req = DELETE \<and> length rest = 1 then
               (let (out, w') = deletePlace E (hd rest) uid w in (out, w', no_file req))
             else (Next not_found, w, no_file req)))"

section \<open>The application\<close>

text \<open>
  The error middleware: unlink the uploaded file if there is one (unawaited), then
  \<open>res.status(err.code || 500)\<close> and \<open>res.json({ message: err.message || \<dots> })\<close>. A code
  that is not a number from 100 to 999 makes Node's \<open>writeHead\<close> throw; Express's final
  handler then answers 500 with a plain-text body. (\<open>res.headerSent\<close> is never set, see
  the findings; no handler sends before failing, so the test never matters.)
\<close>

definition error_reply :: "js_error \<Rightarrow> reply" where
  "error_reply e =
     (case js_or (err_code e) (JNum 500) of
        JNum c \<Rightarrow>
          if 100 \<le> c \<and> c \<le> 999
          then Reply c (JObj [(''message'', JStr (if err_message e = [] then ''An unknown error occurred''
                                                  else err_message e))])
          else PlainReply 500 ''Internal Server Error''
      | _ \<Rightarrow> PlainReply 500 ''Internal Server Error'')"

definition error_handler :: "env \<Rightarrow> request \<Rightarrow> js_error \<Rightarrow> world \<Rightarrow> reply \<times> world" where
  "error_handler E req e w =
     (error_reply e, case upload req of None \<Rightarrow> w | Some f \<Rightarrow> w\<lparr>files := unlink E f (files w)\<rparr>)"

text \<open>
  \<open>app.js\<close>: \<open>express.static\<close> on \<open>/uploads/images\<close>, the users and places routers,
  the not-found handler, the error middleware. A rejected handler never answers.
\<close>

definition dispatch :: "env \<Rightarrow> request \<Rightarrow> world \<Rightarrow> outcome \<times> world \<times> request" where
  "dispatch E req w =
     (case segs req of
        a # b # rest \<Rightarrow>
          if lit a ''api'' \<and> lit b ''users'' then users_router E req rest w
          else if lit a ''api'' \<and> lit b ''places'' then places_router E req rest w
          else (Next not_found, w, no_file req)
      | _ \<Rightarrow> (Next not_found, w, no_file req))"

definition static_file :: "request \<Rightarrow> world \<Rightarrow> string option" where
  "static_file req w =
     (case segs req of
        [a, b, f] \<Rightarrow>
          let p = ''uploads/images/'' @ f in
          if meth req = GET \<and> lit a ''uploads'' \<and> lit b ''images'' \<and> p \<in> files w then Some p else None
      | _ \<Rightarrow> None)"

definition app_handle :: "env \<Rightarrow> request \<Rightarrow> world \<Rightarrow> reply \<times> world" where
  "app_handle E req w =
     (case static_file req w of
        Some p \<Rightarrow> (FileReply p, w)
      | None \<Rightarrow>
          (case dispatch E req w of
             (Sent s v, w', req') \<Rightarrow> (Reply s v, w')
           | (Next e, w', req') \<Rightarrow> error_handler E req' e w'
           | (Rejected e, w', req') \<Rightarrow> (NoReply, w')))"

section \<open>The server as a state machine\<close>

definition init_world :: world where
  "init_world = \<lparr>store = empty_db, files = {}\<rparr>"

inductive reachable :: "world \<Rightarrow> bool" where
  start: "reachable init_world"
| step: "reachable w \<Longrightarrow> app_handle E req w = (r, w') \<Longrightarrow> reachable w'"

section \<open>Every request keeps the store consistent\<close>

lemma store_file_upload [simp]: "store (file_upload req w) = store w"
  by (simp add: file_upload_def split: option.split)

text \<open>The handler lemmas in the form the routers use them.\<close>

lemma handler_step_consistent:
  "signupUser E req w = (out, w') \<Longrightarrow> consistent (store w) \<Longrightarrow> consistent (store w')"
  "createPlace E req uid w = (out, w') \<Longrightarrow> consistent (store w) \<Longrightarrow> consistent (store w')"
  "updatePlace E req pid uid w = (out, w') \<Longrightarrow> consistent (store w) \<Longrightarrow> consistent (store w')"
  "deletePlace E pid uid w = (out, w') \<Longrightarrow> consistent (store w) \<Longrightarrow> consistent (store w')"
  using signupUser_consistent [of w E req] createPlace_consistent [of w E req uid]
    updatePlace_consistent [of w E req pid uid] deletePlace_consistent [of w E pid uid]
  by auto

lemma users_router_consistent [inv_rules]:
  assumes "consistent (store w)"
  shows "consistent (store (fst (snd (users_router E req rest w))))"
  using assms unfolding users_router_def Let_def
  by (auto split: list.split prod.split intro: handler_step_consistent)

lemma places_router_consistent [inv_rules]:
  assumes "consistent (store w)"
  shows "consistent (store (fst (snd (places_router E req rest w))))"
  using assms unfolding places_router_def Let_def
  by (auto split: sum.split prod.split intro: handler_step_consistent)

lemma dispatch_consistent [inv_rules]:
  assumes "consistent (store w)"
  shows "consistent (store (fst (snd (dispatch E req w))))"
  using assms users_router_consistent places_router_consistent
  unfolding dispatch_def by (auto split: list.split)

lemma app_handle_consistent [inv_rules]:
  assumes "consistent (store w)" and "app_handle E req w = (r, w')"
  shows "consistent (store w')"
  using assms dispatch_consistent [OF assms(1), of E req]
  unfolding app_handle_def error_handler_def
  by (auto split: option.splits prod.splits outcome.splits)

section \<open>Replies of the users routes\<close>

lemma error_reply_no_password:
  "error_reply e = Reply s v \<Longrightarrow> \<not> has_key ''password'' v"
  by (auto simp: error_reply_def split: jsval.splits if_splits)

lemma users_router_no_password:
  "users_router E req rest w = (Sent s v, w', req') \<Longrightarrow> \<not> has_key ''password'' v"
  unfolding users_router_def Let_def
  by (auto split: list.splits if_splits prod.splits dest: users_handlers_no_password)

section \<open>Statuses and bodies of replies\<close>

lemma handler_sent_status:
  "getPlaceById E pid d = Sent s v \<Longrightarrow> s = 200"
  "getPlacesByUserId E uid d = Sent s v \<Longrightarrow> s = 200"
  "createPlace E req uid w = (Sent s v, w') \<Longrightarrow> s = 201"
  "updatePlace E req pid uid w = (Sent s v, w') \<Longrightarrow> s = 200"
  "deletePlace E pid uid w = (Sent s v, w') \<Longrightarrow> s = 200"
  "getUsers E d = Sent s v \<Longrightarrow> s = 200"
  "getUserById E uid d = Sent s v \<Longrightarrow> s = 200"
  "signupUser E req w = (Sent s v, w') \<Longrightarrow> s = 201"
  "loginUser E req d = Sent s v \<Longrightarrow> s = 200"
  by (auto simp: handler_defs Let_def split: if_splits sum.splits option.splits bool.splits)

lemma dispatch_sent_status:
  "dispatch E req w = (Sent s v, w', req') \<Longrightarrow> s = 200 \<or> s = 201"
  unfolding dispatch_def users_router_def places_router_def Let_def
  by (auto split: list.splits if_splits prod.splits sum.splits dest: handler_sent_status)

lemma error_reply_shape:
  "error_reply e = Reply s v \<Longrightarrow> 100 \<le> s \<and> s \<le> 999 \<and> (\<exists>m. v = JObj [(''message'', JStr m)] \<and> m \<noteq> [])"
  by (auto simp: error_reply_def split: jsval.splits if_splits)


lemma handler_rejected_TypeError:
  "getUserById E uid d = Rejected e \<Longrightarrow> \<exists>m. e = TypeError m"
  "loginUser E req d = Rejected e \<Longrightarrow> \<exists>m. e = TypeError m"
  "signupUser E req w = (Rejected e, w') \<Longrightarrow> \<exists>m. e = TypeError m"
  "createPlace E req uid w = (Rejected e, w') \<Longrightarrow> \<exists>m. e = TypeError m"
  "updatePlace E req pid uid w = (Rejected e, w') \<Longrightarrow> \<exists>m. e = TypeError m"
  "deletePlace E pid uid w = (Rejected e, w') \<Longrightarrow> \<exists>m. e = TypeError m"
  "getUsers E d = Rejected e \<Longrightarrow> False" "getPlaceById E pid d = Rejected e \<Longrightarrow> False"
  "getPlacesByUserId E uid d = Rejected e \<Longrightarrow> False"
  by (auto simp: handler_defs read_error_def class_call_error_def Let_def
      split: if_splits sum.splits option.splits bool.splits)

lemma dispatch_rejected_TypeError:
  "dispatch E req w = (Rejected e, w', req') \<Longrightarrow> \<exists>m. e = TypeError m"
  unfolding dispatch_def users_router_def places_router_def Let_def
  by (auto split: list.splits if_splits prod.splits sum.splits dest: handler_rejected_TypeError)

section \<open>Replies that carry a new place\<close>

lemma dispatch_created_place:
  assumes "dispatch E req w = (Sent 201 (JObj [(''place'', pv)]), w', req')"
  shows "\<exists>req'' uid. createPlace E req'' uid (file_upload req w) = (Sent 201 (JObj [(''place'', pv)]), w') \<and>
           upload req'' = upload req"
  using assms unfolding dispatch_def users_router_def places_router_def Let_def
  by (auto simp: run_checks_def auth_json_def split: list.splits if_splits prod.splits sum.splits
      dest: handler_sent_status signupUser_Sent_auth)

lemma app_handle_created_place:
  assumes "app_handle E req w = (Reply 201 (JObj [(''place'', pv)]), w')"
  shows "\<exists>p. pv = place_json False p \<and> upload req = Some (image p) \<and>
             files w' = files (file_upload req w) \<and> p \<in> set (place_docs (store w')) \<and>
             (consistent (store w) \<longrightarrow> consistent (store w'))"
proof -
  from assms obtain req' where d: "dispatch E req w = (Sent 201 (JObj [(''place'', pv)]), w', req')"
    by (auto simp: app_handle_def error_handler_def split: option.splits prod.splits outcome.splits
        dest: error_reply_shape)
  from dispatch_created_place [OF d] obtain req'' uid
    where cp: "createPlace E req'' uid (file_upload req w) = (Sent 201 (JObj [(''place'', pv)]), w')"
      and up: "upload req'' = upload req" by blast
  from createPlace_Sent_place [OF cp] obtain p where "JObj [(''place'', pv)] = JObj [(''place'', place_json False p)]"
    and "upload req'' = Some (image p)" and "files w' = files (file_upload req w)"
    and "p \<in> set (place_docs (store w'))" by blast
  moreover have "consistent (store w) \<longrightarrow> consistent (store w')"
    using createPlace_consistent [of "file_upload req w" E req'' uid] cp by simp
  ultimately show ?thesis using up by auto
qed

end
