(* ===== verification/Ownership.thy ===== *)
theory Ownership
  imports App
begin

text \<open>
  An abstract specification of who owns which place, and the proof that the server
  implements it. The abstract state is the map from a place's id to its creator's id;
  the abstract operations are: keep the map, create a fresh place owned by the caller,
  delete a place the caller owns. The caller is the user the request authenticates as
  (\<open>principal\<close>). Every request the server handles, on a consistent database, moves the
  map by one abstract operation of that caller: nobody acquires or loses a place except
  by creating or deleting it, and only for themselves.
\<close>

definition owners :: "db \<Rightarrow> oid \<rightharpoonup> oid" where
  "owners d = map_of (map (\<lambda>p. (place_id p, creator p)) (place_docs d))"

definition principal :: "env \<Rightarrow> request \<Rightarrow> oid option" where
  "principal E req = (case check_auth E req of Inl _ \<Rightarrow> None | Inr uid \<Rightarrow> cast_oid uid)"

inductive owner_step :: "oid option \<Rightarrow> (oid \<rightharpoonup> oid) \<Rightarrow> (oid \<rightharpoonup> oid) \<Rightarrow> bool" where
  keep: "owner_step a m m"
| create: "i \<notin> dom m \<Longrightarrow> owner_step (Some u) m (m(i \<mapsto> u))"
| delete: "m i = Some u \<Longrightarrow> owner_step (Some u) m (m(i := None))"

section \<open>The owner map under the writes\<close>

lemma owners_None_iff: "owners d i = None \<longleftrightarrow> i \<notin> place_id ` set (place_docs d)"
  by (simp add: owners_def map_of_eq_None_iff image_image)

lemma owners_same_places: "place_docs d' = place_docs d \<Longrightarrow> owners d' = owners d"
  by (simp add: owners_def)

lemma owners_append:
  assumes "place_docs d' = place_docs d @ [p]" and "place_id p \<notin> place_id ` set (place_docs d)"
  shows "owners d' = (owners d)(place_id p \<mapsto> creator p)"
proof -
  from assms(2) have "owners d (place_id p) = None" by (simp add: owners_None_iff)
  with assms(1) show ?thesis by (auto simp: owners_def map_add_def fun_eq_iff split: option.split)
qed

lemma map_of_filter_key:
  "map_of (map (\<lambda>x. (key x, val x)) (filter (\<lambda>x. key x \<noteq> k) xs)) =
   (map_of (map (\<lambda>x. (key x, val x)) xs))(k := None)"
  by (induction xs) (auto simp: fun_eq_iff)

lemma owners_filter:
  "place_docs d' = filter (\<lambda>q. place_id q \<noteq> i) (place_docs d) \<Longrightarrow> owners d' = (owners d)(i := None)"
  by (simp add: owners_def map_of_filter_key)

lemma owners_of_place:
  assumes "consistent d" and "p \<in> set (place_docs d)"
  shows "owners d (place_id p) = Some (creator p)"
proof -
  from assms(1) have "distinct (map fst (map (\<lambda>p. (place_id p, creator p)) (place_docs d)))"
    by (simp add: consistent_def keys_ok_def comp_def)
  moreover have "(place_id p, creator p) \<in> set (map (\<lambda>p. (place_id p, creator p)) (place_docs d))"
    using assms(2) by auto
  ultimately show ?thesis unfolding owners_def by (rule map_of_is_SomeI)
qed

lemma owners_set_text:
  assumes "apply_write (SetPlaceText i t s) d = Inr d'"
  shows "owners d' = owners d"
proof -
  from assms have d': "place_docs d' =
      map (\<lambda>p. if place_id p = i then p\<lparr>title := t, description := s\<rparr> else p) (place_docs d)"
    by (auto split: if_splits)
  have "map (\<lambda>p. (place_id p, creator p)) (place_docs d') = map (\<lambda>p. (place_id p, creator p)) (place_docs d)"
    unfolding d' map_map by (rule map_cong) auto
  then show ?thesis by (simp add: owners_def)
qed


section \<open>Each handler is an abstract step of its caller\<close>

lemma createPlace_owner_step:
  assumes "createPlace E req uid w = (r, w')"
  shows "owner_step (cast_oid uid) (owners (store w)) (owners (store w'))"
  using createPlace_effect [OF assms]
proof (elim disjE exE conjE)
  assume "w' = w"
  then show ?thesis by (simp add: owner_step.keep)
next
  fix p u
  assume own: "creator p = user_id u" and uid: "cast_oid uid = Some (user_id u)"
    and fresh: "place_id p \<notin> place_id ` set (place_docs (store w))"
    and w': "w' = w\<lparr>store := (store w)\<lparr>place_docs := place_docs (store w) @ [p],
                user_docs := upd_user (user_id u) (\<lambda>ps. ps @ [place_id p]) (user_docs (store w))\<rparr>\<rparr>"
  have "owners (store w') = (owners (store w))(place_id p \<mapsto> user_id u)"
    using owners_append [OF _ fresh, of "store w'"] own by (simp add: w')
  moreover have "place_id p \<notin> dom (owners (store w))"
    using fresh by (simp add: domIff owners_None_iff)
  ultimately show ?thesis by (simp add: uid owner_step.create)
qed

lemma deletePlace_owner_step:
  assumes c: "consistent (store w)" and d: "deletePlace E pid uid w = (r, w')"
  shows "owner_step (cast_oid uid) (owners (store w)) (owners (store w'))"
  using deletePlace_effect [OF d]
proof (elim disjE exE conjE)
  assume "w' = w"
  then show ?thesis by (simp add: owner_step.keep)
next
  fix p u
  assume p: "p \<in> set (place_docs (store w))" and own: "user_id u = creator p"
    and uid: "oid_str (user_id u) = uid"
    and w': "w' = w\<lparr>store := (store w)\<lparr>place_docs := filter (\<lambda>q. place_id q \<noteq> place_id p) (place_docs (store w)),
                user_docs := upd_user (user_id u) (removeAll (place_id p)) (user_docs (store w))\<rparr>,
              files := unlink E (image p) (files w)\<rparr>"
  have "owners (store w') = (owners (store w))(place_id p := None)"
    by (rule owners_filter) (simp add: w')
  moreover have "owners (store w) (place_id p) = Some (user_id u)"
    using owners_of_place [OF c p] own by simp
  moreover have "cast_oid uid = Some (user_id u)" using uid by auto
  ultimately show ?thesis by (simp add: owner_step.delete)
qed

lemma updatePlace_owners:
  assumes "updatePlace E req pid uid w = (r, w')"
  shows "owners (store w') = owners (store w)"
proof (cases "w' = w")
  case False
  with assms obtain i t s d' where sv: "save_doc (db_faults E) (SetPlaceText i t s) (store w) = Inr d'"
    and w': "w' = w\<lparr>store := d'\<rparr>"
    by (auto simp: updatePlace_def Let_def split: if_splits sum.splits option.splits)
  from sv have "apply_write (SetPlaceText i t s) (store w) = Inr d'"
    by (simp add: save_doc_def split: if_splits)
  then show ?thesis by (simp add: w' owners_set_text)
qed simp

lemma signupUser_owners:
  "signupUser E req w = (r, w') \<Longrightarrow> owners (store w') = owners (store w)"
  by (auto simp: signupUser_def Let_def save_doc_def split: if_splits sum.splits option.splits
      intro: owners_same_places)

lemma users_router_owners:
  "users_router E req rest w = (out, w', req') \<Longrightarrow> owners (store w') = owners (store w)"
  unfolding users_router_def Let_def
  by (auto split: list.splits if_splits prod.splits dest: signupUser_owners)

lemma places_router_owner_step:
  assumes c: "consistent (store w)" and r: "places_router E req rest w = (out, w', req')"
  shows "owner_step (principal E req) (owners (store w)) (owners (store w'))"
proof (cases "check_auth E req")
  case (Inl e)
  with r show ?thesis by (auto simp: places_router_def split: if_splits intro: owner_step.keep)
next
  case (Inr uid)
  then have a: "principal E req = cast_oid uid" by (simp add: principal_def)
  have create: "owner_step (cast_oid uid) (owners (store w)) (owners (store w'))"
    if "createPlace E req' uid (file_upload req w) = (out, w')" for req'
    using createPlace_owner_step [OF that] by simp
  have delete: "owner_step (cast_oid uid) (owners (store w)) (owners (store w'))"
    if "deletePlace E p uid w = (out, w')" for p
    using deletePlace_owner_step [OF c that] .
  have update: "owner_step (cast_oid uid) (owners (store w)) (owners (store w'))"
    if "updatePlace E req' p uid w = (out, w')" for req' p
    using updatePlace_owners [OF that] owner_step.keep by metis
  from r Inr show ?thesis unfolding a places_router_def Let_def
    by (auto split: if_splits prod.splits intro: owner_step.keep create delete update)
qed

lemma dispatch_owner_step:
  assumes "consistent (store w)" and "dispatch E req w = (out, w', req')"
  shows "owner_step (principal E req) (owners (store w)) (owners (store w'))"
  using assms places_router_owner_step [OF assms(1)] users_router_owners
  unfolding dispatch_def
  by (auto split: list.splits if_splits intro: owner_step.keep)

section \<open>The server refines the ownership specification\<close>

text \<open>
  C17. On a consistent database, every request moves the owner map by one step of the
  abstract specification for the user the request authenticates as: it keeps the map,
  adds a fresh place owned by that user, or removes a place that user owns. An
  unauthenticated request changes no ownership.
\<close>

theorem app_handle_refines_owner_spec:
  assumes "consistent (store w)" and "app_handle E req w = (r, w')"
  shows "owner_step (principal E req) (owners (store w)) (owners (store w'))"
  using assms dispatch_owner_step [OF assms(1)]
  unfolding app_handle_def error_handler_def
  by (auto split: option.splits prod.splits outcome.splits intro: owner_step.keep)

theorem app_handle_refines_owner_spec_witness:
  "owner_step (principal demo_env demo_update_req) (owners (store demo_world))
     (owners (store (snd (app_handle demo_env demo_update_req demo_world))))"
  by (rule app_handle_refines_owner_spec [OF demo_world_consistent, of _ _ "fst (app_handle demo_env demo_update_req demo_world)"])
     (rule prod.collapse [symmetric])

end
