(* ===== verification/Concurrency.thy ===== *)
theory Concurrency
  imports App
begin

text \<open>
  Requests are not atomic: an async handler yields at every \<open>await\<close>, and Node runs
  other requests in between. This theory models the one window of the program in which
  that changes what a request observes and answers: \<open>signupUser\<close>'s test for an existing
  e-mail (\<open>User.findOne\<close>, line 45) and its insert (\<open>createdUser.save()\<close>, line 74) are
  separate steps. The handler is split at that point into \<open>signup_prepare\<close> (validation,
  lookup, hashing, the new document) and \<open>signup_finish\<close> (the insert and the token); the
  split is proved equal to the handler. The concurrent server is the inductive set
  \<open>creach\<close> of the worlds reachable when whole requests and the two halves of pending
  signups interleave in any order.
\<close>

definition signup_prepare :: "env \<Rightarrow> request \<Rightarrow> world \<Rightarrow> outcome + user" where
  "signup_prepare E req w =
     (if errors req \<noteq> [] then Inl (Next (HttpError ''Invalid inputs, please check your data'' 422))
      else case find_user_by_email (db_faults E) (field_str req ''email'') (store w) of
        Inl _ \<Rightarrow> Inl (Next (HttpError ''Could not sign up user. Try again'' 500))
      | Inr (Some _) \<Rightarrow> Inl (Next (HttpError ''User already exists, please sign in'' 422))
      | Inr None \<Rightarrow>
          (case bcrypt_hash E (field_str req ''password'') of
             None \<Rightarrow> Inl (Next (HttpError ''Could not create user, please try again'' 500))
           | Some h \<Rightarrow>
               (case upload req of
                  None \<Rightarrow> Inl (Rejected (read_error ''undefined'' ''path''))
                | Some f \<Rightarrow> Inr (new_user E req f h))))"

definition signup_finish :: "env \<Rightarrow> user \<Rightarrow> world \<Rightarrow> outcome \<times> world" where
  "signup_finish E u w =
     (case save_doc (db_faults E) (InsUser u) (store w) of
        Inl _ \<Rightarrow> (Next (HttpError ''Something went wrong signing up user'' 500), w)
      | Inr d' \<Rightarrow>
          (case jwt_sign E (user_token u) of
             None \<Rightarrow> (Next (HttpError ''Something went wrong signing up user'' 500), w\<lparr>store := d'\<rparr>)
           | Some t \<Rightarrow> (Sent 201 (auth_json u t), w\<lparr>store := d'\<rparr>)))"

text \<open>
  The concurrent server: whole requests, the first half of a signup (multer has stored the
  image; the handler has run up to the insert and holds the new document), and the second
  half of any pending signup, in any order.
\<close>

inductive creach :: "world \<Rightarrow> (env \<times> user) list \<Rightarrow> bool" where
  start: "creach init_world []"
| request: "creach w ps \<Longrightarrow> app_handle E req w = (r, w') \<Longrightarrow> creach w' ps"
| prepare: "creach w ps \<Longrightarrow> signup_prepare E req (file_upload req w) = Inr u \<Longrightarrow>
              creach (file_upload req w) (ps @ [(E, u)])"
| finish: "creach w ps \<Longrightarrow> (E, u) \<in> set ps \<Longrightarrow> signup_finish E u w = (r, w') \<Longrightarrow>
              creach w' (remove1 (E, u) ps)"

section \<open>The split is the handler\<close>

lemma signup_prepare_new_user:
  "signup_prepare E req w = Inr u \<Longrightarrow> \<exists>f h. u = new_user E req f h"
  by (auto simp: signup_prepare_def split: if_splits sum.splits option.splits)

lemma signup_finish_consistent:
  assumes "consistent (store w)" and "places u = []" and "signup_finish E u w = (r, w')"
  shows "consistent (store w')"
  using assms consistent_insert_user
  by (auto simp: signup_finish_def save_doc_def split: if_splits sum.splits option.splits)

text \<open>
  Running the two halves of a signup back to back is exactly \<open>signupUser\<close>: the split
  the concurrency model uses loses and adds nothing.
\<close>

lemma signupUser_phases:
  "signupUser E req w =
     (case signup_prepare E req w of Inl out \<Rightarrow> (out, w) | Inr u \<Rightarrow> signup_finish E u w)"
  by (simp add: signupUser_def signup_prepare_def signup_finish_def Let_def
      split: sum.split option.split)

section \<open>Interleavings keep the database consistent\<close>

text \<open>
  C28. However whole requests and the halves of pending signups interleave, the database
  stays consistent: the insert is checked against the unique e-mail index, so two
  signups that both passed the e-mail test cannot both be stored.
\<close>

theorem creach_consistent:
  "creach w ps \<Longrightarrow> consistent (store w) \<and> (\<forall>(E, u) \<in> set ps. places u = [])"
proof (induction rule: creach.induct)
  case start
  then show ?case by (simp add: init_world_def consistent_empty_db)
next
  case (request w ps E req r w')
  then show ?case using app_handle_consistent by blast
next
  case (prepare w ps E req u)
  from signup_prepare_new_user [OF prepare.hyps(2)] have "places u = []"
    by (auto simp: new_user_def)
  with prepare.IH show ?case by auto
next
  case (finish w ps E u r w')
  from finish.IH finish.hyps(2) have "places u = []" by auto
  with finish.IH finish.hyps(3) have "consistent (store w')" by (blast intro: signup_finish_consistent)
  moreover have "set (remove1 (E, u) ps) \<subseteq> set ps" by (rule set_remove1_subset)
  ultimately show ?case using finish.IH by blast
qed

lemma demo_signup_prepare:
  "signup_prepare demo_env demo_signup_req (file_upload demo_signup_req init_world) =
     Inr (new_user demo_env demo_signup_req ''uploads/images/v.png'' ''$2a$12$secret1'')"
  by (simp add: signup_prepare_def demo_signup_req_def demo_store_defs file_upload_def init_world_def
      empty_db_def find_user_by_email_def field_str_def field_def)

theorem creach_consistent_witness:
  "consistent (store (file_upload demo_signup_req init_world)) \<and>
   places (new_user demo_env demo_signup_req ''uploads/images/v.png'' ''$2a$12$secret1'') = []"
  using creach_consistent [OF creach.prepare [OF creach.start demo_signup_prepare]] by simp

section \<open>Two signups with one address\<close>

text \<open>
  C27. The e-mail test and the insert of a signup are not atomic. If two signups with the
  same address both pass the test and the first is then stored, the second is refused by
  the unique index and answered 500 with the database unchanged; run after the first had
  finished, the same request would have been answered 422 (user already exists).
\<close>

theorem concurrent_signup_same_email:
  assumes pa: "signup_prepare E reqA w = Inr uA" and pb: "signup_prepare E reqB w = Inr uB"
    and same: "field_str reqA ''email'' = field_str reqB ''email''"
    and fa: "fst (signup_finish E uA w) = Sent s v"
  shows "signup_prepare E reqB (snd (signup_finish E uA w)) =
           Inl (Next (HttpError ''User already exists, please sign in'' 422)) \<and>
         signup_finish E uB (snd (signup_finish E uA w)) =
           (Next (HttpError ''Something went wrong signing up user'' 500), snd (signup_finish E uA w))"
proof -
  from signup_prepare_new_user [OF pa] obtain fa' ha where uA: "uA = new_user E reqA fa' ha" by blast
  from signup_prepare_new_user [OF pb] obtain fb hb where uB: "uB = new_user E reqB fb hb" by blast
  from fa obtain d' where sv: "save_doc (db_faults E) (InsUser uA) (store w) = Inr d'"
    and w1: "snd (signup_finish E uA w) = w\<lparr>store := d'\<rparr>"
    by (auto simp: signup_finish_def split: sum.splits option.splits)
  from sv have d': "d' = (store w)\<lparr>user_docs := user_docs (store w) @ [uA]\<rparr>"
    by (simp add: save_doc_def split: if_splits)
  have ok: "errors reqB = []" and nf: "\<not> db_faults E FindUserByEmail"
    using pb by (auto simp: signup_prepare_def find_user_by_email_def split: if_splits)
  have em: "email uB = email uA" using same by (simp add: uA uB new_user_def)
  have "find (\<lambda>u. email u = field_str reqB ''email'') (user_docs d') \<noteq> None"
    using same by (simp add: d' uA new_user_def)
  then have "signup_prepare E reqB (snd (signup_finish E uA w)) =
               Inl (Next (HttpError ''User already exists, please sign in'' 422))"
    using ok nf w1 by (auto simp: signup_prepare_def find_user_by_email_def split: option.split)
  moreover have "apply_write (InsUser uB) d' = Inl DuplicateKey" using em by (simp add: d')
  then have "signup_finish E uB (snd (signup_finish E uA w)) =
               (Next (HttpError ''Something went wrong signing up user'' 500), snd (signup_finish E uA w))"
    using w1 by (simp add: signup_finish_def save_doc_def)
  ultimately show ?thesis by blast
qed

lemma demo_second_signup_prepare:
  "signup_prepare demo_env (demo_signup_req\<lparr>upload := Some ''uploads/images/w.png''\<rparr>) init_world =
     Inr (new_user demo_env (demo_signup_req\<lparr>upload := Some ''uploads/images/w.png''\<rparr>)
            ''uploads/images/w.png'' ''$2a$12$secret1'')"
  by (simp add: signup_prepare_def demo_signup_req_def demo_store_defs init_world_def
      empty_db_def find_user_by_email_def field_str_def field_def)

lemma demo_first_signup_prepare:
  "signup_prepare demo_env demo_signup_req init_world =
     Inr (new_user demo_env demo_signup_req ''uploads/images/v.png'' ''$2a$12$secret1'')"
  by (simp add: signup_prepare_def demo_signup_req_def demo_store_defs init_world_def
      empty_db_def find_user_by_email_def field_str_def field_def)

lemma demo_first_signup_finish:
  "\<exists>v. fst (signup_finish demo_env (new_user demo_env demo_signup_req ''uploads/images/v.png'' ''$2a$12$secret1'')
          init_world) = Sent 201 v"
  by (simp add: signup_finish_def save_doc_def demo_store_defs init_world_def empty_db_def)

theorem concurrent_signup_same_email_witness:
  "signup_prepare demo_env (demo_signup_req\<lparr>upload := Some ''uploads/images/w.png''\<rparr>)
      (snd (signup_finish demo_env (new_user demo_env demo_signup_req ''uploads/images/v.png'' ''$2a$12$secret1'')
        init_world)) =
     Inl (Next (HttpError ''User already exists, please sign in'' 422)) \<and>
   signup_finish demo_env (new_user demo_env (demo_signup_req\<lparr>upload := Some ''uploads/images/w.png''\<rparr>)
       ''uploads/images/w.png'' ''$2a$12$secret1'')
     (snd (signup_finish demo_env (new_user demo_env demo_signup_req ''uploads/images/v.png'' ''$2a$12$secret1'')
        init_world)) =
     (Next (HttpError ''Something went wrong signing up user'' 500),
      snd (signup_finish demo_env (new_user demo_env demo_signup_req ''uploads/images/v.png'' ''$2a$12$secret1'')
        init_world))"
proof -
  from demo_first_signup_finish obtain v where
    "fst (signup_finish demo_env (new_user demo_env demo_signup_req ''uploads/images/v.png'' ''$2a$12$secret1'')
       init_world) = Sent 201 v" ..
  then show ?thesis
    by (rule concurrent_signup_same_email [OF demo_first_signup_prepare demo_second_signup_prepare, rotated])
       (simp add: field_str_def field_def)
qed

end
