(* ===== verification/JsonTypes.thy ===== *)
theory JsonTypes
  imports App
begin

text \<open>
  The type of the replies. Every body the server sends goes through \<open>res.json\<close>, that is
  \<open>JSON.stringify\<close>, which silently drops a property whose value is \<open>undefined\<close>, so a
  reply holding \<open>undefined\<close> loses a key without any error. \<open>json_value\<close> is the
  predicate "no \<open>undefined\<close> anywhere". The one way \<open>undefined\<close> could enter the database
  is the location read from the geocoder's answer (\<open>data.results[0].geometry.location\<close>);
  the schema's validation of the location (\<open>location_ok\<close>) rejects a missing one, and
  an answer parsed from JSON by axios holds no \<open>undefined\<close> elsewhere
  (\<open>json_geocoder\<close>). The invariant \<open>json_store\<close> (every stored location is a JSON
  value) is preserved by every handler (\<open>json_step\<close>: the invariant after the step,
  and a JSON body if the outcome is a reply), through the routers and \<open>dispatch\<close>;
  the application-level statement is C40 in the root theory.
\<close>

fun json_value :: "jsval \<Rightarrow> bool" where
  "json_value JUndef = False"
| "json_value (JArr xs) = (\<forall>x \<in> set xs. json_value x)"
| "json_value (JObj kvs) = (\<forall>kv \<in> set kvs. json_value (snd kv))"
| "json_value v = True"

definition json_store :: "db \<Rightarrow> bool" where
  "json_store d \<longleftrightarrow> (\<forall>p \<in> set (place_docs d). json_value (location p))"

text \<open>A handler's outcome sends JSON, and a step keeps the invariant and sends JSON.\<close>

fun json_out :: "outcome \<Rightarrow> bool" where
  "json_out (Sent s v) = json_value v"
| "json_out out = True"

definition json_step :: "outcome \<Rightarrow> world \<Rightarrow> bool" where
  "json_step out w \<longleftrightarrow> json_store (store w) \<and> json_out out"

definition json_geocoder :: "env \<Rightarrow> bool" where
  "json_geocoder E \<longleftrightarrow> (\<forall>a data. geocode E a = HttpOk data \<longrightarrow> json_value data)"

section \<open>Reads of a JSON value\<close>

lemma json_get_prop:
  "json_value v \<Longrightarrow> get_prop v k = Inr r \<Longrightarrow> r = JUndef \<or> json_value r"
proof (cases v)
  case (JObj kvs)
  assume "json_value v" and "get_prop v k = Inr r"
  with JObj show ?thesis by (auto split: option.splits dest!: map_of_SomeD)
qed auto

lemma json_get_index:
  "json_value v \<Longrightarrow> get_index v i = Inr r \<Longrightarrow> r = JUndef \<or> json_value r"
  by (cases v) (auto split: if_splits)

lemma get_prop_JUndef: "get_prop JUndef k \<noteq> Inr r"
  by simp

lemma get_index_JUndef: "get_index JUndef i \<noteq> Inr r"
  by simp

lemma getCoords_json:
  assumes "json_geocoder E" and "getCoordsForAddress (geocode E) a = Inr loc"
  shows "loc = JUndef \<or> json_value loc"
proof (cases "geocode E a")
  case (HttpOk data)
  with assms(1) have d: "json_value data" by (simp add: json_geocoder_def)
  from assms(2) HttpOk obtain rs r0 g where rs: "get_prop data ''results'' = Inr rs"
    and r0: "get_index rs 0 = Inr r0" and g: "get_prop r0 ''geometry'' = Inr g"
    and l: "get_prop g ''location'' = Inr loc"
    by (auto simp: getCoordsForAddress_def split: if_splits sum.splits)
  from json_get_prop [OF d rs] rs r0 have "json_value rs" by auto
  from json_get_index [OF this r0] r0 g have "json_value r0" by auto
  from json_get_prop [OF this g] g l have "json_value g" by auto
  from json_get_prop [OF this l] show ?thesis .
next
  case (HttpFail e)
  with assms(2) show ?thesis by (simp add: getCoordsForAddress_def)
qed

lemma location_ok_defined: "location_ok loc \<Longrightarrow> loc \<noteq> JUndef"
  by (auto simp: location_ok_def)

section \<open>The JSON of the documents\<close>

lemma json_place_json [simp]: "json_value (place_json g p) \<longleftrightarrow> json_value (location p)"
  by (auto simp: place_json_def)

lemma json_user_json [simp]: "json_value (user_json u)"
  by (auto simp: user_json_def)

lemma json_auth_json [simp]: "json_value (auth_json u t)"
  by (simp add: auth_json_def)

lemma json_store_place:
  "json_store d \<Longrightarrow> p \<in> set (place_docs d) \<Longrightarrow> json_value (location p)"
  by (simp add: json_store_def)

lemma json_store_locations:
  "json_store d = (\<forall>l \<in> set (map location (place_docs d)). json_value l)"
  by (auto simp: json_store_def)

lemma json_store_places_only:
  "place_docs d' = place_docs d \<Longrightarrow> json_store d' = json_store d"
  by (simp add: json_store_def)

section \<open>Each handler preserves the invariant and sends JSON values\<close>

lemma json_read_handlers [simp]:
  "json_store d \<Longrightarrow> json_out (getPlaceById E pid d)"
  "json_store d \<Longrightarrow> json_out (getPlacesByUserId E uid d)"
  "json_out (getUsers E d)"
  "json_out (getUserById E uid d)"
  "json_out (loginUser E req d)"
  by (auto simp: getPlaceById_def getPlacesByUserId_def getUsers_def getUserById_def loginUser_def
      find_places_by_creator_def json_store_def
      split: sum.splits option.splits bool.splits if_splits dest: find_place_by_id_Some)

lemma json_step_keep [intro]: "json_store (store w) \<Longrightarrow> json_out out \<Longrightarrow> json_step out w"
  by (simp add: json_step_def)

lemma json_out_not_Sent: "\<not> (\<exists>s v. r = Sent s v) \<Longrightarrow> json_out r"
  by (cases r) auto

lemma createPlace_not_Sent:
  "createPlace E req uid w = (r, w') \<Longrightarrow> \<not> (\<exists>s v. r = Sent s v) \<Longrightarrow> w' = w"
  by (auto simp: createPlace_def Let_def split: if_splits sum.splits option.splits)

lemma createPlace_json [intro]:
  assumes c: "createPlace E req uid w = (r, w')" and g: "json_geocoder E" and j: "json_store (store w)"
  shows "json_step r w'"
proof (cases "\<exists>s v. r = Sent s v")
  case False
  with createPlace_not_Sent [OF c] j show ?thesis by (auto intro: json_out_not_Sent)
next
  case True
  then obtain s v where r: "r = Sent s v" by blast
  from c [unfolded r] obtain loc f u d1 d'
    where geo: "getCoordsForAddress (geocode E) (field_str req ''address'') = Inr loc"
      and "upload req = Some f"
      and w1: "apply_write (InsPlace (new_place E req loc f (user_id (u :: user)))) (store w) = Inr d1"
      and w2: "apply_write (PushRef (user_id u) (place_id (new_place E req loc f (user_id u)))) d1 = Inr d'"
      and v: "v = JObj [(''place'', place_json False (new_place E req loc f (user_id u)))]"
      and w': "w' = w\<lparr>store := d'\<rparr>"
    by (rule createPlace_Sent)
  let ?p = "new_place E req loc f (user_id u)"
  from w1 have "location_ok loc" by (simp add: new_place_def split: if_splits)
  with getCoords_json [OF g geo] have loc: "json_value loc" by (auto dest: location_ok_defined)
  have "place_docs d' = place_docs (store w) @ [?p]"
    using apply_write_InsPlace_Inr [OF w1] apply_write_PushRef_Inr [OF w2] by simp
  with j loc have "json_store d'" by (auto simp: json_store_def new_place_def)
  with loc r v w' show ?thesis by (simp add: json_step_def new_place_def)
qed

lemma json_store_set_text:
  assumes "apply_write (SetPlaceText i t s) d = Inr d'"
  shows "json_store d' = json_store d"
proof -
  from assms have d': "place_docs d' =
      map (\<lambda>p. if place_id p = i then p\<lparr>title := t, description := s\<rparr> else p) (place_docs d)"
    by (auto split: if_splits)
  have "map location (place_docs d') = map location (place_docs d)"
    unfolding d' map_map by (rule map_cong) auto
  then show ?thesis by (simp only: json_store_locations)
qed

lemma updatePlace_Sent:
  assumes u: "updatePlace E req pid uid w = (Sent s v, w')"
  obtains p d' where "find_place_by_id (db_faults E) pid (store w) = Inr (Some p)"
    and "v = JObj [(''place'', place_json True (p\<lparr>title := field_str req ''title'',
                                 description := field_str req ''description''\<rparr>))]"
    and "save_doc (db_faults E) (SetPlaceText (place_id p) (field_str req ''title'') (field_str req ''description''))
           (store w) = Inr d'"
    and "w' = w\<lparr>store := d'\<rparr>"
proof -
  obtain p where fp: "find_place_by_id (db_faults E) pid (store w) = Inr (Some p)"
    using u by (cases "find_place_by_id (db_faults E) pid (store w)")
      (auto simp: updatePlace_def split: if_splits option.splits)
  obtain d' where sv: "save_doc (db_faults E) (SetPlaceText (place_id p) (field_str req ''title'')
      (field_str req ''description'')) (store w) = Inr d'"
    using u fp by (cases "save_doc (db_faults E) (SetPlaceText (place_id p) (field_str req ''title'')
      (field_str req ''description'')) (store w)") (auto simp: updatePlace_def Let_def split: if_splits)
  have v: "v = JObj [(''place'', place_json True (p\<lparr>title := field_str req ''title'',
      description := field_str req ''description''\<rparr>))]" and w': "w' = w\<lparr>store := d'\<rparr>"
    using u fp sv by (simp_all add: updatePlace_def Let_def split: if_splits)
  show thesis using fp v sv w' by (rule that)
qed

lemma updatePlace_not_Sent:
  "updatePlace E req pid uid w = (r, w') \<Longrightarrow> \<not> (\<exists>s v. r = Sent s v) \<Longrightarrow> w' = w"
  by (auto simp: updatePlace_def Let_def split: if_splits sum.splits option.splits)

lemma updatePlace_json [intro]:
  assumes u: "updatePlace E req pid uid w = (r, w')" and j: "json_store (store w)"
  shows "json_step r w'"
proof (cases "\<exists>s v. r = Sent s v")
  case False
  with updatePlace_not_Sent [OF u] j show ?thesis by (auto intro: json_out_not_Sent)
next
  case True
  then obtain s v where r: "r = Sent s v" by blast
  from u [unfolded r] obtain p d' where p: "find_place_by_id (db_faults E) pid (store w) = Inr (Some p)"
    and v: "v = JObj [(''place'', place_json True (p\<lparr>title := field_str req ''title'',
                                 description := field_str req ''description''\<rparr>))]"
    and sv: "save_doc (db_faults E) (SetPlaceText (place_id p) (field_str req ''title'') (field_str req ''description''))
           (store w) = Inr d'"
    and w': "w' = w\<lparr>store := d'\<rparr>"
    by (rule updatePlace_Sent)
  from sv have "apply_write (SetPlaceText (place_id p) (field_str req ''title'') (field_str req ''description''))
      (store w) = Inr d'" by (simp add: save_doc_def split: if_splits)
  then have "json_store d' = json_store (store w)" by (rule json_store_set_text)
  moreover have "json_value (location p)"
    using find_place_by_id_Some [OF p] j by (simp add: json_store_def)
  ultimately show ?thesis using j r v w' by (simp add: json_step_def)
qed

lemma deletePlace_json [intro]:
  assumes d: "deletePlace E pid uid w = (r, w')" and j: "json_store (store w)"
  shows "json_step r w'"
proof -
  have "json_store (store w')" using deletePlace_effect [OF d] j by (auto simp: json_store_def)
  moreover have "json_out r" using d by (auto simp: deletePlace_def split: sum.splits option.splits if_splits)
  ultimately show ?thesis by (simp add: json_step_def)
qed

lemma signupUser_json [intro]:
  assumes s: "signupUser E req w = (r, w')" and j: "json_store (store w)"
  shows "json_step r w'"
  using s j by (auto simp: json_step_def signupUser_def Let_def save_doc_def json_store_def
      split: if_splits sum.splits option.splits)

section \<open>The routers and the application\<close>

lemma users_router_json:
  assumes "json_store (store w)"
  shows "json_step (fst (users_router E req rest w)) (fst (snd (users_router E req rest w)))"
  using assms unfolding users_router_def Let_def
  by (auto split: list.split prod.split)

lemma places_router_json:
  assumes "json_geocoder E" and "json_store (store w)"
  shows "json_step (fst (places_router E req rest w)) (fst (snd (places_router E req rest w)))"
  using assms unfolding places_router_def Let_def
  by (auto split: sum.split prod.split)

lemma dispatch_json:
  assumes "json_geocoder E" and "json_store (store w)"
  shows "json_step (fst (dispatch E req w)) (fst (snd (dispatch E req w)))"
  using assms users_router_json places_router_json
  unfolding dispatch_def by (auto split: list.split)

lemma error_reply_json: "error_reply e = Reply s v \<Longrightarrow> json_value v"
  by (auto simp: error_reply_def split: jsval.splits if_splits)

end
