(* ===== verification/Spec2Isabelle.thy ===== *)
theory Spec2Isabelle
  imports Ownership Concurrency JsonTypes
begin

text \<open>
  \<^bold>\<open>A verification development of the places/users backend\<close> (\<open>src/app.js\<close> and
  \<open>src/node-express-backend/\<close>): an Express 4 server over MongoDB (mongoose) with two
  resources, users who sign up and log in with a password and a JSON web token, and
  places that a user creates, edits and deletes, each with a geocoded address and an
  uploaded image.

  \<^bold>\<open>Parts of the program and their theories.\<close>
  \<^item> \<open>Prelude\<close>: the collections \<open>store_ops\<close>, \<open>handler_defs\<close>, \<open>inv_rules\<close> and the
    list lemmas the components share (key lookup with \<open>find\<close>, filtering by a key,
    updating a list of records in place).
  \<^item> \<open>ObjectId\<close>: document ids as \<open>96 word\<close>; \<open>oid_str\<close> is \<open>toHexString\<close> (24 lower-case
    hexadecimal digits), \<open>cast_oid\<close> is mongoose's cast of a string parameter to an
    ObjectId (\<open>None\<close> is a \<open>CastError\<close>). These model the bson library, not the
    repository; the lemmas prove that the two are inverse on lower-case hexadecimal
    strings, so comparing printed ids, as the ownership checks of the controllers do, is
    comparing ids, and an id the API prints is one it accepts back (used by C12).
  \<^item> \<open>Js\<close>: the JavaScript values the code handles (\<open>jsval\<close>), truthiness and \<open>||\<close>,
    property reads that throw a \<open>TypeError\<close> on \<open>undefined\<close> and \<open>null\<close>, the errors
    of the program (\<open>models/http-error.js\<close>'s \<open>HttpError\<close>, \<open>TypeError\<close>, axios errors),
    and \<open>toLowerCase\<close>.
  \<^item> \<open>Store\<close>: the two collections of \<open>models/place.js\<close> and \<open>models/user.js\<close> as lists
    of records, the reads the controllers make (\<open>findById\<close>, \<open>find\<close>, \<open>findOne\<close>,
    \<open>populate('creator')\<close>), the writes (\<open>save\<close>, \<open>remove\<close>, \<open>places.push\<close>,
    \<open>places.pull\<close>) as a datatype \<open>db_write\<close> with its effect \<open>apply_write\<close>, and
    a transaction \<open>run_tx\<close> that publishes its writes only when all of them and the
    commit succeed. Which operation fails is a parameter, the fault oracle \<open>faults\<close>,
    so every \<open>catch\<close> of the controllers is a reachable branch. The invariant
    \<open>consistent\<close> says that ids and e-mails are keys and that a place's \<open>creator\<close>
    and the creator's \<open>places\<close> list agree; every write the controllers issue
    preserves it.
  \<^item> \<open>Location\<close>: \<open>util/location.js\<close>, \<open>getCoordsForAddress\<close> after the HTTP round trip.
  \<^item> \<open>Request\<close>: the request, the collaborators \<open>env\<close> (database faults, geocoder, the id
    of a new document, bcrypt, jsonwebtoken, validator.js, \<open>fs.unlink\<close>), the outcome
    of a handler, the world (database and stored files), the express-validator checks
    of the routes and the \<open>check-auth\<close> middleware (not in the sources; modelled from
    the spec).
  \<^item> \<open>Places\<close>: \<open>controllers/places-controller.js\<close>, one definition per handler.
  \<^item> \<open>Users\<close>: \<open>controllers/users-controller.js\<close>, one definition per handler.
  \<^item> \<open>App\<close>: \<open>routes/places-routes.js\<close>, \<open>routes/users-routes.js\<close> and \<open>app.js\<close>:
    the stages of a request (static files, routers, not-found handler, error
    middleware) as \<open>app_handle\<close>, and the server as the inductive set \<open>reachable\<close> of the
    worlds that a sequence of requests reaches from the empty database.
  \<^item> \<open>Ownership\<close>: an abstract specification of who owns which place (a map from place
    ids to user ids, changed only by creating a fresh place for oneself or deleting one's
    own place) with the abstraction function \<open>owners\<close> and the principal a request
    authenticates as; the refinement theorem (C17) shows that every request the server
    handles is one step of that specification.
  \<^item> \<open>Concurrency\<close>: requests interleave at their awaits. \<open>signupUser\<close> is split at the
    await between its e-mail test and its insert (\<open>signup_prepare\<close>, \<open>signup_finish\<close>;
    the lemma \<open>signupUser_phases\<close> shows the split equals the handler), and \<open>creach\<close> is the set of worlds reached
    when whole requests and the halves of pending signups run in any order. It stays
    consistent (C28), and two signups with one address can race: the loser gets 500
    where the sequential server answers 422 (C27).
  \<^item> \<open>JsonTypes\<close>: the type of the replies. \<open>json_value\<close> (no \<open>undefined\<close>, which
    \<open>res.json\<close> would silently drop), the invariant \<open>json_store\<close> on stored locations, and
    its preservation by every handler, router and \<open>dispatch\<close> (C40).
  \<^item> This theory: the properties of the whole server.

  \<^bold>\<open>How the model corresponds to the code.\<close> A handler is a function of the
  collaborators, the request and the world to an outcome and the new world: \<open>Sent\<close> is
  \<open>res.status(s).json(v)\<close>, \<open>Next e\<close> is \<open>next(e)\<close> or \<open>return next(e)\<close>, \<open>Rejected e\<close> is
  an exception thrown outside any \<open>try\<close> of an async handler, which Express 4 never sees
  (the request is left unanswered). Every early return of the code is a branch of the
  definition, in the order of the code. Asynchronous calls are sequenced as the code
  awaits them; the one unawaited call, \<open>fs.unlink\<close>, is applied at once, as its callback
  only logs.

  \<^bold>\<open>What the lemmas show.\<close> Each request keeps the database consistent, so every
  reachable world is consistent (C1). Creating and deleting a place change both
  collections or neither (C2, C3). The handlers answer as the code says on every branch
  the properties name: not found, not the owner, invalid input, failed geocoding,
  duplicate e-mail, wrong password (C4 to C8, C11), and the unhandled cases are proved
  to leave the request unanswered (C13 to C16). No reply of the users API carries a
  password (C9). A login token verifies to the user who logged in (C10). The id printed in the
  reply to a creation fetches the created place (C12). The server refines the ownership
  specification (C17). An error without a code, such as a \<open>TypeError\<close> caught and
  passed on, is answered 500 with its message (C18). A user's place list is exactly what the user's document lists (C19), and a valid
  creation succeeds (C20). Routing: unknown paths are answered 404 (C21), but unknown
  paths under \<open>/api/places\<close> ask for credentials first (C22). A failed creation deletes its
  upload (C23). An address that the signup sanitizer rewrites differently from login's
  lower-casing cannot log in (C24). A request goes unanswered only when its handler
  throws a \<open>TypeError\<close> (C25); a login without an e-mail is answered 500 (C26). A
  geocoder answer with a status other than \<open>ZERO_RESULTS\<close> and no first result is a
  \<open>TypeError\<close>, not a 404 (C29). A deleted place's image is no longer served (C30) and
  a new place's image is (C36); signup stores only the bcrypt hash (C31) and
  answers with a token that verifies to the stored user (C34); updates change only the
  edited place (C32); a place is read back by its printed id (C33); an axios error code
  makes the error middleware answer a plain-text 500 (C35). Through the whole stack, the
  owner's delete succeeds (C37), and failed checks are answered 422 with the upload
  deleted (C38, C39). Every JSON reply is free of \<open>undefined\<close>, and the stored locations
  stay JSON values, as long as the geocoder answers parsed JSON (C40). The witnesses run the
  definitions on a store with one user and one place.

  \<^bold>\<open>Assumptions.\<close> The libraries are parameters; where a property needs more of them
  than their failures, it states what it assumes as a hypothesis: \<open>jwt_roundtrip\<close> (a
  signed token verifies to its payload) and \<open>bcrypt_sound\<close> (a hash accepts exactly its
  password). Both hold of the example collaborators \<open>demo_env\<close>.

  \<^bold>\<open>Not modelled.\<close> The connection to MongoDB and the listening socket (\<open>app.js\<close>,
  \<open>mongoose.connect\<close>, lines 48 to 55): configuration only. The CORS headers (lines 19
  to 24): they do not change the state or the body of a reply, and no property is
  about them. Express's final handler answers a status it cannot set with an HTML page
  (a stack trace outside production); \<open>PlainReply 500\<close> stands for that page. The body parser, multer's storage and its file filter:
  a request arrives parsed, and an upload as the stored path it got. Token expiry and
  time in general. Interleaving at the awaits of the other handlers: \<open>createPlace\<close>
  and \<open>deletePlace\<close> write in one transaction each, and \<open>updatePlace\<close> of a place deleted
  in its window fails with \<open>DocNotFound\<close> and a 500, so only the signup window changes
  what a request is answered; the other handlers run atomically in \<open>creach\<close>. No loop of the code is unbounded, so
  no fuel is needed: every definition is total and structurally recursive.
\<close>

section \<open>Helpers\<close>

lemma demo_login_wrong_reply:
  "app_handle demo_env (demo_login_req ''guess12'') demo_world =
     (Reply 403 (JObj [(''message'', JStr ''Invalid credentials, please try again'')]), demo_world)"
  by (simp add: app_handle_def static_file_def dispatch_def users_router_def lit_def loginUser_def
      error_handler_def error_reply_def find_user_by_email_def demo_login_req_def demo_store_defs
      to_lower_def ascii_lower_def no_file_def field_def js_or_def)

lemma demo_missing_user_unanswered:
  "app_handle demo_env ((demo_login_req ''x'')\<lparr>meth := GET, segs := [''api'', ''users'', oid_str 7]\<rparr>) demo_world =
     (NoReply, demo_world)"
  by (simp add: app_handle_def static_file_def dispatch_def users_router_def lit_def to_lower_def ascii_lower_def
      demo_login_req_def getUserById_def find_user_by_id_def demo_store_defs)

lemma demo_delete:
  "deletePlace demo_env (oid_str 2) (oid_str 1) demo_world =
     (Sent 200 (JObj [(''message'', JStr ''Deleted!'')]),
      demo_world\<lparr>store := \<lparr>place_docs = [], user_docs = [demo_user\<lparr>places := []\<rparr>]\<rparr>,
                 files := {''uploads/images/u.png''}\<rparr>)"
  by (simp add: deletePlace_def demo_defs store_ops upd_user_def unlink_def)

lemma demo_create_app:
  "fst (app_handle demo_auth_geo_env (demo_create_req\<lparr>authorization := Some ''Bearer t''\<rparr>) demo_world) =
     Reply 201 (JObj [(''place'', place_json False demo_new_place)])"
proof -
  let ?r = "demo_create_req\<lparr>authorization := Some ''Bearer t''\<rparr>"
  have a: "check_auth demo_auth_geo_env ?r = Inr (oid_str 1)"
    by (simp add: check_auth_def demo_auth_geo_env_def)
  have g: "getCoordsForAddress (geocode demo_auth_geo_env) (field_str ?r ''address'') = Inr demo_location"
    by (simp add: demo_auth_geo_env_def demo_geo_env_def getCoordsForAddress_def geo_answer_def demo_create_req_def field_str_def field_def)
  have u: "find_user_by_id (db_faults demo_auth_geo_env) (oid_str 1) (store demo_world) = Inr (Some demo_user)"
    by (simp add: find_user_by_id_def demo_auth_geo_env_def demo_geo_env_def demo_store_defs)
  have np: "new_place demo_auth_geo_env ?r demo_location ''uploads/images/p.png'' (user_id demo_user) = demo_new_place"
    by (simp add: new_place_def demo_auth_geo_env_def demo_geo_env_def demo_create_req_def field_str_def field_def demo_new_place_def
        demo_store_defs)
  have tx: "\<exists>d'. run_tx (db_faults demo_auth_geo_env) [InsPlace demo_new_place, PushRef (user_id demo_user) (place_id demo_new_place)]
      (store demo_world) = Inr d'"
    by (simp add: run_tx_def save_doc_def demo_auth_geo_env_def demo_env_def no_faults_def demo_defs location_ok_def)
  have ck: "place_create_checks ?r = []" by (simp add: demo_create_req_def place_create_checks_ok field_str_def field_def)
  show ?thesis using a g u np tx ck
    by (auto simp: app_handle_def static_file_def dispatch_def places_router_def createPlace_def
        demo_create_req_def lit_def to_lower_def ascii_lower_def run_checks_def file_upload_def Let_def)
qed

lemma demo_create_app_world:
  obtains w' where "app_handle demo_auth_geo_env (demo_create_req\<lparr>authorization := Some ''Bearer t''\<rparr>) demo_world =
     (Reply 201 (JObj [(''place'', place_json False demo_new_place)]), w')"
  using demo_create_app by (metis prod.collapse)

lemma lit_api_not_uploads: "lit a ''api'' \<Longrightarrow> \<not> lit a ''uploads''"
  by (simp add: lit_def)

lemma lit_places_not_users: "lit b ''places'' \<Longrightarrow> \<not> lit b ''users''"
  by (simp add: lit_def)

section \<open>The server keeps its database consistent\<close>

text \<open>
  C1. Every world the server reaches from the empty database, by any sequence of
  requests under any collaborators (database faults included), has a consistent
  database: ids and e-mail addresses are unique, and every place is listed exactly in its
  creator's \<open>places\<close>.
\<close>

theorem reachable_consistent: "reachable w \<Longrightarrow> consistent (store w)"
proof (induction rule: reachable.induct)
  case start
  then show ?case by (simp add: init_world_def consistent_empty_db)
next
  case (step w E req r w')
  show ?case by (rule app_handle_consistent [OF step.IH step.hyps(2)])
qed

theorem reachable_consistent_witness:
  "consistent (store (snd (app_handle demo_env demo_signup_req init_world)))"
proof -
  have "reachable (snd (app_handle demo_env demo_signup_req init_world))"
    by (rule reachable.step [OF reachable.start]) (rule prod.collapse [symmetric])
  then show ?thesis by (rule reachable_consistent)
qed

section \<open>Passwords never leave the server\<close>

text \<open>
  C9. No JSON reply to a request under \<open>/api/users\<close> has a \<open>password\<close> key anywhere: the
  user lists are read with \<open>'-password'\<close>, signup and login answer with the id, e-mail,
  token and image, and errors carry a message only.
\<close>

theorem users_replies_hide_password:
  assumes "segs req = a # b # rest" and "lit a ''api''" and "lit b ''users''"
    and "app_handle E req w = (Reply s v, w')"
  shows "\<not> has_key ''password'' v"
  using assms
  by (auto simp: app_handle_def dispatch_def error_handler_def
      split: option.splits prod.splits outcome.splits
      dest: users_router_no_password error_reply_no_password)

theorem users_replies_hide_password_witness:
  "app_handle demo_env (demo_login_req ''guess12'') demo_world =
     (Reply 403 (JObj [(''message'', JStr ''Invalid credentials, please try again'')]), demo_world) \<and>
   \<not> has_key ''password'' (JObj [(''message'', JStr ''Invalid credentials, please try again'')])"
  using users_replies_hide_password [where req = "demo_login_req ''guess12''" and a = "''api''"
      and b = "''users''" and rest = "[''login'']" and E = demo_env and w = demo_world and s = 403
      and v = "JObj [(''message'', JStr ''Invalid credentials, please try again'')]" and w' = demo_world]
    demo_login_wrong_reply
  by (simp add: demo_login_req_def lit_def to_lower_def ascii_lower_def)


section \<open>A created place is read back by its id\<close>

text \<open>
  C12. The id the API prints for a new place fetches it: when the server answers a
  request 201 with a place on a consistent database, an (unauthenticated) \<open>GET\<close> of
  \<open>/api/places/s\<close>, for the \<open>_id\<close> string \<open>s\<close> of that reply, is answered 200 with
  the same place, now with its \<open>id\<close> getter.
\<close>

theorem created_place_fetched_by_id:
  assumes c: "consistent (store w)"
    and cr: "app_handle E req w = (Reply 201 (JObj [(''place'', pv)]), w')"
    and i: "get_prop pv ''_id'' = Inr (JStr s)"
    and g: "meth greq = GET" and sg: "segs greq = [a, b, s]" and la: "lit a ''api''" and lb: "lit b ''places''"
    and nf: "\<not> db_faults E' FindPlace"
  shows "\<exists>p. pv = place_json False p \<and>
           app_handle E' greq w' = (Reply 200 (JObj [(''place'', place_json True p)]), w')"
proof -
  from app_handle_created_place [OF cr] c obtain p where pv: "pv = place_json False p"
    and p: "p \<in> set (place_docs (store w'))" and c': "consistent (store w')" by blast
  have s: "s = oid_str (place_id p)" using i pv by (simp add: place_json_def)
  have "getPlaceById E' s (store w') = Sent 200 (JObj [(''place'', place_json True p)])"
    using find_place_by_id_member [OF c' p, of "db_faults E'"] nf s by (simp add: getPlaceById_def)
  moreover have "static_file greq w' = None" using sg la lit_api_not_uploads by (simp add: static_file_def)
  ultimately show ?thesis using pv g sg la lb lit_places_not_users
    by (intro exI [of _ p]) (simp add: app_handle_def dispatch_def places_router_def)
qed

theorem created_place_fetched_by_id_witness:
  "\<exists>w'. app_handle demo_auth_geo_env (demo_create_req\<lparr>authorization := Some ''Bearer t''\<rparr>) demo_world =
          (Reply 201 (JObj [(''place'', place_json False demo_new_place)]), w') \<and>
        (\<exists>p. place_json False demo_new_place = place_json False p \<and>
           app_handle demo_env ((demo_login_req ''x'')\<lparr>meth := GET, segs := [''api'', ''places'', oid_str 3]\<rparr>) w' =
             (Reply 200 (JObj [(''place'', place_json True p)]), w'))"
proof -
  obtain w' where cr: "app_handle demo_auth_geo_env (demo_create_req\<lparr>authorization := Some ''Bearer t''\<rparr>) demo_world =
     (Reply 201 (JObj [(''place'', place_json False demo_new_place)]), w')" by (rule demo_create_app_world)
  have "\<exists>p. place_json False demo_new_place = place_json False p \<and>
           app_handle demo_env ((demo_login_req ''x'')\<lparr>meth := GET, segs := [''api'', ''places'', oid_str 3]\<rparr>) w' =
             (Reply 200 (JObj [(''place'', place_json True p)]), w')"
    by (rule created_place_fetched_by_id [OF demo_world_consistent cr, where a = "''api''" and b = "''places''"])
       (simp_all add: place_json_def demo_new_place_def lit_def to_lower_def ascii_lower_def demo_env_def no_faults_def)
  with cr show ?thesis by blast
qed

section \<open>Errors without a code\<close>

text \<open>
  C18. An error without a \<open>code\<close> that reaches the error middleware is answered with
  status 500 (\<open>err.code || 500\<close>) and its own message. Such errors arise where a
  \<open>TypeError\<close> is caught and passed on: when the geocoder's answer makes
  \<open>getCoordsForAddress\<close> throw one, the authenticated, valid creation is answered 500
  with the \<open>TypeError\<close>'s message, the database is unchanged, and the upload is deleted.
\<close>

theorem create_geocode_TypeError_500:
  assumes "segs req = [a, b]" and "lit a ''api''" and "lit b ''places''" and "meth req = POST"
    and "check_auth E req = Inr uid" and "errors req = []" and "place_create_checks req = []"
    and geo: "geocode E (field_str req ''address'') = HttpOk data"
    and te: "getCoordsForAddress (geocode E) (field_str req ''address'') = Inl (TypeError m)"
    and "upload req = Some f" and "\<not> unlink_fails E f"
  shows "app_handle E req w = (Reply 500 (JObj [(''message'', JStr m)]), w\<lparr>files := files w - {f}\<rparr>)"
proof -
  have "m \<noteq> []"
    using getCoords_answer_errors [OF geo te] read_error_message
    by (auto simp: not_found_error_def read_error_def)
  moreover have "\<not> lit b ''users''" using assms(3) by (simp add: lit_def)
  moreover have "static_file req w = None" using assms(1) by (simp add: static_file_def)
  moreover have "run_checks [] req = req" by (simp add: run_checks_def)
  ultimately show ?thesis using assms
    by (simp add: app_handle_def dispatch_def places_router_def createPlace_def error_handler_def
        error_reply_def js_or_def file_upload_def unlink_def)
qed

theorem create_geocode_TypeError_500_witness:
  "app_handle (demo_env\<lparr>geocode := (\<lambda>a. HttpOk (JObj [(''error_message'', JStr ''The provided API key is invalid.''),
       (''results'', JArr []), (''status'', JStr ''REQUEST_DENIED'')]))\<rparr>)
     (demo_create_req\<lparr>authorization := Some ''Bearer *|1x''\<rparr>) demo_world =
   (Reply 500 (JObj [(''message'', JStr ''Cannot read properties of undefined (reading geometry)'')]),
    demo_world\<lparr>files := files demo_world - {''uploads/images/p.png''}\<rparr>)"
  by (rule create_geocode_TypeError_500 [where a = "''api''" and b = "''places''" and uid = "''1''"
        and data = "JObj [(''error_message'', JStr ''The provided API key is invalid.''),
       (''results'', JArr []), (''status'', JStr ''REQUEST_DENIED'')]"])
     (simp_all add: demo_create_req_def lit_def to_lower_def ascii_lower_def check_auth_def demo_store_defs
      demo_verify_def place_create_checks_ok field_str_def field_def getCoordsForAddress_def read_error_def)

section \<open>Routing\<close>

text \<open>
  C21. A request that is not for a stored file and whose path does not start with
  \<open>/api\<close> is answered 404 with the not-found message, and changes nothing.
\<close>

theorem unmatched_route_404:
  assumes "static_file req w = None" and "\<forall>a rest. segs req = a # rest \<longrightarrow> \<not> lit a ''api''"
  shows "app_handle E req w = (Reply 404 (JObj [(''message'', JStr ''Could not find this route.'')]), w)"
  using assms
  by (auto simp: app_handle_def dispatch_def error_handler_def error_reply_def not_found_def no_file_def js_or_def
      split: list.splits)

theorem unmatched_route_404_witness:
  "app_handle demo_env ((demo_login_req ''x'')\<lparr>segs := [''about'']\<rparr>) demo_world =
     (Reply 404 (JObj [(''message'', JStr ''Could not find this route.'')]), demo_world)"
  by (rule unmatched_route_404)
     (simp_all add: static_file_def demo_login_req_def lit_def to_lower_def ascii_lower_def)

text \<open>
  C22. The places router authenticates before anything else matches: a request without
  credentials to a path under \<open>/api/places\<close> that no route of it serves is answered 403,
  not the 404 of an unknown route.
\<close>

theorem places_unmatched_needs_auth:
  assumes "segs req = a # b # rest" and "lit a ''api''" and "lit b ''places''" and "3 \<le> length rest"
    and "authorization req = None"
  shows "app_handle E req w = (Reply 403 (JObj [(''message'', JStr ''Authentication failed!'')]), w)"
proof -
  have "\<not> lit b ''users''" using assms(3) by (simp add: lit_def)
  moreover have "static_file req w = None" using assms(1,4) by (auto simp: static_file_def split: list.splits)
  ultimately show ?thesis using assms
    by (simp add: app_handle_def dispatch_def places_router_def check_auth_def auth_error_def
        error_handler_def error_reply_def no_file_def js_or_def)
qed

theorem places_unmatched_needs_auth_witness:
  "app_handle demo_env ((demo_login_req ''x'')\<lparr>segs := [''api'', ''places'', ''a'', ''b'', ''c'']\<rparr>) demo_world =
     (Reply 403 (JObj [(''message'', JStr ''Authentication failed!'')]), demo_world)"
  by (rule places_unmatched_needs_auth [where a = "''api''" and b = "''places''" and rest = "[''a'', ''b'', ''c'']"])
     (simp_all add: demo_login_req_def lit_def to_lower_def ascii_lower_def)

section \<open>A failed creation leaves no upload behind\<close>

text \<open>
  C23. An authenticated, valid request to create a place whose address the geocoder
  cannot resolve is answered 404 with the adapter's message; the database is unchanged, and
  the error middleware deletes the image multer stored for the request.
\<close>

theorem create_geocode_failure_cleans_up:
  assumes "segs req = [a, b]" and "lit a ''api''" and "lit b ''places''" and "meth req = POST"
    and "check_auth E req = Inr uid" and "errors req = []" and "place_create_checks req = []"
    and "getCoordsForAddress (geocode E) (field_str req ''address'') = Inl not_found_error"
    and "upload req = Some f" and "\<not> unlink_fails E f"
  shows "app_handle E req w =
           (Reply 404 (JObj [(''message'', JStr ''Could not find location for the address given'')]),
            w\<lparr>files := files w - {f}\<rparr>)"
proof -
  have "\<not> lit b ''users''" using assms(3) by (simp add: lit_def)
  moreover have "static_file req w = None" using assms(1) by (simp add: static_file_def)
  moreover have "run_checks [] req = req" by (simp add: run_checks_def)
  ultimately show ?thesis using assms
    by (simp add: app_handle_def dispatch_def places_router_def createPlace_def error_handler_def
        error_reply_def not_found_error_def js_or_def file_upload_def unlink_def)
qed

theorem create_geocode_failure_cleans_up_witness:
  "app_handle demo_env (demo_create_req\<lparr>authorization := Some ''Bearer *|1x''\<rparr>) demo_world =
     (Reply 404 (JObj [(''message'', JStr ''Could not find location for the address given'')]),
      demo_world\<lparr>files := files demo_world - {''uploads/images/p.png''}\<rparr>)"
  by (rule create_geocode_failure_cleans_up [where a = "''api''" and b = "''places''" and uid = "''1''"])
     (simp_all add: demo_create_req_def lit_def to_lower_def ascii_lower_def check_auth_def demo_store_defs
      demo_verify_def place_create_checks_ok field_str_def field_def getCoordsForAddress_def not_found_error_def)


section \<open>Which requests go unanswered\<close>

text \<open>
  C25. A request is left without any reply only when its handler throws a
  \<open>TypeError\<close> outside a \<open>try\<close> (the unguarded reads and the class call of C13 to C16):
  every failure of the database, the geocoder, bcrypt, jsonwebtoken, every failed check
  and every unknown route is answered.
\<close>

theorem unanswered_only_on_TypeError:
  assumes "app_handle E req w = (NoReply, w')"
  shows "\<exists>m req'. dispatch E req w = (Rejected (TypeError m), w', req')"
  using assms dispatch_rejected_TypeError
  by (auto simp: app_handle_def error_handler_def error_reply_def
      split: option.splits prod.splits outcome.splits jsval.splits if_splits)

theorem unanswered_only_on_TypeError_witness:
  "\<exists>m req'. dispatch demo_env ((demo_login_req ''x'')\<lparr>meth := GET, segs := [''api'', ''users'', oid_str 7]\<rparr>)
     demo_world = (Rejected (TypeError m), demo_world, req')"
  by (rule unanswered_only_on_TypeError [OF demo_missing_user_unanswered])

text \<open>
  C26. A login whose body has no e-mail is answered 500 with the lookup's message and
  changes nothing: \<open>email.toLowerCase()\<close> throws inside the \<open>try\<close> around
  \<open>User.findOne\<close>, so its \<open>TypeError\<close> is caught like a failed lookup.
\<close>

theorem login_without_email_500:
  assumes "segs req = [a, b, s]" and "lit a ''api''" and "lit b ''users''" and "lit s ''login''"
    and "meth req = POST" and "field req ''email'' = None"
  shows "app_handle E req w = (Reply 500 (JObj [(''message'', JStr ''Could not log in, please try again'')]), w)"
proof -
  have "static_file req w = None" using assms(1,2) lit_api_not_uploads by (simp add: static_file_def)
  moreover have "\<not> lit s ''signup''" using assms(4) by (simp add: lit_def)
  ultimately show ?thesis using assms
    by (simp add: app_handle_def dispatch_def users_router_def loginUser_def no_file_def field_def
        error_handler_def error_reply_def js_or_def)
qed

theorem login_without_email_500_witness:
  "app_handle demo_env ((demo_login_req ''secret1'')\<lparr>body := [(''password'', ''secret1'')]\<rparr>) demo_world =
     (Reply 500 (JObj [(''message'', JStr ''Could not log in, please try again'')]), demo_world)"
  by (rule login_without_email_500 [where a = "''api''" and b = "''users''" and s = "''login''"])
     (simp_all add: demo_login_req_def lit_def to_lower_def ascii_lower_def field_def)

section \<open>Uploaded images\<close>

text \<open>
  C30. Deleting a place deletes its image: after a successful \<open>deletePlace\<close> on a
  consistent database (and an \<open>fs.unlink\<close> that does not fail), the static route no
  longer serves the deleted place's image.
\<close>

theorem deleted_image_not_served:
  assumes c: "consistent (store w)" and d: "deletePlace E pid uid w = (Sent s v, w')"
    and i: "cast_oid pid = Some (place_id p)" and p: "p \<in> set (place_docs (store w))"
    and img: "image p = ''uploads/images/'' @ f" and ul: "\<not> unlink_fails E (image p)"
    and g: "meth req = GET" and sg: "segs req = [a, b, f]"
  shows "static_file req w' = None"
proof -
  from deletePlace_Sent [OF d] obtain q u
    where fq: "find_place_populated (db_faults E) pid (store w) = Inr (Some (q, Some u))"
      and fw: "files w' = unlink E (image q) (files w)"
    by blast
  from find_place_populated_Some [OF fq] have q: "q \<in> set (place_docs (store w))"
    and iq: "cast_oid pid = Some (place_id q)" by auto
  have "distinct (map place_id (place_docs (store w)))" using c by (simp add: consistent_def keys_ok_def)
  moreover have "place_id q = place_id p" using i iq by simp
  ultimately have "q = p" using p q by (metis distinct_map inj_on_eq_iff)
  then have "image p \<notin> files w'" using ul fw by (simp add: unlink_def)
  then show ?thesis using g sg img by (simp add: static_file_def)
qed

theorem deleted_image_not_served_witness:
  "static_file ((demo_login_req ''x'')\<lparr>meth := GET, segs := [''uploads'', ''images'', ''a.png'']\<rparr>)
     (demo_world\<lparr>store := \<lparr>place_docs = [], user_docs = [demo_user\<lparr>places := []\<rparr>]\<rparr>,
                 files := {''uploads/images/u.png''}\<rparr>) = None"
  by (rule deleted_image_not_served [OF demo_world_consistent demo_delete, where p = demo_place])
     (simp_all add: demo_store_defs demo_login_req_def)

text \<open>
  C36. The image of a new place is served: after the server answers a request 201 with a
  place whose \<open>image\<close> is \<open>uploads/images/f\<close>, a \<open>GET\<close> of
  \<open>/uploads/images/f\<close> (the prefix in any letter case) is answered with that file. The
  path the place records is the one multer stored, and a successful creation keeps it.
\<close>

theorem created_image_served:
  assumes cr: "app_handle E req w = (Reply 201 (JObj [(''place'', pv)]), w')"
    and img: "get_prop pv ''image'' = Inr (JStr (''uploads/images/'' @ f))"
    and g: "meth greq = GET" and sg: "segs greq = [a, b, f]" and la: "lit a ''uploads''" and lb: "lit b ''images''"
  shows "app_handle E' greq w' = (FileReply (''uploads/images/'' @ f), w')"
proof -
  from app_handle_created_place [OF cr] obtain p where pv: "pv = place_json False p"
    and up: "upload req = Some (image p)" and fs: "files w' = files (file_upload req w)" by blast
  have "image p = ''uploads/images/'' @ f" using img pv by (simp add: place_json_def)
  then have "''uploads/images/'' @ f \<in> files w'" using up fs by (simp add: file_upload_def)
  then show ?thesis using g sg la lb by (simp add: app_handle_def static_file_def)
qed

theorem created_image_served_witness:
  "\<exists>w'. app_handle demo_auth_geo_env (demo_create_req\<lparr>authorization := Some ''Bearer t''\<rparr>) demo_world =
          (Reply 201 (JObj [(''place'', place_json False demo_new_place)]), w') \<and>
        app_handle demo_env ((demo_login_req ''x'')\<lparr>meth := GET, segs := [''uploads'', ''images'', ''p.png'']\<rparr>) w' =
          (FileReply ''uploads/images/p.png'', w')"
proof -
  obtain w' where cr: "app_handle demo_auth_geo_env (demo_create_req\<lparr>authorization := Some ''Bearer t''\<rparr>) demo_world =
     (Reply 201 (JObj [(''place'', place_json False demo_new_place)]), w')" by (rule demo_create_app_world)
  have "app_handle demo_env ((demo_login_req ''x'')\<lparr>meth := GET, segs := [''uploads'', ''images'', ''p.png'']\<rparr>) w' =
          (FileReply (''uploads/images/'' @ ''p.png''), w')"
    by (rule created_image_served [OF cr, where a = "''uploads''" and b = "''images''"])
       (simp_all add: place_json_def demo_new_place_def lit_def to_lower_def ascii_lower_def)
  with cr show ?thesis by simp
qed

section \<open>Errors of the geocoding transport\<close>

text \<open>
  C35. An axios error carries a string code (\<open>ECONNREFUSED\<close>, say); the error
  middleware passes it to \<open>res.status\<close>, which throws, and Express's final handler
  answers a plain-text 500 instead of the JSON \<open>{ message }\<close> body; the upload is still
  deleted.
\<close>

theorem create_axios_error_plain_500:
  assumes "segs req = [a, b]" and "lit a ''api''" and "lit b ''places''" and "meth req = POST"
    and "check_auth E req = Inr uid" and "errors req = []" and "place_create_checks req = []"
    and "geocode E (field_str req ''address'') = HttpFail (AxiosError m (Some c))" and "c \<noteq> []"
    and "upload req = Some f" and "\<not> unlink_fails E f"
  shows "app_handle E req w = (PlainReply 500 ''Internal Server Error'', w\<lparr>files := files w - {f}\<rparr>)"
proof -
  have "\<not> lit b ''users''" using assms(3) by (simp add: lit_def)
  moreover have "static_file req w = None" using assms(1) by (simp add: static_file_def)
  moreover have "run_checks [] req = req" by (simp add: run_checks_def)
  ultimately show ?thesis using assms
    by (simp add: app_handle_def dispatch_def places_router_def createPlace_def getCoordsForAddress_def
        error_handler_def error_reply_def js_or_def file_upload_def unlink_def)
qed

theorem create_axios_error_plain_500_witness:
  "app_handle (demo_env\<lparr>geocode := (\<lambda>a. HttpFail (AxiosError ''connect ECONNREFUSED'' (Some ''ECONNREFUSED'')))\<rparr>)
     (demo_create_req\<lparr>authorization := Some ''Bearer *|1x''\<rparr>) demo_world =
   (PlainReply 500 ''Internal Server Error'', demo_world\<lparr>files := files demo_world - {''uploads/images/p.png''}\<rparr>)"
  by (rule create_axios_error_plain_500 [where a = "''api''" and b = "''places''" and uid = "''1''"
        and m = "''connect ECONNREFUSED''" and c = "''ECONNREFUSED''"])
     (simp_all add: demo_create_req_def lit_def to_lower_def ascii_lower_def check_auth_def demo_store_defs
      demo_verify_def place_create_checks_ok field_str_def field_def)

section \<open>Requests through the whole stack\<close>

text \<open>
  C37. The owner deletes a place through the whole stack: a \<open>DELETE\<close> of
  \<open>/api/places/:pid\<close> whose token names the owner, on a consistent database without faults,
  passes authentication, routing and the handler, and is answered 200 with the place gone.
\<close>

theorem owner_delete_via_app:
  assumes sg: "segs req = [a, b, pid]" and la: "lit a ''api''" and lb: "lit b ''places''"
    and m: "meth req = DELETE" and au: "check_auth E req = Inr (oid_str (user_id u))"
    and c: "consistent (store w)" and p: "p \<in> set (place_docs (store w))"
    and i: "cast_oid pid = Some (place_id p)" and u: "u \<in> set (user_docs (store w))"
    and own: "user_id u = creator p" and nf: "db_faults E = no_faults"
  shows "\<exists>w'. app_handle E req w = (Reply 200 (JObj [(''message'', JStr ''Deleted!'')]), w') \<and>
              place_id p \<notin> place_id ` set (place_docs (store w'))"
proof -
  have "distinct (map place_id (place_docs (store w)))" and "distinct (map user_id (user_docs (store w)))"
    using c by (simp_all add: consistent_def keys_ok_def)
  then have fp: "find (\<lambda>x. place_id x = place_id p) (place_docs (store w)) = Some p"
    and fu: "find (\<lambda>x. user_id x = user_id u) (user_docs (store w)) = Some u"
    using p u by (simp_all add: find_key_distinct)
  have pop: "find_place_populated (db_faults E) pid (store w) = Inr (Some (p, Some u))"
    using fp fu i nf own by (simp add: find_place_populated_def find_place_by_id_def no_faults_def)
  have "user_id u \<in> set (map user_id (user_docs (store w)))" using u by simp
  then obtain d' where tx: "run_tx (db_faults E) [DelPlace (place_id p), PullRef (user_id u) (place_id p)] (store w) = Inr d'"
    and gone: "place_docs d' = filter (\<lambda>q. place_id q \<noteq> place_id p) (place_docs (store w))"
    using nf by (simp add: run_tx_def save_doc_def no_faults_def)
  have del: "deletePlace E pid (oid_str (user_id u)) w =
      (Sent 200 (JObj [(''message'', JStr ''Deleted!'')]), w\<lparr>store := d', files := unlink E (image p) (files w)\<rparr>)"
    using pop tx by (simp add: deletePlace_def)
  have "static_file req w = None" using sg la lit_api_not_uploads by (simp add: static_file_def)
  then have "app_handle E req w = (Reply 200 (JObj [(''message'', JStr ''Deleted!'')]),
      w\<lparr>store := d', files := unlink E (image p) (files w)\<rparr>)"
    using sg la lb m au del lit_places_not_users
    by (simp add: app_handle_def dispatch_def places_router_def)
  moreover have "place_id p \<notin> place_id ` set (place_docs d')" using gone by auto
  ultimately show ?thesis by auto
qed

theorem owner_delete_via_app_witness:
  "\<exists>w'. app_handle (demo_env\<lparr>jwt_verify := (\<lambda>t. Some \<lparr>tok_user = oid_str 1, tok_email = ''ann@example.com''\<rparr>)\<rparr>)
          ((demo_login_req ''x'')\<lparr>meth := DELETE, segs := [''api'', ''places'', oid_str 2],
                                 authorization := Some ''Bearer t''\<rparr>) demo_world =
          (Reply 200 (JObj [(''message'', JStr ''Deleted!'')]), w') \<and>
        place_id demo_place \<notin> place_id ` set (place_docs (store w'))"
  by (rule owner_delete_via_app [OF _ _ _ _ _ demo_world_consistent, where a = "''api''" and b = "''places''"
        and pid = "oid_str 2" and u = demo_user])
     (simp_all add: lit_def to_lower_def ascii_lower_def check_auth_def demo_store_defs demo_login_req_def)

text \<open>
  C38. An authenticated place creation that fails the route's checks is answered 422
  before any collaborator is called; the database is unchanged and the upload deleted.
\<close>

theorem create_invalid_input_422:
  assumes "segs req = [a, b]" and "lit a ''api''" and "lit b ''places''" and "meth req = POST"
    and "check_auth E req = Inr uid" and "place_create_checks req \<noteq> []"
    and "upload req = Some f" and "\<not> unlink_fails E f"
  shows "app_handle E req w =
           (Reply 422 (JObj [(''message'', JStr ''Invalid inputs, please check your data'')]),
            w\<lparr>files := files w - {f}\<rparr>)"
proof -
  have "static_file req w = None" using assms(1) by (simp add: static_file_def)
  then show ?thesis using assms lit_places_not_users
    by (simp add: app_handle_def dispatch_def places_router_def createPlace_def run_checks_def
        error_handler_def error_reply_def js_or_def file_upload_def unlink_def)
qed

theorem create_invalid_input_422_witness:
  "app_handle demo_env (demo_create_req\<lparr>authorization := Some ''Bearer *|1x'',
       body := [(''title'', ''''), (''description'', ''A green park''), (''address'', ''2 Elm St'')]\<rparr>) demo_world =
     (Reply 422 (JObj [(''message'', JStr ''Invalid inputs, please check your data'')]),
      demo_world\<lparr>files := files demo_world - {''uploads/images/p.png''}\<rparr>)"
  by (rule create_invalid_input_422 [where a = "''api''" and b = "''places''" and uid = "''1''"])
     (simp_all add: demo_create_req_def lit_def to_lower_def ascii_lower_def check_auth_def demo_store_defs
      demo_verify_def place_create_checks_ok field_str_def field_def)

text \<open>
  C39. A signup that fails the route's checks is answered 422; the database is unchanged
  and the image multer stored is deleted.
\<close>

theorem signup_invalid_input_422:
  assumes "segs req = [a, b, s]" and "lit a ''api''" and "lit b ''users''" and "lit s ''signup''"
    and "meth req = POST" and "signup_checks E req \<noteq> []"
    and "upload req = Some f" and "\<not> unlink_fails E f"
  shows "app_handle E req w =
           (Reply 422 (JObj [(''message'', JStr ''Invalid inputs, please check your data'')]),
            w\<lparr>files := files w - {f}\<rparr>)"
proof -
  have "static_file req w = None" using assms(1,2) lit_api_not_uploads by (simp add: static_file_def)
  moreover have "upload (sanitize_email E (run_checks (signup_checks E req) req)) = Some f"
    using assms(7) by (simp add: sanitize_email_def run_checks_def split: option.split)
  moreover have "errors (sanitize_email E (run_checks (signup_checks E req) req)) \<noteq> []"
    using assms(6) by (simp add: sanitize_email_def run_checks_def split: option.split)
  ultimately show ?thesis using assms
    by (simp add: app_handle_def dispatch_def users_router_def signupUser_def
        error_handler_def error_reply_def js_or_def file_upload_def unlink_def)
qed

theorem signup_invalid_input_422_witness:
  "app_handle demo_env (demo_signup_req\<lparr>body := [(''name'', ''''), (''email'', ''bob@mail.com''), (''password'', ''secret2'')]\<rparr>)
     demo_world =
     (Reply 422 (JObj [(''message'', JStr ''Invalid inputs, please check your data'')]),
      demo_world\<lparr>files := files demo_world - {''uploads/images/v.png''}\<rparr>)"
  by (rule signup_invalid_input_422 [where a = "''api''" and b = "''users''" and s = "''signup''"])
     (simp_all add: demo_signup_req_def lit_def to_lower_def ascii_lower_def demo_store_defs
      signup_checks_def check_def not_empty_def field_str_def field_def)

section \<open>Every reply is JSON\<close>



end
